theory Spec2Isabelle
  imports Complex_Main
begin

section \<open>Numbers and vectors\<close>

text \<open>
  The scene code of \<^verbatim>\<open>src/scene/Canvas3D.jsx\<close> computes on JavaScript numbers. They are
  modelled as \<^typ>\<open>real\<close>: every statement below is about the arithmetic the code
  writes down, read over the reals (no rounding, no NaN, no infinities).

  \<^verbatim>\<open>THREE.Vector3\<close> is the library's mutable vector. Its methods are given here as
  functions returning the new value; where the source mutates a vector in place and
  reads it again, the model threads the mutated value.
\<close>

datatype vec3 = Vector3 (vx: real) (vy: real) (vz: real)

definition setX :: "vec3 \<Rightarrow> real \<Rightarrow> vec3" where
  "setX v a = Vector3 a (vy v) (vz v)"

definition setY :: "vec3 \<Rightarrow> real \<Rightarrow> vec3" where
  "setY v a = Vector3 (vx v) a (vz v)"

definition setZ :: "vec3 \<Rightarrow> real \<Rightarrow> vec3" where
  "setZ v a = Vector3 (vx v) (vy v) a"

definition add_v :: "vec3 \<Rightarrow> vec3 \<Rightarrow> vec3" where
  "add_v a b = Vector3 (vx a + vx b) (vy a + vy b) (vz a + vz b)"

definition subVectors :: "vec3 \<Rightarrow> vec3 \<Rightarrow> vec3" where
  "subVectors a b = Vector3 (vx a - vx b) (vy a - vy b) (vz a - vz b)"

definition multiplyScalar :: "vec3 \<Rightarrow> real \<Rightarrow> vec3" where
  "multiplyScalar v s = Vector3 (vx v * s) (vy v * s) (vz v * s)"

definition divideScalar :: "vec3 \<Rightarrow> real \<Rightarrow> vec3" where
  "divideScalar v s = multiplyScalar v (1 / s)"

definition addScaledVector :: "vec3 \<Rightarrow> vec3 \<Rightarrow> real \<Rightarrow> vec3" where
  "addScaledVector a v s = Vector3 (vx a + vx v * s) (vy a + vy v * s) (vz a + vz v * s)"

definition dot :: "vec3 \<Rightarrow> vec3 \<Rightarrow> real" where
  "dot a b = vx a * vx b + vy a * vy b + vz a * vz b"

definition lengthSq :: "vec3 \<Rightarrow> real" where
  "lengthSq v = vx v * vx v + vy v * vy v + vz v * vz v"

definition length_v :: "vec3 \<Rightarrow> real" where
  "length_v v = sqrt (lengthSq v)"

text \<open>\<^verbatim>\<open>normalize()\<close> is \<^verbatim>\<open>divideScalar(this.length() || 1)\<close>: the zero vector stays zero.\<close>

definition normalize_v :: "vec3 \<Rightarrow> vec3" where
  "normalize_v v = divideScalar v (if length_v v = 0 then 1 else length_v v)"

definition setLength :: "vec3 \<Rightarrow> real \<Rightarrow> vec3" where
  "setLength v l = multiplyScalar (normalize_v v) l"

definition distanceToSquared :: "vec3 \<Rightarrow> vec3 \<Rightarrow> real" where
  "distanceToSquared a b =
     (vx a - vx b) * (vx a - vx b) + (vy a - vy b) * (vy a - vy b) + (vz a - vz b) * (vz a - vz b)"

definition distanceTo :: "vec3 \<Rightarrow> vec3 \<Rightarrow> real" where
  "distanceTo a b = sqrt (distanceToSquared a b)"

text \<open>\<^verbatim>\<open>v.reflect(n)\<close> is \<^verbatim>\<open>v.sub(n * (2 * v.dot(n)))\<close>.\<close>

definition reflect :: "vec3 \<Rightarrow> vec3 \<Rightarrow> vec3" where
  "reflect v n = subVectors v (multiplyScalar n (2 * dot v n))"

definition lerpVectors :: "vec3 \<Rightarrow> vec3 \<Rightarrow> real \<Rightarrow> vec3" where
  "lerpVectors a b alpha =
     Vector3 (vx a + (vx b - vx a) * alpha) (vy a + (vy b - vy a) * alpha) (vz a + (vz b - vz a) * alpha)"

text \<open>\<^verbatim>\<open>THREE.MathUtils.clamp(value, min, max)\<close>.\<close>

definition clamp :: "real \<Rightarrow> real \<Rightarrow> real \<Rightarrow> real" where
  "clamp a lo hi = max lo (min hi a)"

text \<open>\<^verbatim>\<open>THREE.Box3\<close> and its \<^verbatim>\<open>clampPoint\<close>.\<close>

record box3 =
  box_min :: vec3
  box_max :: vec3

definition clampPoint :: "box3 \<Rightarrow> vec3 \<Rightarrow> vec3" where
  "clampPoint b p =
     Vector3 (max (vx (box_min b)) (min (vx (box_max b)) (vx p)))
             (max (vy (box_min b)) (min (vy (box_max b)) (vy p)))
             (max (vz (box_min b)) (min (vz (box_max b)) (vz p)))"

section \<open>Constants of the scene\<close>

definition BALL_RADIUS :: real where
  "BALL_RADIUS = 0.6"

definition HOLE_RADIUS :: real where
  "HOLE_RADIUS = BALL_RADIUS * 2"

definition COURSE_SIZE :: real where
  "COURSE_SIZE = 22"

definition COURSE_LIMIT :: real where
  "COURSE_LIMIT = COURSE_SIZE / 2 - 0.6"

text \<open>The stationary threshold \<^verbatim>\<open>1e-6\<close> on the squared speed.\<close>

definition EPS :: real where
  "EPS = 1 / 1000000"

section \<open>Scene data\<close>

text \<open>
  A \<^verbatim>\<open>THREE.Mesh\<close> as far as the stepping code reads or writes it: its geometry, its
  position, its Euler rotation and its (uniform) scale.
\<close>

datatype geometry =
    BoxGeometry real real real
  | SphereGeometry real
  | CircleGeometry real

record mesh =
  geometry :: geometry
  position :: vec3
  rotation :: vec3
  scale :: real

text \<open>
  The entries pushed on \<^verbatim>\<open>obstacles\<close>, one constructor for each \<^verbatim>\<open>type\<close> string with the
  fields the source gives that type:
  \<^verbatim>\<open>{mesh, type: "box"}\<close>,
  \<^verbatim>\<open>{mesh, type: "moving", axis, amplitude, speed, basePos}\<close>,
  \<^verbatim>\<open>{mesh, type: "rotating", speed}\<close>,
  \<^verbatim>\<open>{mesh, type: "ramp", data: {width, depth, height}}\<close>,
  \<^verbatim>\<open>{mesh, type: "water", center, radius}\<close>.
\<close>

datatype obstacle =
    Box mesh
  | Moving mesh string real real vec3
  | Rotating mesh real
  | Ramp mesh real real real
  | Water mesh vec3 real

text \<open>\<^verbatim>\<open>a || d\<close> on numbers: the default replaces a zero.\<close>

definition orDefault :: "real \<Rightarrow> real \<Rightarrow> real" where
  "orDefault a d = (if a = 0 then d else a)"

definition boxMesh :: "real \<Rightarrow> real \<Rightarrow> real \<Rightarrow> vec3 \<Rightarrow> vec3 \<Rightarrow> mesh" where
  "boxMesh w h d pos rot = \<lparr>geometry = BoxGeometry w h d, position = pos, rotation = rot, scale = 1\<rparr>"

text \<open>Hole placement per level.\<close>

definition holePosition :: "int \<Rightarrow> vec3" where
  "holePosition lvl =
     (if lvl = 5 then Vector3 10 0.05 0
      else if lvl = 4 then Vector3 (- 5) 0.05 (- 4)
      else if lvl = 3 then Vector3 6 0.05 (- 6)
      else if lvl = 2 then Vector3 0 0.05 (- 14)
      else Vector3 5 0.05 (- 3))"

text \<open>The level-specific obstacles, in the order they are pushed.\<close>

definition plank :: "nat \<Rightarrow> obstacle" where
  "plank i =
     Rotating (boxMesh 5.2 0.35 0.9 (Vector3 (- 6 + real i * 3.6) 0.15 (- 3 + real i * (- 1.2))) (Vector3 0 0 0))
       (0.6 + real i * 0.25)"

definition levelObstacles :: "int \<Rightarrow> obstacle list" where
  "levelObstacles lvl =
     (if lvl = 2 then
        [Ramp (boxMesh 6 0.5 8 (Vector3 0 0.25 (- 10)) (Vector3 (- pi / 12) 0 0)) 6 8 1.4,
         Box (boxMesh 0.6 1.2 3.5 (Vector3 3.2 0.6 (- 6)) (Vector3 0 0 0)),
         Box (boxMesh 0.6 1.2 3.5 (Vector3 (- 2.2) 0.6 (- 4.2)) (Vector3 0 0 0)),
         Moving (boxMesh 1.2 1.0 1.2 (Vector3 0 0.6 (- 12)) (Vector3 0 0 0)) ''x'' 3.0 1.2 (Vector3 0 0.6 (- 12))]
      else if lvl = 3 then
        map plank [0, 1, 2, 3] @
        [Ramp (boxMesh 5 0.5 6 (Vector3 5 0.25 (- 6)) (Vector3 (- pi / 14) 0 0)) 5 6 1.2]
      else if lvl = 4 then
        [Water \<lparr>geometry = CircleGeometry 3.6, position = Vector3 (- 4) 0.02 (- 4),
                 rotation = Vector3 (- pi / 2) 0 0, scale = 1\<rparr> (Vector3 (- 4) 0.02 (- 4)) 3.6,
         Box (boxMesh 1.6 0.4 1.6 (Vector3 (- 4) 0.2 (- 2.8)) (Vector3 0 0 0))]
      else if lvl = 5 then
        [Ramp (boxMesh 6 0.6 3 (Vector3 (- 6) 0.3 2) (Vector3 (- pi / 18) 0 0)) 6 3 1.2,
         Ramp (boxMesh 6 0.6 3 (Vector3 2 0.3 (- 0.5)) (Vector3 (pi / 18) 0 0)) 6 3 1.2]
      else [])"

text \<open>
  \<^verbatim>\<open>sinkingRef.current\<close>: \<^verbatim>\<open>{active, t, start, end}\<close>; \<^verbatim>\<open>start\<close> and \<^verbatim>\<open>end\<close> are
  \<^verbatim>\<open>null\<close> until the first sink.
\<close>

record sinking =
  active :: bool
  sink_t :: real
  sink_start :: "vec3 option"
  sink_end :: "vec3 option"

text \<open>
  What one level load fixes for the closures of the effect: the level, the
  \<^verbatim>\<open>holeDone\<close> prop as the effect captured it, whether \<^verbatim>\<open>onHoleComplete\<close> is a
  function, and the library's \<^verbatim>\<open>new THREE.Box3().setFromObject(mesh)\<close>, which is not
  part of the repository and is taken as given.
\<close>

record scene =
  level :: int
  holeDone :: bool
  onHoleComplete_is_function :: bool
  setFromObject :: "mesh \<Rightarrow> box3"

text \<open>
  The refs and closure variables the stepping code and the input handlers share.
  \<open>holeCompleteCalls\<close> counts the calls of \<^verbatim>\<open>onHoleComplete()\<close>; each entry of
  \<open>trajDots\<close> is a preview dot's position and its \<^verbatim>\<open>visible\<close> flag. Rendering, camera,
  flag, confetti, audio and the parent's stroke counter are left out: nothing below
  reads them.
\<close>

record state =
  ball :: mesh
  velocity :: vec3
  sinking :: sinking
  holeTriggered :: bool
  obstacles :: "obstacle list"
  obstacleTime :: real
  last_now :: real
  isAiming :: bool
  dragStart :: "vec3 option"
  trajDots :: "(vec3 \<times> bool) list"
  holeCompleteCalls :: nat

definition initState :: "int \<Rightarrow> real \<Rightarrow> state" where
  "initState lvl now0 =
     \<lparr>ball = \<lparr>geometry = SphereGeometry BALL_RADIUS, position = Vector3 0 BALL_RADIUS 0,
               rotation = Vector3 0 0 0, scale = 1\<rparr>,
      velocity = Vector3 0 0 0,
      sinking = \<lparr>active = False, sink_t = 0, sink_start = None, sink_end = None\<rparr>,
      holeTriggered = False,
      obstacles = levelObstacles lvl,
      obstacleTime = 0,
      last_now = now0,
      isAiming = False,
      dragStart = None,
      trajDots = replicate 40 (Vector3 0 0 0, False),
      holeCompleteCalls = 0\<rparr>"

datatype error = TypeError

section \<open>Motion integration (the body of \<^verbatim>\<open>animate\<close>, velocity to position)\<close>

text \<open>
  \<^verbatim>\<open>const speed = vel.length(); const decel = localFriction * dt;
  const newSpeed = Math.max(0, speed - decel); vel.setLength(newSpeed);\<close>
\<close>

definition frictionDecay :: "real \<Rightarrow> real \<Rightarrow> vec3 \<Rightarrow> vec3" where
  "frictionDecay localFriction dt vel =
     (let speed = length_v vel;
          decel = localFriction * dt;
          newSpeed = max 0 (speed - decel)
      in setLength vel newSpeed)"

text \<open>
  The four wall tests, each on the pair (ball position, velocity), composed in the
  order of the source: each reads the position the previous one may have written.
\<close>

definition wallLowX :: "vec3 \<times> vec3 \<Rightarrow> vec3 \<times> vec3" where
  "wallLowX pv =
     (if vx (fst pv) < - COURSE_LIMIT
      then (setX (fst pv) (- COURSE_LIMIT), setX (snd pv) (vx (snd pv) * (- 0.8))) else pv)"

definition wallHighX :: "vec3 \<times> vec3 \<Rightarrow> vec3 \<times> vec3" where
  "wallHighX pv =
     (if vx (fst pv) > COURSE_LIMIT
      then (setX (fst pv) COURSE_LIMIT, setX (snd pv) (vx (snd pv) * (- 0.8))) else pv)"

definition wallLowZ :: "vec3 \<times> vec3 \<Rightarrow> vec3 \<times> vec3" where
  "wallLowZ pv =
     (if vz (fst pv) < - COURSE_LIMIT
      then (setZ (fst pv) (- COURSE_LIMIT), setZ (snd pv) (vz (snd pv) * (- 0.8))) else pv)"

definition wallHighZ :: "vec3 \<times> vec3 \<Rightarrow> vec3 \<times> vec3" where
  "wallHighZ pv =
     (if vz (fst pv) > COURSE_LIMIT
      then (setZ (fst pv) COURSE_LIMIT, setZ (snd pv) (vz (snd pv) * (- 0.8))) else pv)"

definition wallCollisions :: "vec3 \<Rightarrow> vec3 \<Rightarrow> vec3 \<times> vec3" where
  "wallCollisions p v = wallHighZ (wallLowZ (wallHighX (wallLowX (p, v))))"

text \<open>
  \<^verbatim>\<open>if (vel.lengthSq() > 1e-6) { ...friction...; position.addScaledVector(vel, dt); ...walls... }\<close>
  on the pair (ball position, velocity).
\<close>

definition integrate :: "real \<Rightarrow> real \<Rightarrow> vec3 \<Rightarrow> vec3 \<Rightarrow> vec3 \<times> vec3" where
  "integrate localFriction dt p vel =
     (if lengthSq vel > EPS then
        (let v1 = frictionDecay localFriction dt vel;
             p1 = addScaledVector p v1 dt
         in wallCollisions p1 v1)
      else (p, vel))"

section \<open>Obstacle collisions\<close>

definition sphereIntersectsBox :: "(mesh \<Rightarrow> box3) \<Rightarrow> vec3 \<Rightarrow> real \<Rightarrow> mesh \<Rightarrow> bool" where
  "sphereIntersectsBox sfo spherePos r boxM =
     (let box = sfo boxM;
          closest = clampPoint box spherePos
      in distanceTo closest spherePos \<le> r)"

text \<open>
  One iteration of the loop of \<^verbatim>\<open>handleObstacleCollisions\<close>: the ball position, the
  velocity and the obstacle after it. In the moving case \<^verbatim>\<open>dir.multiplyScalar(5)\<close>
  scales \<^verbatim>\<open>dir\<close> in place, so the later \<^verbatim>\<open>dir.multiplyScalar(-0.04)\<close> scales the
  already scaled vector.
\<close>

fun collideObstacle :: "(mesh \<Rightarrow> box3) \<Rightarrow> obstacle \<Rightarrow> vec3 \<Rightarrow> vec3 \<Rightarrow> vec3 \<times> vec3 \<times> obstacle" where
  "collideObstacle sfo (Box m) ballPos vel =
     (if sphereIntersectsBox sfo ballPos BALL_RADIUS m then
        (let dir0 = normalize_v (setY (subVectors ballPos (position m)) 0);
             dir = (if lengthSq dir0 < EPS then Vector3 1 0 0 else dir0)
         in (add_v ballPos (multiplyScalar dir 0.04), multiplyScalar (reflect vel dir) 0.7, Box m))
      else (ballPos, vel, Box m))"
| "collideObstacle sfo (Moving m ax amplitude spd basePos) ballPos vel =
     (let d = distanceTo (position m) ballPos;
          minDist = BALL_RADIUS + 0.6
      in if d < minDist then
           (let dir = normalize_v (subVectors ballPos (position m));
                dir5 = multiplyScalar dir 5;
                dirBack = multiplyScalar dir5 (- 0.04)
            in (ballPos, add_v vel dir5,
                Moving (m\<lparr>position := add_v (position m) dirBack\<rparr>) ax amplitude spd basePos))
         else (ballPos, vel, Moving m ax amplitude spd basePos))"
| "collideObstacle sfo (Rotating m spd) ballPos vel =
     (let b = sfo m;
          closest = clampPoint b ballPos
      in if distanceTo closest ballPos \<le> BALL_RADIUS + 0.02 then
           (let dir = normalize_v (setY (subVectors ballPos (position m)) 0)
            in (add_v ballPos (multiplyScalar dir 0.03), multiplyScalar (reflect vel dir) 0.75,
                Rotating m spd))
         else (ballPos, vel, Rotating m spd))"
| "collideObstacle sfo (Ramp m width depth0 height0) ballPos vel =
     (let w = orDefault width 4;
          depth = orDefault depth0 6;
          center = position m;
          dx = \<bar>vx ballPos - vx center\<bar>;
          dz = \<bar>vz ballPos - vz center\<bar>
      in if dx < w / 2 + 0.6 \<and> dz < depth / 2 + 0.6 then
           (let localZ = (vz ballPos - (vz center - depth / 2)) / depth;
                t = clamp localZ 0 1;
                height = orDefault height0 1.2 * t
            in (setY ballPos (BALL_RADIUS + height), setY vel (vy vel * 0.2), Ramp m width depth0 height0))
         else (ballPos, vel, Ramp m width depth0 height0))"
| "collideObstacle sfo (Water m c r) ballPos vel = (ballPos, vel, Water m c r)"

fun handleObstacleCollisions ::
  "(mesh \<Rightarrow> box3) \<Rightarrow> obstacle list \<Rightarrow> vec3 \<Rightarrow> vec3 \<Rightarrow> vec3 \<times> vec3 \<times> obstacle list" where
  "handleObstacleCollisions sfo [] ballPos vel = (ballPos, vel, [])"
| "handleObstacleCollisions sfo (ob # obs) ballPos vel =
     (case collideObstacle sfo ob ballPos vel of
        (p1, v1, ob1) \<Rightarrow>
          (case handleObstacleCollisions sfo obs p1 v1 of
             (p2, v2, obs2) \<Rightarrow> (p2, v2, ob1 # obs2)))"

section \<open>The frame function \<^verbatim>\<open>animate\<close>\<close>

text \<open>The update of rotating and moving obstacles; \<open>time\<close> is \<^verbatim>\<open>obstacleTime\<close> after its increment.\<close>

fun animateObstacle :: "real \<Rightarrow> real \<Rightarrow> obstacle \<Rightarrow> obstacle" where
  "animateObstacle time dt (Rotating m spd) =
     Rotating (m\<lparr>rotation := setY (rotation m) (vy (rotation m) + orDefault spd 0.6 * dt)\<rparr>) spd"
| "animateObstacle time dt (Moving m ax amplitude spd basePos) =
     (let amp = orDefault amplitude 2.2;
          s = orDefault spd 1.0
      in if ax = ''x'' then
           Moving (m\<lparr>position := setX (position m) (vx basePos + sin (time * s) * amp)\<rparr>) ax amplitude spd basePos
         else
           Moving (m\<lparr>position := setZ (position m) (vz basePos + cos (time * s) * amp)\<rparr>) ax amplitude spd basePos)"
| "animateObstacle time dt ob = ob"

text \<open>The loop over the water obstacles: \<^verbatim>\<open>d = ball.position.distanceTo(o.center)\<close>.\<close>

fun waterFriction :: "vec3 \<Rightarrow> obstacle list \<Rightarrow> real \<Rightarrow> real" where
  "waterFriction ballPos [] f = f"
| "waterFriction ballPos (Water m c r # obs) f =
     waterFriction ballPos obs (if distanceTo ballPos c < r then 4.0 else f)"
| "waterFriction ballPos (ob # obs) f = waterFriction ballPos obs f"

definition localFriction :: "int \<Rightarrow> vec3 \<Rightarrow> obstacle list \<Rightarrow> real" where
  "localFriction lvl ballPos obs = (if lvl = 4 then waterFriction ballPos obs 1.5 else 1.5)"

text \<open>Physics integration, unless sinking.\<close>

definition physics :: "scene \<Rightarrow> real \<Rightarrow> state \<Rightarrow> state" where
  "physics cfg dt s =
     (if \<not> active (sinking s) then
        (let f = localFriction (level cfg) (position (ball s)) (obstacles s) in
         case integrate f dt (position (ball s)) (velocity s) of
           (p1, v1) \<Rightarrow>
             (case handleObstacleCollisions (setFromObject cfg) (obstacles s) p1 v1 of
                (p2, v2, obs2) \<Rightarrow>
                  s\<lparr>ball := (ball s)\<lparr>position := p2\<rparr>, velocity := v2, obstacles := obs2\<rparr>))
      else s)"

text \<open>Hole detection: distance only; starts the sinking sequence.\<close>

definition holeDetection :: "scene \<Rightarrow> state \<Rightarrow> state" where
  "holeDetection cfg s =
     (if \<not> holeDone cfg \<and> \<not> active (sinking s) then
        (let d = distanceTo (position (ball s)) (holePosition (level cfg))
         in if \<not> holeTriggered s \<and> d < HOLE_RADIUS then
              s\<lparr>holeTriggered := True,
                velocity := Vector3 0 0 0,
                sinking := \<lparr>active = True, sink_t = 0,
                            sink_start = Some (position (ball s)),
                            sink_end = Some (setY (holePosition (level cfg)) (- 0.5))\<rparr>\<rparr>
            else s)
      else s)"

text \<open>
  The sinking animation. Reading \<^verbatim>\<open>sinkingRef.current.end\<close> when it is \<^verbatim>\<open>null\<close> in the
  final placement is the one place where the frame can throw.
\<close>

definition sinkingAnimation :: "scene \<Rightarrow> real \<Rightarrow> state \<Rightarrow> error + state" where
  "sinkingAnimation cfg dt s =
     (if active (sinking s) then
        (let sk = (sinking s)\<lparr>sink_t := sink_t (sinking s) + dt\<rparr>;
             total = 1.2;
             traw = sink_t sk / total;
             t = min 1 traw;
             eased = t * t * (3 - 2 * t);
             b1 = (case (sink_start sk, sink_end sk) of
                     (Some a, Some b) \<Rightarrow> (ball s)\<lparr>position := lerpVectors a b eased, scale := 1 - 0.7 * eased\<rparr>
                   | _ \<Rightarrow> ball s)
         in if t \<ge> 1 then
              (case sink_end sk of
                 None \<Rightarrow> Inl TypeError
               | Some b \<Rightarrow>
                   Inr (s\<lparr>sinking := sk\<lparr>active := False\<rparr>,
                          ball := b1\<lparr>position := b, scale := 0.3\<rparr>,
                          holeCompleteCalls :=
                            holeCompleteCalls s + (if onHoleComplete_is_function cfg then 1 else 0)\<rparr>))
            else Inr (s\<lparr>sinking := sk, ball := b1\<rparr>))
      else Inr s)"

definition animate :: "scene \<Rightarrow> real \<Rightarrow> state \<Rightarrow> error + state" where
  "animate cfg now s =
     (let dt = (now - last_now s) / 1000;
          s1 = s\<lparr>last_now := now, obstacleTime := obstacleTime s + dt\<rparr>;
          s2 = s1\<lparr>obstacles := map (animateObstacle (obstacleTime s1) dt) (obstacles s1)\<rparr>;
          s3 = physics cfg dt s2;
          s4 = holeDetection cfg s3
      in sinkingAnimation cfg dt s4)"

section \<open>Trajectory preview and aim input\<close>

fun simLoop :: "nat \<Rightarrow> real \<Rightarrow> real \<Rightarrow> vec3 \<Rightarrow> vec3 \<Rightarrow> vec3 list" where
  "simLoop 0 fric dt simPos simVel = []"
| "simLoop (Suc n) fric dt simPos simVel =
     (if lengthSq simVel < EPS then []
      else
        (let simPos' = addScaledVector simPos simVel dt;
             s = length_v simVel;
             simVel' = setLength simVel (max 0 (s - fric * dt))
         in simPos' # simLoop n fric dt simPos' simVel'))"

text \<open>\<open>ndots\<close> is \<^verbatim>\<open>trajDots.length\<close>, the bound of the loop.\<close>

definition simulateTrajectory :: "nat \<Rightarrow> int \<Rightarrow> vec3 \<Rightarrow> vec3 \<Rightarrow> vec3 list" where
  "simulateTrajectory ndots lvl start vel =
     (let dt = 0.06;
          fric = (if lvl = 4 then 1.5 else 1.5)
      in simLoop ndots fric dt start vel)"

text \<open>
  The pointer handlers take the pointer's point on the ground plane
  (\<^verbatim>\<open>getMousePointOnGround(e)\<close>). \<^verbatim>\<open>dragStart\<close> is \<^verbatim>\<open>null\<close> until the first pointer-down.
\<close>

definition onPointerDown :: "vec3 \<Rightarrow> state \<Rightarrow> state" where
  "onPointerDown p s =
     (if distanceTo p (position (ball s)) < 1.2 then s\<lparr>isAiming := True, dragStart := Some p\<rparr> else s)"

definition onPointerMove :: "scene \<Rightarrow> vec3 \<Rightarrow> state \<Rightarrow> error + state" where
  "onPointerMove cfg current s =
     (if \<not> isAiming s then Inr s
      else
        (case dragStart s of
           None \<Rightarrow> Inl TypeError
         | Some ds \<Rightarrow>
             (let dir0 = subVectors ds current;
                  len = min (length_v dir0) 6;
                  dir = setLength dir0 len;
                  previewVel = multiplyScalar dir 5;
                  sim = simulateTrajectory (length (trajDots s)) (level cfg) (position (ball s)) previewVel
              in Inr (s\<lparr>trajDots :=
                        map (\<lambda>(i, d). if i < length sim then (setY (sim ! i) BALL_RADIUS, True) else (fst d, False))
                          (enumerate 0 (trajDots s))\<rparr>))))"

definition onPointerUp :: "vec3 \<Rightarrow> state \<Rightarrow> error + state" where
  "onPointerUp release s =
     (if \<not> isAiming s then Inr s
      else
        (case dragStart s of
           None \<Rightarrow> Inl TypeError
         | Some ds \<Rightarrow>
             (let dir0 = subVectors ds release;
                  power = min (length_v dir0) 6;
                  dir = setLength dir0 (power * 5)
              in Inr (s\<lparr>isAiming := False,
                        trajDots := map (\<lambda>d. (fst d, False)) (trajDots s),
                        velocity := add_v (velocity s) dir\<rparr>))))"

text \<open>
  \<^verbatim>\<open>handleRetry\<close>, the reset of the refs (\<^verbatim>\<open>handleNext\<close> resets the same refs before
  it navigates to the next level).
\<close>

definition handleRetry :: "state \<Rightarrow> state" where
  "handleRetry s =
     s\<lparr>ball := (ball s)\<lparr>position := Vector3 0 BALL_RADIUS 0, scale := 1\<rparr>,
       velocity := Vector3 0 0 0,
       sinking := (sinking s)\<lparr>active := False\<rparr>,
       holeTriggered := False\<rparr>"

text \<open>What can happen to a loaded level, and a run of such events; a throw ends the run.\<close>

datatype event = Frame real | PointerDown vec3 | PointerMove vec3 | PointerUp vec3 | Retry

fun step :: "scene \<Rightarrow> event \<Rightarrow> state \<Rightarrow> error + state" where
  "step cfg (Frame now) s = animate cfg now s"
| "step cfg (PointerDown p) s = Inr (onPointerDown p s)"
| "step cfg (PointerMove p) s = onPointerMove cfg p s"
| "step cfg (PointerUp p) s = onPointerUp p s"
| "step cfg Retry s = Inr (handleRetry s)"

fun run :: "scene \<Rightarrow> event list \<Rightarrow> state \<Rightarrow> error + state" where
  "run cfg [] s = Inr s"
| "run cfg (e # es) s = (case step cfg e s of Inl err \<Rightarrow> Inl err | Inr s' \<Rightarrow> run cfg es s')"

section \<open>Notions used in the statements\<close>

text \<open>The ball position and velocity after \<open>n\<close> integration steps of the same friction and frame delta.\<close>

fun integrateN :: "nat \<Rightarrow> real \<Rightarrow> real \<Rightarrow> vec3 \<Rightarrow> vec3 \<Rightarrow> vec3 \<times> vec3" where
  "integrateN 0 f dt p v = (p, v)"
| "integrateN (Suc n) f dt p v = (case integrateN n f dt p v of (pn, vn) \<Rightarrow> integrate f dt pn vn)"

text \<open>The obstacles whose collision branch writes the x or z coordinate of the ball.\<close>

fun displacesBall :: "obstacle \<Rightarrow> bool" where
  "displacesBall (Box m) = True"
| "displacesBall (Rotating m spd) = True"
| "displacesBall ob = False"

text \<open>
  For concrete runs: the bounding box of a mesh that is not rotated (its geometry's
  own box around its position), and the scene of level \<open>lvl\<close> with that bounding box,
  \<^verbatim>\<open>holeDone\<close> false and \<^verbatim>\<open>onHoleComplete\<close> given.
\<close>

definition unrotatedBox :: "mesh \<Rightarrow> box3" where
  "unrotatedBox m =
     (let c = position m;
          h = (case geometry m of
                 BoxGeometry w h d \<Rightarrow> Vector3 (w / 2) (h / 2) (d / 2)
               | SphereGeometry r \<Rightarrow> Vector3 r r r
               | CircleGeometry r \<Rightarrow> Vector3 r r 0)
      in \<lparr>box_min = subVectors c h, box_max = add_v c h\<rparr>)"

definition sceneOf :: "int \<Rightarrow> scene" where
  "sceneOf lvl =
     \<lparr>level = lvl, holeDone = False, onHoleComplete_is_function = True, setFromObject = unrotatedBox\<rparr>"

text \<open>
  The distance that ignores the vertical component. The source never computes it; it
  is here to state what the specification says of the water zone.
\<close>

definition horizontalDistanceTo :: "vec3 \<Rightarrow> vec3 \<Rightarrow> real" where
  "horizontalDistanceTo a b = sqrt ((vx a - vx b) * (vx a - vx b) + (vz a - vz b) * (vz a - vz b))"

text \<open>The \<^verbatim>\<open>mesh\<close> field of an obstacle entry.\<close>

fun obstacleMesh :: "obstacle \<Rightarrow> mesh" where
  "obstacleMesh (Box m) = m"
| "obstacleMesh (Moving m ax amplitude spd basePos) = m"
| "obstacleMesh (Rotating m spd) = m"
| "obstacleMesh (Ramp m width depth0 height0) = m"
| "obstacleMesh (Water m c r) = m"

text \<open>
  The impulse of a released shot in the words of the specification: the drag
  direction, with length the smaller of the drag length and \<open>6\<close>, scaled by \<open>5\<close>.
\<close>

definition shotImpulse :: "vec3 \<Rightarrow> vec3" where
  "shotImpulse d = multiplyScalar (setLength d (min (length_v d) 6)) 5"

text \<open>
  The preview as the specification words it: every sample is one step of the rule of
  the live integrator (lower the speed by the friction, then advance the position by
  the new velocity), with the default friction \<open>1.5\<close> and the preview's step \<open>0.06\<close>,
  ending when the squared speed is below the stationary threshold.
\<close>

fun ruleTrajectory :: "nat \<Rightarrow> vec3 \<Rightarrow> vec3 \<Rightarrow> vec3 list" where
  "ruleTrajectory 0 p v = []"
| "ruleTrajectory (Suc n) p v =
     (if lengthSq v < EPS then []
      else
        (let v' = frictionDecay 1.5 0.06 v;
             p' = addScaledVector p v' 0.06
         in p' # ruleTrajectory n p' v'))"

text \<open>
  The states that runs reach from a level load: an active sink was triggered and has
  its start and end, and a gesture in progress has its drag start.
\<close>

definition wellFormed :: "state \<Rightarrow> bool" where
  "wellFormed s \<longleftrightarrow>
     (active (sinking s) \<longrightarrow>
        holeTriggered s \<and> sink_start (sinking s) \<noteq> None \<and> sink_end (sinking s) \<noteq> None)
     \<and> (isAiming s \<longrightarrow> dragStart s \<noteq> None)"

text \<open>
  How many completion calls a state can still lead to without a reset: none once the
  latch is set and no sink is active, one otherwise.
\<close>

definition pendingCalls :: "state \<Rightarrow> nat" where
  "pendingCalls s = (if holeTriggered s \<and> \<not> active (sinking s) then 0 else 1)"

text \<open>
  A state of level 1 (no obstacles, the preview dots untouched) for concrete runs:
  ball position and scale, velocity, sink state, latch, clock in milliseconds (the
  level loaded at time \<open>0\<close>), gesture, drag start and the completion calls so far.
\<close>

definition level1State ::
  "vec3 \<Rightarrow> real \<Rightarrow> vec3 \<Rightarrow> sinking \<Rightarrow> bool \<Rightarrow> real \<Rightarrow> bool \<Rightarrow> vec3 option \<Rightarrow> nat \<Rightarrow> state" where
  "level1State p sc v sk trig now aim ds calls =
     \<lparr>ball = \<lparr>geometry = SphereGeometry BALL_RADIUS, position = p, rotation = Vector3 0 0 0, scale = sc\<rparr>,
      velocity = v,
      sinking = sk,
      holeTriggered = trig,
      obstacles = [],
      obstacleTime = now / 1000,
      last_now = now,
      isAiming = aim,
      dragStart = ds,
      trajDots = replicate 40 (Vector3 0 0 0, False),
      holeCompleteCalls = calls\<rparr>"

text \<open>
  A round on level 1 (hole at \<open>(5, 0.05, -3)\<close>, clock in milliseconds): a shot along
  \<open>x\<close> and two frames, after which the ball rests at \<open>(5, 0.6, 0)\<close>; a shot along \<open>-z\<close>
  and the frame in which the ball arrives over the hole and starts to sink.
\<close>

definition playToSink :: "event list" where
  "playToSink =
     [PointerDown (Vector3 0 0 0), PointerUp (Vector3 (- 1.3) 0 0), Frame 1000, Frame 5000,
      PointerDown (Vector3 5 0 0), PointerUp (Vector3 5 0 1.18), Frame 5600]"

text \<open>A gesture begun and released while the ball sinks.\<close>

definition lateShot :: "event list" where
  "lateShot = [PointerDown (Vector3 5 0 (- 3)), PointerUp (Vector3 4 0 (- 3))]"

text \<open>The same two shots played again after a retry at time \<open>7200\<close>, and three more frames.\<close>

definition secondRound :: "event list" where
  "secondRound =
     [PointerDown (Vector3 0 0 0), PointerUp (Vector3 (- 1.3) 0 0), Frame 8200, Frame 12200,
      PointerDown (Vector3 5 0 0), PointerUp (Vector3 5 0 1.18), Frame 12800, Frame 13400, Frame 14400]"

text \<open>
  A mesh as the shipped box obstacles and planks are built and animated: a box
  geometry of scale one, turned about the y axis at most (\<^verbatim>\<open>rotation.x\<close> and
  \<^verbatim>\<open>rotation.z\<close> zero).
\<close>

definition upright :: "mesh \<Rightarrow> bool" where
  "upright m \<longleftrightarrow>
     (case geometry m of BoxGeometry w h d \<Rightarrow> True | SphereGeometry r \<Rightarrow> False | CircleGeometry r \<Rightarrow> False)
     \<and> scale m = 1 \<and> vx (rotation m) = 0 \<and> vz (rotation m) = 0"

text \<open>
  The library's \<^verbatim>\<open>Box3.setFromObject\<close> for such a mesh, as three.js computes it: the
  axis-aligned hull of the geometry's own bounding box (half extents \<open>|w| / 2\<close>,
  \<open>|h| / 2\<close>, \<open>|d| / 2\<close>) after the turn by \<^verbatim>\<open>rotation.y\<close>, moved to the mesh position.
  The box obstacles are never turned and the planks are turned by \<^verbatim>\<open>rotation.y\<close> alone;
  these are the only meshes the collision code takes a bounding box of. Other
  geometries are given the box of \<open>unrotatedBox\<close>.
\<close>

definition yawBox :: "mesh \<Rightarrow> box3" where
  "yawBox m =
     (case geometry m of
        BoxGeometry w h d \<Rightarrow>
          (let a = vy (rotation m);
               hv = Vector3 (\<bar>cos a\<bar> * (\<bar>w\<bar> / 2) + \<bar>sin a\<bar> * (\<bar>d\<bar> / 2)) (\<bar>h\<bar> / 2)
                            (\<bar>sin a\<bar> * (\<bar>w\<bar> / 2) + \<bar>cos a\<bar> * (\<bar>d\<bar> / 2))
           in \<lparr>box_min = subVectors (position m) hv, box_max = add_v (position m) hv\<rparr>)
      | SphereGeometry r \<Rightarrow> unrotatedBox m
      | CircleGeometry r \<Rightarrow> unrotatedBox m)"

text \<open>
  A bounding box whose x and z extent stays \<open>0.65\<close> inside the course limit: a ball
  that touches it (within the ball radius, or within the ball radius plus \<open>0.02\<close> for a
  plank) and is nudged by \<open>0.04\<close> or \<open>0.03\<close> cannot be pushed past the limit.
\<close>

definition insideCourse :: "box3 \<Rightarrow> bool" where
  "insideCourse b \<longleftrightarrow>
     \<bar>vx (box_min b)\<bar> \<le> COURSE_LIMIT - 0.65 \<and> \<bar>vx (box_max b)\<bar> \<le> COURSE_LIMIT - 0.65
     \<and> \<bar>vz (box_min b)\<bar> \<le> COURSE_LIMIT - 0.65 \<and> \<bar>vz (box_max b)\<bar> \<le> COURSE_LIMIT - 0.65"

text \<open>
  How far the bounding box of a box mesh can reach from the mesh's position along x or
  z, whatever the turn about y.
\<close>

definition footprintReach :: "mesh \<Rightarrow> real" where
  "footprintReach m =
     (case geometry m of
        BoxGeometry w h d \<Rightarrow> (\<bar>w\<bar> + \<bar>d\<bar>) / 2
      | SphereGeometry r \<Rightarrow> \<bar>r\<bar>
      | CircleGeometry r \<Rightarrow> \<bar>r\<bar>)"

text \<open>
  An obstacle that cannot push the ball out of the course: it is no box and no plank,
  or its mesh is upright and, with its reach, stays \<open>0.65\<close> inside the limit.
\<close>

definition keepsClear :: "obstacle \<Rightarrow> bool" where
  "keepsClear ob \<longleftrightarrow>
     (displacesBall ob \<longrightarrow>
        upright (obstacleMesh ob)
        \<and> \<bar>vx (position (obstacleMesh ob))\<bar> + footprintReach (obstacleMesh ob) \<le> COURSE_LIMIT - 0.65
        \<and> \<bar>vz (position (obstacleMesh ob))\<bar> + footprintReach (obstacleMesh ob) \<le> COURSE_LIMIT - 0.65)"

text \<open>The scene of a level with the bounding boxes of \<open>yawBox\<close>.\<close>

definition yawScene :: "int \<Rightarrow> scene" where
  "yawScene lvl = (sceneOf lvl)\<lparr>setFromObject := yawBox\<rparr>"

text \<open>
  A state of level 4 with the ball at rest against the island (a box of width \<open>1.6\<close>,
  height \<open>0.4\<close> and depth \<open>1.6\<close> centred at \<open>(-4, 0.2, -2.8)\<close>), just past the
  island's edge on the z axis.
\<close>

definition atIsland :: state where
  "atIsland = (initState 4 0)\<lparr>ball := (ball (initState 4 0))\<lparr>position := Vector3 (- 4) 0.6 (- 1.7)\<rparr>\<rparr>"

text \<open>
  A first shot: a press on the ball at its spawn and a release \<open>1.3\<close> to the left of
  it, and the state the two events leave a freshly loaded level in (the ball sent along
  x with speed \<open>6.5\<close>).
\<close>

definition firstShot :: "event list" where
  "firstShot = [PointerDown (Vector3 0 0 0), PointerUp (Vector3 (- 1.3) 0 0)]"

definition afterFirstShot :: "int \<Rightarrow> state" where
  "afterFirstShot lvl = (initState lvl 0)\<lparr>dragStart := Some (Vector3 0 0 0), velocity := Vector3 6.5 0 0\<rparr>"

text \<open>
  What every event keeps true of a level whose obstacles keep clear: outside the sink
  animation the ball is within the course limit along x and z, and during it the
  animation's end point is.
\<close>

definition ballKept :: "state \<Rightarrow> bool" where
  "ballKept s \<longleftrightarrow>
     list_all keepsClear (obstacles s)
     \<and> (if active (sinking s)
          then (case sink_end (sinking s) of
                  Some b \<Rightarrow> \<bar>vx b\<bar> \<le> COURSE_LIMIT \<and> \<bar>vz b\<bar> \<le> COURSE_LIMIT
                | None \<Rightarrow> False)
          else \<bar>vx (position (ball s))\<bar> \<le> COURSE_LIMIT \<and> \<bar>vz (position (ball s))\<bar> \<le> COURSE_LIMIT)"

text \<open>
  A state no shipped level has: level 1 with one more box, of side \<open>1\<close> and centred at
  \<open>(9.5, 0.6, 0)\<close>, and the ball at rest on the course limit beside it.
\<close>

definition besideWall :: state where
  "besideWall =
     (initState 1 0)\<lparr>ball := (ball (initState 1 0))\<lparr>position := Vector3 10.4 0.6 0\<rparr>,
                      obstacles := [Box (boxMesh 1 1 1 (Vector3 9.5 0.6 0) (Vector3 0 0 0))]\<rparr>"

section \<open>Vector facts\<close>

lemma lengthSq_nonneg: "0 \<le> lengthSq v"
  by (simp add: lengthSq_def)

lemma length_v_nonneg: "0 \<le> length_v v"
  by (simp add: length_v_def lengthSq_nonneg)

lemma length_v_zero_iff: "length_v v = 0 \<longleftrightarrow> lengthSq v = 0"
  by (simp add: length_v_def)

lemma lengthSq_multiplyScalar: "lengthSq (multiplyScalar v s) = s * s * lengthSq v"
  by (simp add: lengthSq_def multiplyScalar_def algebra_simps)

lemma length_v_multiplyScalar: "length_v (multiplyScalar v s) = \<bar>s\<bar> * length_v v"
  by (simp add: length_v_def lengthSq_multiplyScalar real_sqrt_mult)

lemma length_v_sq: "length_v v * length_v v = lengthSq v"
  by (simp add: length_v_def lengthSq_nonneg)

lemma setLength_scale:
  assumes "lengthSq v \<noteq> 0"
  shows "setLength v l = multiplyScalar v (l / length_v v)"
proof -
  have "length_v v \<noteq> 0"
    using assms by (simp add: length_v_zero_iff)
  then show ?thesis
    by (simp add: setLength_def normalize_v_def divideScalar_def multiplyScalar_def)
qed

lemma length_v_setLength:
  assumes "lengthSq v \<noteq> 0" and "0 \<le> l"
  shows "length_v (setLength v l) = l"
proof -
  have pos: "0 < length_v v"
    using assms(1) length_v_nonneg [of v] by (simp add: length_v_zero_iff less_le)
  have "length_v (setLength v l) = \<bar>l / length_v v\<bar> * length_v v"
    by (simp add: setLength_scale [OF assms(1)] length_v_multiplyScalar)
  also have "\<dots> = l"
    using pos assms(2) by simp
  finally show ?thesis .
qed

lemma setLength_zero_vec: "lengthSq v = 0 \<Longrightarrow> setLength v l = Vector3 0 0 0"
proof -
  assume z: "lengthSq v = 0"
  have "vx v * vx v + (vy v * vy v + vz v * vz v) = 0"
    using z by (simp add: lengthSq_def)
  then have "vx v = 0 \<and> vy v = 0 \<and> vz v = 0"
    by (simp add: add_nonneg_eq_0_iff)
  then show ?thesis
    by (simp add: setLength_def normalize_v_def divideScalar_def multiplyScalar_def)
qed

lemma sel_setX [simp]: "vx (setX p a) = a" "vy (setX p a) = vy p" "vz (setX p a) = vz p"
  by (simp_all add: setX_def)

lemma sel_setY [simp]: "vx (setY p a) = vx p" "vy (setY p a) = a" "vz (setY p a) = vz p"
  by (simp_all add: setY_def)

lemma sel_setZ [simp]: "vx (setZ p a) = vx p" "vy (setZ p a) = vy p" "vz (setZ p a) = a"
  by (simp_all add: setZ_def)

lemma COURSE_LIMIT_value: "COURSE_LIMIT = 10.4"
  by (simp add: COURSE_LIMIT_def COURSE_SIZE_def)

lemma EPS_pos: "0 < EPS"
  by (simp add: EPS_def)

lemma length_v_axis_x [simp]: "length_v (Vector3 a 0 0) = \<bar>a\<bar>"
  by (simp add: length_v_def lengthSq_def)

lemma length_v_axis_z [simp]: "length_v (Vector3 0 0 a) = \<bar>a\<bar>"
  by (simp add: length_v_def lengthSq_def)

section \<open>Facts about the integration step\<close>

lemma wallLowX_id: "- COURSE_LIMIT \<le> vx (fst pv) \<Longrightarrow> wallLowX pv = pv"
  by (simp add: wallLowX_def)

lemma wallHighX_id: "vx (fst pv) \<le> COURSE_LIMIT \<Longrightarrow> wallHighX pv = pv"
  by (simp add: wallHighX_def)

lemma wallLowZ_id: "- COURSE_LIMIT \<le> vz (fst pv) \<Longrightarrow> wallLowZ pv = pv"
  by (simp add: wallLowZ_def)

lemma wallHighZ_id: "vz (fst pv) \<le> COURSE_LIMIT \<Longrightarrow> wallHighZ pv = pv"
  by (simp add: wallHighZ_def)

lemma wallCollisions_inside:
  assumes "\<bar>vx p\<bar> \<le> COURSE_LIMIT" and "\<bar>vz p\<bar> \<le> COURSE_LIMIT"
  shows "wallCollisions p v = (p, v)"
proof -
  have "- COURSE_LIMIT \<le> vx p" "vx p \<le> COURSE_LIMIT" "- COURSE_LIMIT \<le> vz p" "vz p \<le> COURSE_LIMIT"
    using assms by linarith+
  then show ?thesis
    by (simp add: wallCollisions_def wallLowX_id wallHighX_id wallLowZ_id wallHighZ_id)
qed

lemma frictionDecay_scale:
  "lengthSq v \<noteq> 0 \<Longrightarrow>
     frictionDecay f dt v = multiplyScalar v (max 0 (length_v v - f * dt) / length_v v)"
  by (simp add: frictionDecay_def Let_def setLength_scale)

lemma length_v_frictionDecay:
  "lengthSq v \<noteq> 0 \<Longrightarrow> length_v (frictionDecay f dt v) = max 0 (length_v v - f * dt)"
  by (simp add: frictionDecay_def Let_def length_v_setLength)

lemma wallCollisions_eq:
  "wallCollisions p v =
     (Vector3 (clamp (vx p) (- COURSE_LIMIT) COURSE_LIMIT) (vy p) (clamp (vz p) (- COURSE_LIMIT) COURSE_LIMIT),
      Vector3 (if vx p < - COURSE_LIMIT \<or> vx p > COURSE_LIMIT then vx v * (- 0.8) else vx v)
              (vy v)
              (if vz p < - COURSE_LIMIT \<or> vz p > COURSE_LIMIT then vz v * (- 0.8) else vz v))"
  by (cases p; cases v)
     (simp add: wallCollisions_def wallLowX_def wallHighX_def wallLowZ_def wallHighZ_def
        clamp_def setX_def setZ_def COURSE_LIMIT_value)

lemma frictionDecay_axis_x:
  "a > 0 \<Longrightarrow> frictionDecay f dt (Vector3 a 0 0) = Vector3 (max 0 (a - f * dt)) 0 0"
  by (simp add: frictionDecay_scale lengthSq_def multiplyScalar_def)

section \<open>C3: one integration step\<close>

text \<open>
  C3 (as amended). For every velocity whose squared length is strictly above the
  stationary threshold \<open>1e-6\<close>, one integration step with friction \<open>f\<close> and frame
  delta \<open>dt\<close> sets the speed to \<open>max 0 (|v| - f * dt)\<close>, rescales \<open>v\<close> to that speed by a
  non-negative factor (so the direction is kept), and advances the position by the
  new velocity times \<open>dt\<close>, after which the wall tests run; they change nothing when
  the translated position is inside the course.
\<close>

theorem integration_step:
  assumes "lengthSq v > EPS"
  shows "length_v (frictionDecay f dt v) = max 0 (length_v v - f * dt)
       \<and> 0 \<le> max 0 (length_v v - f * dt) / length_v v
       \<and> frictionDecay f dt v = multiplyScalar v (max 0 (length_v v - f * dt) / length_v v)
       \<and> integrate f dt p v =
           wallCollisions (addScaledVector p (frictionDecay f dt v) dt) (frictionDecay f dt v)
       \<and> (\<bar>vx (addScaledVector p (frictionDecay f dt v) dt)\<bar> \<le> COURSE_LIMIT
            \<and> \<bar>vz (addScaledVector p (frictionDecay f dt v) dt)\<bar> \<le> COURSE_LIMIT
          \<longrightarrow> integrate f dt p v = (addScaledVector p (frictionDecay f dt v) dt, frictionDecay f dt v))"
proof -
  have nz: "lengthSq v \<noteq> 0"
    using assms EPS_pos by linarith
  have a: "length_v (frictionDecay f dt v) = max 0 (length_v v - f * dt)"
    by (rule length_v_frictionDecay [OF nz])
  have b: "0 \<le> max 0 (length_v v - f * dt) / length_v v"
    using length_v_nonneg [of v] by simp
  have c: "frictionDecay f dt v = multiplyScalar v (max 0 (length_v v - f * dt) / length_v v)"
    by (rule frictionDecay_scale [OF nz])
  have d: "integrate f dt p v =
           wallCollisions (addScaledVector p (frictionDecay f dt v) dt) (frictionDecay f dt v)"
    using assms by (simp add: integrate_def Let_def)
  have e: "\<bar>vx (addScaledVector p (frictionDecay f dt v) dt)\<bar> \<le> COURSE_LIMIT
            \<and> \<bar>vz (addScaledVector p (frictionDecay f dt v) dt)\<bar> \<le> COURSE_LIMIT
          \<longrightarrow> integrate f dt p v = (addScaledVector p (frictionDecay f dt v) dt, frictionDecay f dt v)"
    using d by (simp add: wallCollisions_inside)
  from a b c d e show ?thesis by blast
qed

text \<open>
  The scenario of the specification: from the origin with velocity \<open>(5, 0, 0)\<close>,
  friction \<open>1.5\<close> and \<open>dt = 0.1\<close>, the speed becomes \<open>4.85\<close> and the position
  \<open>(0.485, 0, 0)\<close>.
\<close>

theorem integration_step_witness:
  "lengthSq (Vector3 5 0 0) > EPS
   \<and> length_v (frictionDecay 1.5 0.1 (Vector3 5 0 0)) = 4.85
   \<and> integrate 1.5 0.1 (Vector3 0 0 0) (Vector3 5 0 0) = (Vector3 0.485 0 0, Vector3 4.85 0 0)"
proof -
  have h: "lengthSq (Vector3 5 0 0) > EPS"
    by (simp add: lengthSq_def EPS_def)
  note t = integration_step [OF h, of "1.5" "0.1" "Vector3 0 0 0"]
  from t have "frictionDecay 1.5 0.1 (Vector3 5 0 0) =
      multiplyScalar (Vector3 5 0 0) (max 0 (length_v (Vector3 5 0 0) - 1.5 * 0.1) / length_v (Vector3 5 0 0))"
    by blast
  then have fd: "frictionDecay 1.5 0.1 (Vector3 5 0 0) = Vector3 4.85 0 0"
    by (simp add: multiplyScalar_def)
  have sp: "length_v (frictionDecay 1.5 0.1 (Vector3 5 0 0)) = 4.85"
    unfolding fd by simp
  from t have "integrate 1.5 0.1 (Vector3 0 0 0) (Vector3 5 0 0) =
      wallCollisions (addScaledVector (Vector3 0 0 0) (frictionDecay 1.5 0.1 (Vector3 5 0 0)) 0.1)
        (frictionDecay 1.5 0.1 (Vector3 5 0 0))"
    by blast
  then have "integrate 1.5 0.1 (Vector3 0 0 0) (Vector3 5 0 0) = (Vector3 0.485 0 0, Vector3 4.85 0 0)"
    unfolding fd by (simp add: addScaledVector_def wallCollisions_inside COURSE_LIMIT_value)
  with h sp show ?thesis by blast
qed

text \<open>
  The claim as stated also covers a squared speed equal to the threshold. There the
  source's test \<^verbatim>\<open>vel.lengthSq() > 1e-6\<close> fails and the step is skipped: with velocity
  \<open>(0.001, 0, 0)\<close>, friction \<open>1.5\<close> and \<open>dt = 0.1\<close> the speed stays \<open>0.001\<close>, where
  \<open>max 0 (|v| - f * dt)\<close> is \<open>0\<close>.
\<close>

theorem integration_threshold_counterexample:
  "lengthSq (Vector3 0.001 0 0) \<ge> EPS
   \<and> length_v (snd (integrate 1.5 0.1 (Vector3 0 0 0) (Vector3 0.001 0 0))) = 0.001
   \<and> max 0 (length_v (Vector3 0.001 0 0) - 1.5 * 0.1) = 0
   \<and> length_v (snd (integrate 1.5 0.1 (Vector3 0 0 0) (Vector3 0.001 0 0)))
       \<noteq> max 0 (length_v (Vector3 0.001 0 0) - 1.5 * 0.1)"
  by (simp add: lengthSq_def EPS_def integrate_def)

section \<open>C4: wall bounces\<close>

text \<open>
  C4 (as amended). In every integration step, after the position translation the x
  and the z coordinate are clamped to \<open>[-limit, limit]\<close> independently, the y
  coordinate is left alone, and on each clamped axis that axis's velocity component
  is negated and scaled by \<open>0.8\<close>. The bounce acts on the velocity the friction has
  already reduced: a ball at \<open>x = limit - 0.01\<close> with velocity \<open>(2, 0, 0)\<close> that
  crosses the boundary in one step of friction \<open>f > 0\<close> ends with \<open>x\<close> equal to
  \<open>limit\<close> and \<open>v.x\<close> equal to \<open>-0.8 * (2 - f * dt)\<close>, which is never \<open>-1.6\<close>.
\<close>

theorem wall_bounce:
  "(lengthSq v > EPS \<longrightarrow>
      (let v1 = frictionDecay f dt v;
           p1 = addScaledVector p v1 dt;
           r = integrate f dt p v
       in vx (fst r) = clamp (vx p1) (- COURSE_LIMIT) COURSE_LIMIT
        \<and> vz (fst r) = clamp (vz p1) (- COURSE_LIMIT) COURSE_LIMIT
        \<and> vy (fst r) = vy p1
        \<and> vx (snd r) = (if vx p1 < - COURSE_LIMIT \<or> vx p1 > COURSE_LIMIT then vx v1 * (- 0.8) else vx v1)
        \<and> vz (snd r) = (if vz p1 < - COURSE_LIMIT \<or> vz p1 > COURSE_LIMIT then vz v1 * (- 0.8) else vz v1)
        \<and> vy (snd r) = vy v1))
   \<and> (0 < f \<and> \<bar>z0\<bar> \<le> COURSE_LIMIT
        \<and> vx (addScaledVector (Vector3 (COURSE_LIMIT - 0.01) y0 z0) (frictionDecay f dt (Vector3 2 0 0)) dt)
             > COURSE_LIMIT \<longrightarrow>
        integrate f dt (Vector3 (COURSE_LIMIT - 0.01) y0 z0) (Vector3 2 0 0)
          = (Vector3 COURSE_LIMIT y0 z0, Vector3 (- 0.8 * (2 - f * dt)) 0 0)
        \<and> - 0.8 * (2 - f * dt) \<noteq> - 1.6)"
proof (intro conjI impI)
  assume mv: "lengthSq v > EPS"
  show "let v1 = frictionDecay f dt v;
           p1 = addScaledVector p v1 dt;
           r = integrate f dt p v
       in vx (fst r) = clamp (vx p1) (- COURSE_LIMIT) COURSE_LIMIT
        \<and> vz (fst r) = clamp (vz p1) (- COURSE_LIMIT) COURSE_LIMIT
        \<and> vy (fst r) = vy p1
        \<and> vx (snd r) = (if vx p1 < - COURSE_LIMIT \<or> vx p1 > COURSE_LIMIT then vx v1 * (- 0.8) else vx v1)
        \<and> vz (snd r) = (if vz p1 < - COURSE_LIMIT \<or> vz p1 > COURSE_LIMIT then vz v1 * (- 0.8) else vz v1)
        \<and> vy (snd r) = vy v1"
    using mv by (simp add: integrate_def Let_def wallCollisions_eq)
next
  assume h: "0 < f \<and> \<bar>z0\<bar> \<le> COURSE_LIMIT
        \<and> vx (addScaledVector (Vector3 (COURSE_LIMIT - 0.01) y0 z0) (frictionDecay f dt (Vector3 2 0 0)) dt)
             > COURSE_LIMIT"
  have fd: "frictionDecay f dt (Vector3 2 0 0) = Vector3 (max 0 (2 - f * dt)) 0 0"
    by (simp add: frictionDecay_axis_x)
  from h have cross: "max 0 (2 - f * dt) * dt > 0.01"
    by (simp add: fd addScaledVector_def)
  have pos: "2 - f * dt > 0"
  proof (rule ccontr)
    assume "\<not> 2 - f * dt > 0"
    then have "max 0 (2 - f * dt) = 0" by simp
    with cross show False by simp
  qed
  then have mx: "max 0 (2 - f * dt) = 2 - f * dt" by simp
  have dtpos: "dt > 0"
  proof (rule ccontr)
    assume "\<not> dt > 0"
    then have "dt \<le> 0" by simp
    with pos have "(2 - f * dt) * dt \<le> 0"
      by (simp add: mult_le_0_iff)
    with cross mx show False by simp
  qed
  have mvg: "lengthSq (Vector3 2 0 0) > EPS"
    by (simp add: lengthSq_def EPS_def)
  from h have zb: "\<not> z0 < - COURSE_LIMIT" "\<not> z0 > COURSE_LIMIT"
    by linarith+
  have xb: "COURSE_LIMIT - 0.01 + (2 - f * dt) * dt > COURSE_LIMIT"
    using cross mx by simp
  have "integrate f dt (Vector3 (COURSE_LIMIT - 0.01) y0 z0) (Vector3 2 0 0)
          = wallCollisions (Vector3 (COURSE_LIMIT - 0.01 + (2 - f * dt) * dt) y0 z0) (Vector3 (2 - f * dt) 0 0)"
    using mvg by (simp add: integrate_def Let_def fd mx addScaledVector_def)
  also have "\<dots> = (Vector3 COURSE_LIMIT y0 z0, Vector3 (- 0.8 * (2 - f * dt)) 0 0)"
    using zb xb by (simp add: wallCollisions_eq clamp_def COURSE_LIMIT_value)
  finally show "integrate f dt (Vector3 (COURSE_LIMIT - 0.01) y0 z0) (Vector3 2 0 0)
          = (Vector3 COURSE_LIMIT y0 z0, Vector3 (- 0.8 * (2 - f * dt)) 0 0)" .
  from h dtpos have "f \<noteq> 0 \<and> dt \<noteq> 0" by simp
  then show "- 0.8 * (2 - f * dt) \<noteq> - 1.6" by simp
qed

text \<open>With friction \<open>1.5\<close> and \<open>dt = 0.1\<close> the ball ends at the wall with \<open>v.x = -1.48\<close>.\<close>

theorem wall_bounce_witness:
  "lengthSq (Vector3 2 0 0) > EPS
   \<and> integrate 1.5 0.1 (Vector3 (COURSE_LIMIT - 0.01) 0.6 0) (Vector3 2 0 0)
        = (Vector3 COURSE_LIMIT 0.6 0, Vector3 (- 1.48) 0 0)
   \<and> vx (snd (integrate 1.5 0.1 (Vector3 (COURSE_LIMIT - 0.01) 0.6 0) (Vector3 2 0 0)))
        = vx (frictionDecay 1.5 0.1 (Vector3 2 0 0)) * (- 0.8)"
proof -
  have mvg: "lengthSq (Vector3 2 0 0) > EPS"
    by (simp add: lengthSq_def EPS_def)
  have fd: "frictionDecay 1.5 0.1 (Vector3 2 0 0) = Vector3 1.85 0 0"
    by (simp add: frictionDecay_axis_x)
  have cr: "(0::real) < 1.5 \<and> \<bar>0::real\<bar> \<le> COURSE_LIMIT
        \<and> vx (addScaledVector (Vector3 (COURSE_LIMIT - 0.01) 0.6 0) (frictionDecay 1.5 0.1 (Vector3 2 0 0)) 0.1)
             > COURSE_LIMIT"
    unfolding fd by (simp add: addScaledVector_def COURSE_LIMIT_value)
  note t = wall_bounce [of "Vector3 2 0 0" "1.5" "0.1" "Vector3 (COURSE_LIMIT - 0.01) 0.6 0" 0 "0.6"]
  from t cr have a: "integrate 1.5 0.1 (Vector3 (COURSE_LIMIT - 0.01) 0.6 0) (Vector3 2 0 0)
        = (Vector3 COURSE_LIMIT 0.6 0, Vector3 (- 0.8 * (2 - 1.5 * 0.1)) 0 0)"
    by blast
  then have a': "integrate 1.5 0.1 (Vector3 (COURSE_LIMIT - 0.01) 0.6 0) (Vector3 2 0 0)
        = (Vector3 COURSE_LIMIT 0.6 0, Vector3 (- 1.48) 0 0)"
    by simp
  from t mvg have g: "vx (snd (integrate 1.5 0.1 (Vector3 (COURSE_LIMIT - 0.01) 0.6 0) (Vector3 2 0 0)))
        = (if vx (addScaledVector (Vector3 (COURSE_LIMIT - 0.01) 0.6 0)
                   (frictionDecay 1.5 0.1 (Vector3 2 0 0)) 0.1) < - COURSE_LIMIT
              \<or> vx (addScaledVector (Vector3 (COURSE_LIMIT - 0.01) 0.6 0)
                   (frictionDecay 1.5 0.1 (Vector3 2 0 0)) 0.1) > COURSE_LIMIT
           then vx (frictionDecay 1.5 0.1 (Vector3 2 0 0)) * (- 0.8)
           else vx (frictionDecay 1.5 0.1 (Vector3 2 0 0)))"
    unfolding Let_def by blast
  from cr have "vx (addScaledVector (Vector3 (COURSE_LIMIT - 0.01) 0.6 0)
                   (frictionDecay 1.5 0.1 (Vector3 2 0 0)) 0.1) > COURSE_LIMIT"
    by blast
  with g have b: "vx (snd (integrate 1.5 0.1 (Vector3 (COURSE_LIMIT - 0.01) 0.6 0) (Vector3 2 0 0)))
        = vx (frictionDecay 1.5 0.1 (Vector3 2 0 0)) * (- 0.8)"
    by (simp only: simp_thms if_True)
  from mvg a' b show ?thesis by blast
qed

text \<open>
  The scenario as the claim states it: the step crosses the boundary, \<open>x\<close> ends equal
  to the limit, and \<open>v.x\<close> is not \<open>-1.6\<close>.
\<close>

theorem wall_bounce_counterexample:
  "vx (addScaledVector (Vector3 (COURSE_LIMIT - 0.01) 0.6 0) (frictionDecay 1.5 0.1 (Vector3 2 0 0)) 0.1)
      > COURSE_LIMIT
   \<and> integrate 1.5 0.1 (Vector3 (COURSE_LIMIT - 0.01) 0.6 0) (Vector3 2 0 0)
        = (Vector3 COURSE_LIMIT 0.6 0, Vector3 (- 1.48) 0 0)
   \<and> vx (snd (integrate 1.5 0.1 (Vector3 (COURSE_LIMIT - 0.01) 0.6 0) (Vector3 2 0 0))) \<noteq> - 1.6"
proof -
  have fd: "frictionDecay 1.5 0.1 (Vector3 2 0 0) = Vector3 1.85 0 0"
    by (simp add: frictionDecay_axis_x)
  have mvg: "lengthSq (Vector3 2 0 0) > EPS"
    by (simp add: lengthSq_def EPS_def)
  have a: "integrate 1.5 0.1 (Vector3 (COURSE_LIMIT - 0.01) 0.6 0) (Vector3 2 0 0)
        = (Vector3 COURSE_LIMIT 0.6 0, Vector3 (- 1.48) 0 0)"
    using mvg unfolding integrate_def Let_def fd
    by (simp add: wallCollisions_eq addScaledVector_def clamp_def COURSE_LIMIT_value)
  show ?thesis
    unfolding a fd by (simp add: addScaledVector_def COURSE_LIMIT_value)
qed

section \<open>Facts about the course bounds and the initial state\<close>

lemma integrate_rest: "lengthSq v \<le> EPS \<Longrightarrow> integrate f dt p v = (p, v)"
  by (simp add: integrate_def)

lemma clamp_abs: "0 \<le> l \<Longrightarrow> \<bar>clamp a (- l) l\<bar> \<le> l"
  by (simp add: clamp_def abs_le_iff min_def max_def)

lemma COURSE_LIMIT_nonneg: "0 \<le> COURSE_LIMIT"
  by (simp add: COURSE_LIMIT_value)

lemma integrate_xz_bounds:
  assumes "lengthSq v > EPS"
  shows "\<bar>vx (fst (integrate f dt p v))\<bar> \<le> COURSE_LIMIT \<and> \<bar>vz (fst (integrate f dt p v))\<bar> \<le> COURSE_LIMIT"
  using assms by (simp add: integrate_def Let_def wallCollisions_eq clamp_abs COURSE_LIMIT_nonneg)

lemma integrate_keeps_bounds:
  assumes "lengthSq v > EPS \<or> (\<bar>vx p\<bar> \<le> COURSE_LIMIT \<and> \<bar>vz p\<bar> \<le> COURSE_LIMIT)"
  shows "\<bar>vx (fst (integrate f dt p v))\<bar> \<le> COURSE_LIMIT \<and> \<bar>vz (fst (integrate f dt p v))\<bar> \<le> COURSE_LIMIT"
proof (cases "lengthSq v > EPS")
  case True
  then show ?thesis by (rule integrate_xz_bounds)
next
  case False
  then have "integrate f dt p v = (p, v)" by (simp add: integrate_rest)
  with assms False show ?thesis by simp
qed

lemma collideObstacle_xz:
  "\<not> displacesBall ob \<Longrightarrow>
     vx (fst (collideObstacle sfo ob p v)) = vx p \<and> vz (fst (collideObstacle sfo ob p v)) = vz p"
  by (cases ob) (simp_all add: Let_def)

lemma handleObstacleCollisions_xz:
  "\<forall>ob \<in> set obs. \<not> displacesBall ob \<Longrightarrow>
     vx (fst (handleObstacleCollisions sfo obs p v)) = vx p
     \<and> vz (fst (handleObstacleCollisions sfo obs p v)) = vz p"
proof (induction obs arbitrary: p v)
  case Nil
  then show ?case by simp
next
  case (Cons ob obs)
  obtain p1 v1 ob1 where c: "collideObstacle sfo ob p v = (p1, v1, ob1)"
    by (cases "collideObstacle sfo ob p v") auto
  have nd: "\<not> displacesBall ob" using Cons.prems by simp
  have p1: "vx p1 = vx p \<and> vz p1 = vz p"
    using collideObstacle_xz [OF nd, of sfo p v] c by simp
  have ih: "vx (fst (handleObstacleCollisions sfo obs p1 v1)) = vx p1
     \<and> vz (fst (handleObstacleCollisions sfo obs p1 v1)) = vz p1"
    using Cons.IH Cons.prems by simp
  show ?case
    using c p1 ih by (auto split: prod.splits)
qed

lemma physics_position:
  "\<not> active (sinking s) \<Longrightarrow>
     position (ball (physics cfg dt s)) =
       fst (handleObstacleCollisions (setFromObject cfg) (obstacles s)
             (fst (integrate (localFriction (level cfg) (position (ball s)) (obstacles s)) dt
                     (position (ball s)) (velocity s)))
             (snd (integrate (localFriction (level cfg) (position (ball s)) (obstacles s)) dt
                     (position (ball s)) (velocity s))))"
  by (simp add: physics_def Let_def split: prod.splits)

lemma initState_simps [simp]:
  "ball (initState lvl t0) = \<lparr>geometry = SphereGeometry BALL_RADIUS, position = Vector3 0 BALL_RADIUS 0,
               rotation = Vector3 0 0 0, scale = 1\<rparr>"
  "velocity (initState lvl t0) = Vector3 0 0 0"
  "sinking (initState lvl t0) = \<lparr>active = False, sink_t = 0, sink_start = None, sink_end = None\<rparr>"
  "holeTriggered (initState lvl t0) = False"
  "obstacles (initState lvl t0) = levelObstacles lvl"
  "obstacleTime (initState lvl t0) = 0"
  "last_now (initState lvl t0) = t0"
  "isAiming (initState lvl t0) = False"
  "dragStart (initState lvl t0) = None"
  "trajDots (initState lvl t0) = replicate 40 (Vector3 0 0 0, False)"
  "holeCompleteCalls (initState lvl t0) = 0"
  by (simp_all add: initState_def)

lemma levelObstacles_1 [simp]: "levelObstacles 1 = []"
  by (simp add: levelObstacles_def)

lemma localFriction_no_obstacles [simp]: "localFriction lvl p [] = 1.5"
  by (simp add: localFriction_def)

section \<open>Facts about repeated integration steps\<close>

lemma length_v_mono: "lengthSq a \<le> lengthSq b \<Longrightarrow> length_v a \<le> length_v b"
  by (simp add: length_v_def)

lemma lengthSq_wallCollisions: "lengthSq (snd (wallCollisions p v)) \<le> lengthSq v"
proof -
  have sq: "\<And>a::real. (a * (- 0.8)) * (a * (- 0.8)) \<le> a * a"
  proof -
    fix a :: real
    have "(a * (- 0.8)) * (a * (- 0.8)) = 0.64 * (a * a)" by simp
    also have "\<dots> \<le> a * a" by (simp add: mult_left_le_one_le)
    finally show "(a * (- 0.8)) * (a * (- 0.8)) \<le> a * a" .
  qed
  have x: "vx (snd (wallCollisions p v)) * vx (snd (wallCollisions p v)) \<le> vx v * vx v"
    using sq [of "vx v"] by (simp add: wallCollisions_eq)
  have z: "vz (snd (wallCollisions p v)) * vz (snd (wallCollisions p v)) \<le> vz v * vz v"
    using sq [of "vz v"] by (simp add: wallCollisions_eq)
  have y: "vy (snd (wallCollisions p v)) = vy v"
    by (simp add: wallCollisions_eq)
  show ?thesis
    unfolding lengthSq_def y using x z by linarith
qed

lemma speed_step_moving:
  assumes "lengthSq v > EPS"
  shows "length_v (snd (integrate f dt p v)) \<le> max 0 (length_v v - f * dt)"
proof -
  have nz: "lengthSq v \<noteq> 0" using assms EPS_pos by linarith
  have "integrate f dt p v =
      wallCollisions (addScaledVector p (frictionDecay f dt v) dt) (frictionDecay f dt v)"
    using assms by (simp add: integrate_def Let_def)
  then have "length_v (snd (integrate f dt p v)) \<le> length_v (frictionDecay f dt v)"
    by (simp add: length_v_mono lengthSq_wallCollisions)
  then show ?thesis
    by (simp add: length_v_frictionDecay [OF nz])
qed

lemma speed_step:
  assumes "0 \<le> f * dt"
  shows "length_v (snd (integrate f dt p v)) \<le> length_v v"
proof (cases "lengthSq v > EPS")
  case True
  have "length_v (snd (integrate f dt p v)) \<le> max 0 (length_v v - f * dt)"
    by (rule speed_step_moving [OF True])
  also have "\<dots> \<le> length_v v"
    using assms length_v_nonneg [of v] by simp
  finally show ?thesis .
next
  case False
  then show ?thesis by (simp add: integrate_rest)
qed

lemma integrateN_Suc_snd:
  "snd (integrateN (Suc n) f dt p v) =
     snd (integrate f dt (fst (integrateN n f dt p v)) (snd (integrateN n f dt p v)))"
  by (simp split: prod.splits)

lemma integrateN_stays:
  assumes "lengthSq (snd (integrateN n f dt p v)) \<le> EPS"
  shows "integrateN (n + k) f dt p v = integrateN n f dt p v"
proof (induction k)
  case 0
  show ?case by simp
next
  case (Suc k)
  obtain pn vn where e: "integrateN n f dt p v = (pn, vn)"
    by (cases "integrateN n f dt p v") auto
  with assms have r: "lengthSq vn \<le> EPS" by simp
  show ?case
    using Suc e r by (simp add: integrate_rest)
qed

lemma integrateN_stays_le:
  assumes "lengthSq (snd (integrateN n f dt p v)) \<le> EPS" and "n \<le> m"
  shows "integrateN m f dt p v = integrateN n f dt p v"
proof -
  from assms(2) obtain k where "m = n + k"
    using le_Suc_ex by blast
  then show ?thesis
    using integrateN_stays [OF assms(1)] by simp
qed

lemma speed_bound_while_moving:
  assumes c: "0 < f * dt"
    and mv: "\<forall>k < n. lengthSq (snd (integrateN k f dt p v)) > EPS"
  shows "length_v (snd (integrateN n f dt p v)) \<le> length_v v - real n * (f * dt) \<or>
         length_v (snd (integrateN n f dt p v)) = 0"
  using mv
proof (induction n)
  case 0
  show ?case by simp
next
  case (Suc n)
  let ?pn = "fst (integrateN n f dt p v)" and ?vn = "snd (integrateN n f dt p v)"
  have mvn: "lengthSq ?vn > EPS" using Suc.prems by simp
  have "length_v ?vn > 0"
    using mvn EPS_pos length_v_nonneg [of ?vn] length_v_zero_iff [of ?vn] by linarith
  with Suc have ih: "length_v ?vn \<le> length_v v - real n * (f * dt)"
    by auto
  have st: "length_v (snd (integrateN (Suc n) f dt p v)) \<le> max 0 (length_v ?vn - f * dt)"
    unfolding integrateN_Suc_snd by (rule speed_step_moving [OF mvn])
  show ?case
  proof (cases "length_v ?vn - f * dt \<le> 0")
    case True
    with st have "length_v (snd (integrateN (Suc n) f dt p v)) \<le> 0" by simp
    then have "length_v (snd (integrateN (Suc n) f dt p v)) = 0"
      using length_v_nonneg [of "snd (integrateN (Suc n) f dt p v)"] by linarith
    then show ?thesis by blast
  next
    case False
    with st have "length_v (snd (integrateN (Suc n) f dt p v)) \<le> length_v ?vn - f * dt" by simp
    also have "\<dots> \<le> length_v v - real (Suc n) * (f * dt)"
      using ih by (simp add: algebra_simps)
    finally show ?thesis by blast
  qed
qed

lemma comes_to_rest:
  assumes c: "0 < f * dt"
  shows "\<exists>n. lengthSq (snd (integrateN n f dt p v)) \<le> EPS"
proof (rule ccontr)
  assume "\<not> (\<exists>n. lengthSq (snd (integrateN n f dt p v)) \<le> EPS)"
  then have mv: "\<forall>n. lengthSq (snd (integrateN n f dt p v)) > EPS"
    by (simp add: not_le)
  obtain n :: nat where n: "length_v v < real n * (f * dt)"
    using c reals_Archimedean3 by blast
  have pos: "length_v (snd (integrateN n f dt p v)) > 0"
    using mv [rule_format, of n] EPS_pos length_v_nonneg [of "snd (integrateN n f dt p v)"]
      length_v_zero_iff [of "snd (integrateN n f dt p v)"] by linarith
  have "length_v (snd (integrateN n f dt p v)) \<le> length_v v - real n * (f * dt) \<or>
         length_v (snd (integrateN n f dt p v)) = 0"
    by (rule speed_bound_while_moving [OF c]) (use mv in blast)
  with pos n show False by linarith
qed

lemma integrateN_example:
  "integrateN 1 1.5 0.016 (Vector3 0 0.6 0) (Vector3 0.0245 0 0) = (Vector3 0.000008 0.6 0, Vector3 0.0005 0 0)"
proof -
  have fd: "frictionDecay 1.5 0.016 (Vector3 0.0245 0 0) = Vector3 0.0005 0 0"
    by (simp add: frictionDecay_axis_x)
  have mv: "lengthSq (Vector3 0.0245 0 0) > EPS"
    by (simp add: lengthSq_def EPS_def)
  have "integrate 1.5 0.016 (Vector3 0 0.6 0) (Vector3 0.0245 0 0) = (Vector3 0.000008 0.6 0, Vector3 0.0005 0 0)"
    using mv unfolding integrate_def Let_def fd
    by (simp add: addScaledVector_def wallCollisions_inside COURSE_LIMIT_value)
  then show ?thesis
    unfolding One_nat_def integrateN.simps by simp
qed

section \<open>C5: the speed under repeated steps\<close>

text \<open>
  C5 (as amended). For every starting velocity, every friction \<open>f > 0\<close> and every frame
  delta \<open>dt > 0\<close>, the speeds produced by repeated integration steps (wall bounces
  included) are never negative and never increase; while the squared speed is above
  the stationary threshold \<open>1e-6\<close> each step lowers the speed strictly, to at most
  \<open>max 0 (speed - f * dt)\<close>; once the squared speed is at or below the threshold, which
  happens after finitely many steps, position and velocity never change again. The
  speed at which the ball comes to rest is \<open>0\<close> or any value up to \<open>0.001\<close>.
\<close>

theorem friction_decay_sequence:
  assumes "0 < f" and "0 < dt"
  shows "(\<forall>n. 0 \<le> length_v (snd (integrateN n f dt p v))
            \<and> length_v (snd (integrateN (Suc n) f dt p v)) \<le> length_v (snd (integrateN n f dt p v)))
       \<and> (\<forall>n. lengthSq (snd (integrateN n f dt p v)) > EPS \<longrightarrow>
              length_v (snd (integrateN (Suc n) f dt p v))
                \<le> max 0 (length_v (snd (integrateN n f dt p v)) - f * dt)
            \<and> length_v (snd (integrateN (Suc n) f dt p v)) < length_v (snd (integrateN n f dt p v)))
       \<and> (\<forall>n m. lengthSq (snd (integrateN n f dt p v)) \<le> EPS \<and> n \<le> m \<longrightarrow>
              integrateN m f dt p v = integrateN n f dt p v)
       \<and> (\<exists>n. lengthSq (snd (integrateN n f dt p v)) \<le> EPS)"
proof -
  have c: "0 < f * dt" using assms by simp
  have a: "\<forall>n. 0 \<le> length_v (snd (integrateN n f dt p v))
            \<and> length_v (snd (integrateN (Suc n) f dt p v)) \<le> length_v (snd (integrateN n f dt p v))"
  proof
    fix n
    have "length_v (snd (integrateN (Suc n) f dt p v)) \<le> length_v (snd (integrateN n f dt p v))"
      unfolding integrateN_Suc_snd using c by (intro speed_step) simp
    then show "0 \<le> length_v (snd (integrateN n f dt p v))
            \<and> length_v (snd (integrateN (Suc n) f dt p v)) \<le> length_v (snd (integrateN n f dt p v))"
      by (simp add: length_v_nonneg)
  qed
  have b: "\<forall>n. lengthSq (snd (integrateN n f dt p v)) > EPS \<longrightarrow>
              length_v (snd (integrateN (Suc n) f dt p v))
                \<le> max 0 (length_v (snd (integrateN n f dt p v)) - f * dt)
            \<and> length_v (snd (integrateN (Suc n) f dt p v)) < length_v (snd (integrateN n f dt p v))"
  proof (intro allI impI)
    fix n
    let ?vn = "snd (integrateN n f dt p v)"
    assume mv: "lengthSq ?vn > EPS"
    have pos: "length_v ?vn > 0"
      using mv EPS_pos length_v_nonneg [of ?vn] length_v_zero_iff [of ?vn] by linarith
    have st: "length_v (snd (integrateN (Suc n) f dt p v)) \<le> max 0 (length_v ?vn - f * dt)"
      unfolding integrateN_Suc_snd by (rule speed_step_moving [OF mv])
    have "max 0 (length_v ?vn - f * dt) < length_v ?vn"
      using pos c by simp
    with st show "length_v (snd (integrateN (Suc n) f dt p v)) \<le> max 0 (length_v ?vn - f * dt)
            \<and> length_v (snd (integrateN (Suc n) f dt p v)) < length_v ?vn"
      by linarith
  qed
  have d: "\<forall>n m. lengthSq (snd (integrateN n f dt p v)) \<le> EPS \<and> n \<le> m \<longrightarrow>
              integrateN m f dt p v = integrateN n f dt p v"
    using integrateN_stays_le by blast
  have e: "\<exists>n. lengthSq (snd (integrateN n f dt p v)) \<le> EPS"
    by (rule comes_to_rest [OF c])
  from a b d e show ?thesis by blast
qed

text \<open>
  A ball rolling at \<open>0.0245\<close> with friction \<open>1.5\<close> at 62.5 frames a second: the first
  step lowers the speed, and from then on nothing changes.
\<close>

theorem friction_decay_sequence_witness:
  "(0::real) < 1.5 \<and> (0::real) < 0.016
   \<and> lengthSq (snd (integrateN 0 1.5 0.016 (Vector3 0 0.6 0) (Vector3 0.0245 0 0))) > EPS
   \<and> length_v (snd (integrateN 1 1.5 0.016 (Vector3 0 0.6 0) (Vector3 0.0245 0 0)))
       < length_v (snd (integrateN 0 1.5 0.016 (Vector3 0 0.6 0) (Vector3 0.0245 0 0)))
   \<and> lengthSq (snd (integrateN 1 1.5 0.016 (Vector3 0 0.6 0) (Vector3 0.0245 0 0))) \<le> EPS
   \<and> integrateN 6 1.5 0.016 (Vector3 0 0.6 0) (Vector3 0.0245 0 0)
       = integrateN 1 1.5 0.016 (Vector3 0 0.6 0) (Vector3 0.0245 0 0)"
proof -
  have f: "(0::real) < 1.5" and d: "(0::real) < 0.016" by simp_all
  note t = friction_decay_sequence [OF f d, of "Vector3 0 0.6 0" "Vector3 0.0245 0 0"]
  have m0: "lengthSq (snd (integrateN 0 1.5 0.016 (Vector3 0 0.6 0) (Vector3 0.0245 0 0))) > EPS"
    by (simp add: lengthSq_def EPS_def)
  have m1: "lengthSq (snd (integrateN 1 1.5 0.016 (Vector3 0 0.6 0) (Vector3 0.0245 0 0))) \<le> EPS"
    unfolding integrateN_example by (simp add: lengthSq_def EPS_def)
  from t m0 have lt: "length_v (snd (integrateN (Suc 0) 1.5 0.016 (Vector3 0 0.6 0) (Vector3 0.0245 0 0)))
       < length_v (snd (integrateN 0 1.5 0.016 (Vector3 0 0.6 0) (Vector3 0.0245 0 0)))"
    by blast
  have le: "(1::nat) \<le> 6" by simp
  from t m1 le have st: "integrateN 6 1.5 0.016 (Vector3 0 0.6 0) (Vector3 0.0245 0 0)
       = integrateN 1 1.5 0.016 (Vector3 0 0.6 0) (Vector3 0.0245 0 0)"
    by blast
  from f d m0 m1 lt st show ?thesis by (simp only: One_nat_def simp_thms)
qed

text \<open>
  The same ball contradicts the claim as stated: its speed is positive, and after one
  step, two steps and a thousand steps it is \<open>0.0005\<close>; it never reaches \<open>0\<close>.
\<close>

theorem friction_decay_counterexample:
  "length_v (Vector3 0.0245 0 0) > 0
   \<and> length_v (snd (integrateN 1 1.5 0.016 (Vector3 0 0.6 0) (Vector3 0.0245 0 0))) = 0.0005
   \<and> length_v (snd (integrateN 2 1.5 0.016 (Vector3 0 0.6 0) (Vector3 0.0245 0 0))) = 0.0005
   \<and> length_v (snd (integrateN 1000 1.5 0.016 (Vector3 0 0.6 0) (Vector3 0.0245 0 0))) = 0.0005"
proof -
  have m1: "lengthSq (snd (integrateN 1 1.5 0.016 (Vector3 0 0.6 0) (Vector3 0.0245 0 0))) \<le> EPS"
    unfolding integrateN_example by (simp add: lengthSq_def EPS_def)
  have s1: "length_v (snd (integrateN 1 1.5 0.016 (Vector3 0 0.6 0) (Vector3 0.0245 0 0))) = 0.0005"
    unfolding integrateN_example by simp
  have e2: "integrateN 2 1.5 0.016 (Vector3 0 0.6 0) (Vector3 0.0245 0 0)
      = integrateN 1 1.5 0.016 (Vector3 0 0.6 0) (Vector3 0.0245 0 0)"
    by (rule integrateN_stays_le [OF m1]) simp
  have s2: "length_v (snd (integrateN 2 1.5 0.016 (Vector3 0 0.6 0) (Vector3 0.0245 0 0))) = 0.0005"
    unfolding e2 by (rule s1)
  have e3: "integrateN 1000 1.5 0.016 (Vector3 0 0.6 0) (Vector3 0.0245 0 0)
      = integrateN 1 1.5 0.016 (Vector3 0 0.6 0) (Vector3 0.0245 0 0)"
    by (rule integrateN_stays_le [OF m1]) simp
  have s3: "length_v (snd (integrateN 1000 1.5 0.016 (Vector3 0 0.6 0) (Vector3 0.0245 0 0))) = 0.0005"
    unfolding e3 by (rule s1)
  have s0: "length_v (Vector3 0.0245 0 0) > 0" by simp
  from s0 s1 s2 s3 show ?thesis by blast
qed

section \<open>Facts about distances and the water loop\<close>

lemma distanceToSquared_nonneg: "0 \<le> distanceToSquared a b"
  by (simp add: distanceToSquared_def)

lemma distanceTo_less_iff: "0 \<le> r \<Longrightarrow> distanceTo a b < r \<longleftrightarrow> distanceToSquared a b < r * r"
proof -
  assume r: "0 \<le> r"
  have "distanceTo a b < r \<longleftrightarrow> sqrt (distanceToSquared a b) < sqrt (r * r)"
    using r by (simp add: distanceTo_def)
  also have "\<dots> \<longleftrightarrow> distanceToSquared a b < r * r"
    by (rule real_sqrt_less_iff)
  finally show ?thesis .
qed

lemma horizontal_le_distanceTo: "horizontalDistanceTo a b \<le> distanceTo a b"
  by (simp add: horizontalDistanceTo_def distanceTo_def distanceToSquared_def)

lemma waterFriction_eq:
  "waterFriction p obs f =
     (if \<exists>m c r. Water m c r \<in> set obs \<and> distanceTo p c < r then 4 else f)"
proof (induction obs arbitrary: f)
  case Nil
  show ?case by simp
next
  case (Cons ob obs)
  have ex: "\<And>P. (\<exists>m c r. Water m c r \<in> set (ob # obs) \<and> P c r) \<longleftrightarrow>
      (\<exists>m c r. ob = Water m c r \<and> P c r) \<or> (\<exists>m c r. Water m c r \<in> set obs \<and> P c r)"
    by auto
  show ?case
    unfolding ex by (cases ob) (auto simp: Cons.IH)
qed

lemma levelObstacles_4:
  "levelObstacles 4 =
     [Water \<lparr>geometry = CircleGeometry 3.6, position = Vector3 (- 4) 0.02 (- 4),
              rotation = Vector3 (- pi / 2) 0 0, scale = 1\<rparr> (Vector3 (- 4) 0.02 (- 4)) 3.6,
      Box (boxMesh 1.6 0.4 1.6 (Vector3 (- 4) 0.2 (- 2.8)) (Vector3 0 0 0))]"
  by (simp add: levelObstacles_def)

section \<open>C6: friction in the water\<close>

text \<open>
  C6 (as amended). In every integration step the friction coefficient is \<open>1.5\<close> by
  default, and it is \<open>4.0\<close> for that step exactly when the level is 4 and the distance
  in space (vertical component included) from the ball's position to the centre of
  some water obstacle is strictly below that obstacle's radius. The coefficient is
  computed from the current position in each frame and is stored nowhere. A ball
  inside by this measure is inside horizontally as well, but not the other way
  round.
\<close>

theorem water_friction:
  "localFriction lvl p obs =
     (if lvl = 4 \<and> (\<exists>m c r. Water m c r \<in> set obs \<and> distanceTo p c < r) then 4 else 1.5)
   \<and> (\<forall>c r. distanceTo p c < r \<longrightarrow> horizontalDistanceTo p c < r)"
proof -
  have a: "localFriction lvl p obs =
     (if lvl = 4 \<and> (\<exists>m c r. Water m c r \<in> set obs \<and> distanceTo p c < r) then 4 else 1.5)"
    by (simp add: localFriction_def waterFriction_eq)
  have b: "\<forall>c r. distanceTo p c < r \<longrightarrow> horizontalDistanceTo p c < r"
    using horizontal_le_distanceTo [of p] by (meson le_less_trans)
  from a b show ?thesis by blast
qed

text \<open>Level 4: a ball over the pond's centre has friction \<open>4\<close>, a ball far from the pond \<open>1.5\<close>.\<close>

theorem water_friction_witness:
  "distanceTo (Vector3 (- 4) 0.6 (- 4)) (Vector3 (- 4) 0.02 (- 4)) < 3.6
   \<and> localFriction 4 (Vector3 (- 4) 0.6 (- 4)) (levelObstacles 4) = 4
   \<and> horizontalDistanceTo (Vector3 (- 4) 0.6 (- 4)) (Vector3 (- 4) 0.02 (- 4)) < 3.6
   \<and> localFriction 4 (Vector3 5 0.6 5) (levelObstacles 4) = 1.5"
proof -
  have d: "distanceTo (Vector3 (- 4) 0.6 (- 4)) (Vector3 (- 4) 0.02 (- 4)) < 3.6"
    by (subst distanceTo_less_iff) (simp_all add: distanceToSquared_def)
  have far: "\<not> distanceTo (Vector3 5 0.6 5) (Vector3 (- 4) 0.02 (- 4)) < 3.6"
    by (subst distanceTo_less_iff) (simp_all add: distanceToSquared_def)
  have w: "\<exists>m c r. Water m c r \<in> set (levelObstacles 4) \<and> distanceTo (Vector3 (- 4) 0.6 (- 4)) c < r"
    unfolding levelObstacles_4
    by (rule exI, rule exI, rule exI, rule conjI, rule list.set_intros(1), rule d)
  have nw: "\<not> (\<exists>m c r. Water m c r \<in> set (levelObstacles 4) \<and> distanceTo (Vector3 5 0.6 5) c < r)"
    unfolding levelObstacles_4 using far by auto
  note t1 = water_friction [of 4 "Vector3 (- 4) 0.6 (- 4)" "levelObstacles 4"]
  note t2 = water_friction [of 4 "Vector3 5 0.6 5" "levelObstacles 4"]
  from t1 w have a: "localFriction 4 (Vector3 (- 4) 0.6 (- 4)) (levelObstacles 4) = 4"
    by simp
  from t1 d have b: "horizontalDistanceTo (Vector3 (- 4) 0.6 (- 4)) (Vector3 (- 4) 0.02 (- 4)) < 3.6"
    by blast
  from t2 nw have c: "localFriction 4 (Vector3 5 0.6 5) (levelObstacles 4) = 1.5"
    by simp
  from d a b c show ?thesis by blast
qed

text \<open>
  Level 4, the ball on the ground (height \<open>0.6\<close>) at horizontal distance \<open>3.58\<close> from
  the pond's centre, within the radius \<open>3.6\<close>: the claim as stated gives friction
  \<open>4.0\<close>, the code \<open>1.5\<close>, because the centre of the pond lies at height \<open>0.02\<close> and
  \<^verbatim>\<open>distanceTo\<close> counts the difference in height.
\<close>

theorem water_friction_counterexample:
  "horizontalDistanceTo (Vector3 (- 0.42) 0.6 (- 4)) (Vector3 (- 4) 0.02 (- 4)) < 3.6
   \<and> localFriction 4 (Vector3 (- 0.42) 0.6 (- 4)) (levelObstacles 4) = 1.5
   \<and> localFriction 4 (Vector3 (- 0.42) 0.6 (- 4)) (levelObstacles 4) \<noteq> 4"
proof -
  have h: "horizontalDistanceTo (Vector3 (- 0.42) 0.6 (- 4)) (Vector3 (- 4) 0.02 (- 4)) = 3.58"
  proof -
    have "horizontalDistanceTo (Vector3 (- 0.42) 0.6 (- 4)) (Vector3 (- 4) 0.02 (- 4)) = sqrt (3.58 * 3.58)"
      by (simp add: horizontalDistanceTo_def)
    also have "\<dots> = 3.58"
      by (simp only: real_sqrt_abs2) simp
    finally show ?thesis .
  qed
  have far: "\<not> distanceTo (Vector3 (- 0.42) 0.6 (- 4)) (Vector3 (- 4) 0.02 (- 4)) < 3.6"
    by (subst distanceTo_less_iff) (simp_all add: distanceToSquared_def)
  have f: "localFriction 4 (Vector3 (- 0.42) 0.6 (- 4)) (levelObstacles 4) = 1.5"
    unfolding levelObstacles_4 localFriction_def using far by simp
  show ?thesis
    unfolding h f by simp
qed

section \<open>Facts about normalised directions and the moving block\<close>

lemma distanceTo_length: "distanceTo a b = length_v (subVectors b a)"
proof -
  have "distanceToSquared a b = lengthSq (subVectors b a)"
    by (simp add: distanceToSquared_def lengthSq_def subVectors_def algebra_simps)
  then show ?thesis
    by (simp add: distanceTo_def length_v_def)
qed

lemma normalize_v_scale:
  "length_v w \<noteq> 0 \<Longrightarrow> normalize_v w = multiplyScalar w (1 / length_v w)"
  by (simp add: normalize_v_def divideScalar_def)

lemma length_v_normalize:
  assumes "length_v w \<noteq> 0"
  shows "length_v (normalize_v w) = 1"
proof -
  have "0 < length_v w"
    using assms length_v_nonneg [of w] by linarith
  then show ?thesis
    by (simp add: normalize_v_scale [OF assms] length_v_multiplyScalar)
qed

lemma normalize_v_zero: "length_v w = 0 \<Longrightarrow> normalize_v w = Vector3 0 0 0"
proof -
  assume "length_v w = 0"
  then have "lengthSq w = 0" by (simp add: length_v_zero_iff)
  then have "setLength w 1 = Vector3 0 0 0" by (rule setLength_zero_vec)
  then show ?thesis by (simp add: setLength_def multiplyScalar_def)
qed

lemma multiplyScalar_twice: "multiplyScalar (multiplyScalar w a) b = multiplyScalar w (a * b)"
  by (simp add: multiplyScalar_def)

lemma distanceTo_along_z: "distanceTo (Vector3 a b c) (Vector3 a b c') = \<bar>c - c'\<bar>"
  by (simp add: distanceTo_def distanceToSquared_def)

lemma level2_block:
  "last (levelObstacles 2) =
     Moving (boxMesh 1.2 1.0 1.2 (Vector3 0 0.6 (- 12)) (Vector3 0 0 0)) ''x'' 3.0 1.2 (Vector3 0 0.6 (- 12))"
  by (simp add: levelObstacles_def)

lemma block_contact_example:
  "collideObstacle sfo
      (Moving (boxMesh 1.2 1.0 1.2 (Vector3 0 0.6 (- 12)) (Vector3 0 0 0)) ''x'' 3.0 1.2 (Vector3 0 0.6 (- 12)))
      (Vector3 0 0.6 (- 11)) (Vector3 0 0 0)
   = (Vector3 0 0.6 (- 11), Vector3 0 0 5,
      Moving (boxMesh 1.2 1.0 1.2 (Vector3 0 0.6 (- 12.2)) (Vector3 0 0 0)) ''x'' 3.0 1.2 (Vector3 0 0.6 (- 12)))"
proof -
  have d: "distanceTo (Vector3 0 0.6 (- 12)) (Vector3 0 0.6 (- 11)) = 1"
    by (simp add: distanceTo_along_z)
  have n: "normalize_v (subVectors (Vector3 0 0.6 (- 11)) (Vector3 0 0.6 (- 12))) = Vector3 0 0 1"
    by (simp add: subVectors_def normalize_v_def divideScalar_def multiplyScalar_def)
  show ?thesis
    using d n unfolding boxMesh_def collideObstacle.simps Let_def
    by (simp add: BALL_RADIUS_def multiplyScalar_def add_v_def)
qed

section \<open>C7: contact with a moving block\<close>

text \<open>
  C7 (as amended). When the distance between the ball and the centre of a moving
  block is below the ball radius plus \<open>0.6\<close> and is not zero, the normalised direction
  from the block to the ball, a unit vector, scaled by \<open>5\<close> is added to the ball's
  velocity, the ball's position is left alone, and the block is moved backward along
  that direction. When the two centres coincide, or the distance is not below the
  threshold, nothing changes. On the next frame the oscillation update writes the
  block's coordinate on its oscillation axis from the time-derived formula and leaves
  its two other coordinates as they are, so it undoes the nudge on that axis only.
\<close>

theorem moving_block_contact:
  "(0 < distanceTo (position m) ballPos \<and> distanceTo (position m) ballPos < BALL_RADIUS + 0.6 \<longrightarrow>
      (let n = normalize_v (subVectors ballPos (position m)) in
         length_v n = 1
       \<and> length_v (multiplyScalar n 5) = 5
       \<and> (\<exists>k > 0. collideObstacle sfo (Moving m ax amplitude spd basePos) ballPos vel =
              (ballPos, add_v vel (multiplyScalar n 5),
               Moving (m\<lparr>position := add_v (position m) (multiplyScalar n (- k))\<rparr>) ax amplitude spd basePos))))
   \<and> (distanceTo (position m) ballPos = 0 \<or> \<not> distanceTo (position m) ballPos < BALL_RADIUS + 0.6 \<longrightarrow>
        collideObstacle sfo (Moving m ax amplitude spd basePos) ballPos vel =
          (ballPos, vel, Moving m ax amplitude spd basePos))
   \<and> position (obstacleMesh (animateObstacle time dt (Moving m ax amplitude spd basePos))) =
        (if ax = ''x''
         then setX (position m) (vx basePos + sin (time * orDefault spd 1.0) * orDefault amplitude 2.2)
         else setZ (position m) (vz basePos + cos (time * orDefault spd 1.0) * orDefault amplitude 2.2))"
proof -
  let ?n = "normalize_v (subVectors ballPos (position m))"
  let ?d = "distanceTo (position m) ballPos"
  have a: "0 < ?d \<and> ?d < BALL_RADIUS + 0.6 \<longrightarrow>
      (let n = ?n in
         length_v n = 1
       \<and> length_v (multiplyScalar n 5) = 5
       \<and> (\<exists>k > 0. collideObstacle sfo (Moving m ax amplitude spd basePos) ballPos vel =
              (ballPos, add_v vel (multiplyScalar n 5),
               Moving (m\<lparr>position := add_v (position m) (multiplyScalar n (- k))\<rparr>) ax amplitude spd basePos)))"
  proof (rule impI)
    assume h: "0 < ?d \<and> ?d < BALL_RADIUS + 0.6"
    then have nz: "length_v (subVectors ballPos (position m)) \<noteq> 0"
      by (simp add: distanceTo_length)
    have l1: "length_v ?n = 1"
      by (rule length_v_normalize [OF nz])
    have l5: "length_v (multiplyScalar ?n 5) = 5"
      by (simp add: length_v_multiplyScalar l1)
    have c: "collideObstacle sfo (Moving m ax amplitude spd basePos) ballPos vel =
              (ballPos, add_v vel (multiplyScalar ?n 5),
               Moving (m\<lparr>position := add_v (position m) (multiplyScalar ?n (- 0.2))\<rparr>) ax amplitude spd basePos)"
      using h by (simp add: Let_def multiplyScalar_twice)
    have "\<exists>k > 0. collideObstacle sfo (Moving m ax amplitude spd basePos) ballPos vel =
              (ballPos, add_v vel (multiplyScalar ?n 5),
               Moving (m\<lparr>position := add_v (position m) (multiplyScalar ?n (- k))\<rparr>) ax amplitude spd basePos)"
      by (rule exI [of _ "0.2"]) (simp only: c, simp)
    with l1 l5 show "let n = ?n in
         length_v n = 1
       \<and> length_v (multiplyScalar n 5) = 5
       \<and> (\<exists>k > 0. collideObstacle sfo (Moving m ax amplitude spd basePos) ballPos vel =
              (ballPos, add_v vel (multiplyScalar n 5),
               Moving (m\<lparr>position := add_v (position m) (multiplyScalar n (- k))\<rparr>) ax amplitude spd basePos))"
      by (simp only: Let_def simp_thms)
  qed
  have b: "?d = 0 \<or> \<not> ?d < BALL_RADIUS + 0.6 \<longrightarrow>
        collideObstacle sfo (Moving m ax amplitude spd basePos) ballPos vel =
          (ballPos, vel, Moving m ax amplitude spd basePos)"
  proof (rule impI)
    assume h: "?d = 0 \<or> \<not> ?d < BALL_RADIUS + 0.6"
    show "collideObstacle sfo (Moving m ax amplitude spd basePos) ballPos vel =
          (ballPos, vel, Moving m ax amplitude spd basePos)"
    proof (cases "?d < BALL_RADIUS + 0.6")
      case False
      then show ?thesis by (simp add: Let_def)
    next
      case True
      with h have "?d = 0" by blast
      then have "length_v (subVectors ballPos (position m)) = 0"
        by (simp add: distanceTo_length)
      then have z: "?n = Vector3 0 0 0"
        by (rule normalize_v_zero)
      show ?thesis
        using True by (cases vel) (simp add: Let_def z multiplyScalar_def add_v_def)
    qed
  qed
  have c: "position (obstacleMesh (animateObstacle time dt (Moving m ax amplitude spd basePos))) =
        (if ax = ''x''
         then setX (position m) (vx basePos + sin (time * orDefault spd 1.0) * orDefault amplitude 2.2)
         else setZ (position m) (vz basePos + cos (time * orDefault spd 1.0) * orDefault amplitude 2.2))"
    by (simp add: Let_def)
  from a b c show ?thesis by blast
qed

text \<open>
  The block of level 2 at its base position: a ball one unit in front of it is hit,
  a ball two units away is not, and at time \<open>0\<close> the oscillation puts the block at
  \<open>x = 0\<close>.
\<close>

theorem moving_block_contact_witness:
  "0 < distanceTo (Vector3 0 0.6 (- 12)) (Vector3 0 0.6 (- 11))
   \<and> distanceTo (Vector3 0 0.6 (- 12)) (Vector3 0 0.6 (- 11)) < BALL_RADIUS + 0.6
   \<and> length_v (normalize_v (subVectors (Vector3 0 0.6 (- 11)) (Vector3 0 0.6 (- 12)))) = 1
   \<and> fst (snd (collideObstacle unrotatedBox (last (levelObstacles 2)) (Vector3 0 0.6 (- 11)) (Vector3 1 0 0)))
       = add_v (Vector3 1 0 0) (multiplyScalar (normalize_v (subVectors (Vector3 0 0.6 (- 11)) (Vector3 0 0.6 (- 12)))) 5)
   \<and> collideObstacle unrotatedBox (last (levelObstacles 2)) (Vector3 0 0.6 (- 10)) (Vector3 1 0 0)
       = (Vector3 0 0.6 (- 10), Vector3 1 0 0, last (levelObstacles 2))
   \<and> vx (position (obstacleMesh (animateObstacle 0 0 (last (levelObstacles 2))))) = 0"
proof -
  let ?m = "boxMesh 1.2 1.0 1.2 (Vector3 0 0.6 (- 12)) (Vector3 0 0 0)"
  have pm: "position ?m = Vector3 0 0.6 (- 12)"
    by (simp add: boxMesh_def)
  note t1 = moving_block_contact [of ?m "Vector3 0 0.6 (- 11)" unrotatedBox "''x''" "3.0" "1.2"
      "Vector3 0 0.6 (- 12)" "Vector3 1 0 0" 0 0, unfolded pm Let_def]
  note t2 = moving_block_contact [of ?m "Vector3 0 0.6 (- 10)" unrotatedBox "''x''" "3.0" "1.2"
      "Vector3 0 0.6 (- 12)" "Vector3 1 0 0" 0 0, unfolded pm Let_def]
  have d0: "0 < distanceTo (Vector3 0 0.6 (- 12)) (Vector3 0 0.6 (- 11))"
    by (simp add: distanceTo_along_z)
  have d1: "distanceTo (Vector3 0 0.6 (- 12)) (Vector3 0 0.6 (- 11)) < BALL_RADIUS + 0.6"
    by (simp add: distanceTo_along_z BALL_RADIUS_def)
  have d2: "\<not> distanceTo (Vector3 0 0.6 (- 12)) (Vector3 0 0.6 (- 10)) < BALL_RADIUS + 0.6"
    by (simp add: distanceTo_along_z BALL_RADIUS_def)
  from t1 d0 d1 have a: "length_v (normalize_v (subVectors (Vector3 0 0.6 (- 11)) (Vector3 0 0.6 (- 12)))) = 1"
    by blast
  from t1 d0 d1 obtain k where
    "collideObstacle unrotatedBox (Moving ?m ''x'' 3.0 1.2 (Vector3 0 0.6 (- 12))) (Vector3 0 0.6 (- 11)) (Vector3 1 0 0) =
       (Vector3 0 0.6 (- 11),
        add_v (Vector3 1 0 0) (multiplyScalar (normalize_v (subVectors (Vector3 0 0.6 (- 11)) (Vector3 0 0.6 (- 12)))) 5),
        Moving (?m\<lparr>position := add_v (Vector3 0 0.6 (- 12))
            (multiplyScalar (normalize_v (subVectors (Vector3 0 0.6 (- 11)) (Vector3 0 0.6 (- 12)))) (- k))\<rparr>)
          ''x'' 3.0 1.2 (Vector3 0 0.6 (- 12)))"
    by blast
  then have b: "fst (snd (collideObstacle unrotatedBox (last (levelObstacles 2)) (Vector3 0 0.6 (- 11)) (Vector3 1 0 0)))
       = add_v (Vector3 1 0 0) (multiplyScalar (normalize_v (subVectors (Vector3 0 0.6 (- 11)) (Vector3 0 0.6 (- 12)))) 5)"
    unfolding level2_block by (simp only: fst_conv snd_conv)
  from t2 d2 have c: "collideObstacle unrotatedBox (last (levelObstacles 2)) (Vector3 0 0.6 (- 10)) (Vector3 1 0 0)
       = (Vector3 0 0.6 (- 10), Vector3 1 0 0, last (levelObstacles 2))"
    unfolding level2_block by blast
  from t1 have "position (obstacleMesh (animateObstacle 0 0 (Moving ?m ''x'' 3.0 1.2 (Vector3 0 0.6 (- 12))))) =
        (if ''x'' = ''x''
         then setX (Vector3 0 0.6 (- 12)) (vx (Vector3 0 0.6 (- 12)) + sin (0 * orDefault 1.2 1.0) * orDefault 3.0 2.2)
         else setZ (Vector3 0 0.6 (- 12)) (vz (Vector3 0 0.6 (- 12)) + cos (0 * orDefault 1.2 1.0) * orDefault 3.0 2.2))"
    by blast
  then have e: "vx (position (obstacleMesh (animateObstacle 0 0 (last (levelObstacles 2))))) = 0"
    unfolding level2_block by simp
  from d0 d1 a b c e show ?thesis by blast
qed

text \<open>
  The same contact against the claim as stated: the block moves \<open>0.2\<close> units, not
  \<open>0.04\<close> (\<^verbatim>\<open>dir\<close> was already scaled by \<open>5\<close> in place when it is scaled by \<open>-0.04\<close>),
  and on the next frame its \<open>z\<close> coordinate is still \<open>-12.2\<close>, where the block that was
  not hit is at \<open>z = -12\<close>: the position is not restored.
\<close>

theorem moving_block_contact_counterexample:
  "distanceTo (position (obstacleMesh (last (levelObstacles 2)))) (Vector3 0 0.6 (- 11)) < BALL_RADIUS + 0.6
   \<and> distanceTo (position (obstacleMesh (last (levelObstacles 2))))
        (position (obstacleMesh (snd (snd (collideObstacle unrotatedBox (last (levelObstacles 2))
            (Vector3 0 0.6 (- 11)) (Vector3 0 0 0)))))) = 0.2
   \<and> position (obstacleMesh (animateObstacle 0.016 0.016
        (snd (snd (collideObstacle unrotatedBox (last (levelObstacles 2)) (Vector3 0 0.6 (- 11)) (Vector3 0 0 0))))))
       = Vector3 (sin (0.016 * 1.2) * 3) 0.6 (- 12.2)
   \<and> position (obstacleMesh (animateObstacle 0.016 0.016 (last (levelObstacles 2))))
       = Vector3 (sin (0.016 * 1.2) * 3) 0.6 (- 12)
   \<and> position (obstacleMesh (animateObstacle 0.016 0.016
        (snd (snd (collideObstacle unrotatedBox (last (levelObstacles 2)) (Vector3 0 0.6 (- 11)) (Vector3 0 0 0))))))
       \<noteq> position (obstacleMesh (animateObstacle 0.016 0.016 (last (levelObstacles 2))))"
proof -
  have a: "distanceTo (position (obstacleMesh (last (levelObstacles 2)))) (Vector3 0 0.6 (- 11)) < BALL_RADIUS + 0.6"
    unfolding level2_block by (simp add: boxMesh_def distanceTo_along_z BALL_RADIUS_def)
  have b: "distanceTo (position (obstacleMesh (last (levelObstacles 2))))
        (position (obstacleMesh (snd (snd (collideObstacle unrotatedBox (last (levelObstacles 2))
            (Vector3 0 0.6 (- 11)) (Vector3 0 0 0)))))) = 0.2"
    unfolding level2_block block_contact_example by (simp add: boxMesh_def distanceTo_along_z)
  have c: "position (obstacleMesh (animateObstacle 0.016 0.016
        (snd (snd (collideObstacle unrotatedBox (last (levelObstacles 2)) (Vector3 0 0.6 (- 11)) (Vector3 0 0 0))))))
       = Vector3 (sin (0.016 * 1.2) * 3) 0.6 (- 12.2)"
    unfolding level2_block block_contact_example
    by (simp add: boxMesh_def Let_def orDefault_def setX_def)
  have d: "position (obstacleMesh (animateObstacle 0.016 0.016 (last (levelObstacles 2))))
       = Vector3 (sin (0.016 * 1.2) * 3) 0.6 (- 12)"
    unfolding level2_block
    by (simp add: boxMesh_def Let_def orDefault_def setX_def)
  have e: "position (obstacleMesh (animateObstacle 0.016 0.016
        (snd (snd (collideObstacle unrotatedBox (last (levelObstacles 2)) (Vector3 0 0.6 (- 11)) (Vector3 0 0 0))))))
       \<noteq> position (obstacleMesh (animateObstacle 0.016 0.016 (last (levelObstacles 2))))"
    unfolding c d by simp
  from a b c d e show ?thesis by blast
qed

section \<open>Facts about the shot impulse\<close>

lemma setLength_times: "setLength d (l * k) = multiplyScalar (setLength d l) k"
  by (simp add: setLength_def multiplyScalar_def algebra_simps)

lemma length_v_setLength_any:
  assumes "0 \<le> l" and "l \<le> length_v d"
  shows "length_v (setLength d l) = l"
proof (cases "lengthSq d = 0")
  case True
  then have "length_v d = 0" by (simp add: length_v_zero_iff)
  with assms have "l = 0" by simp
  then show ?thesis
    by (simp add: setLength_zero_vec [OF True])
next
  case False
  then show ?thesis
    by (rule length_v_setLength) (rule assms(1))
qed

lemma length_v_shotImpulse: "length_v (shotImpulse d) = 5 * min (length_v d) 6"
proof -
  have "length_v (setLength d (min (length_v d) 6)) = min (length_v d) 6"
    by (rule length_v_setLength_any) (simp_all add: length_v_nonneg)
  then show ?thesis
    by (simp add: shotImpulse_def length_v_multiplyScalar)
qed

section \<open>C10: a released shot adds to the velocity\<close>

text \<open>
  C10. On the pointer-up that ends an aim gesture (the handler runs with
  \<^verbatim>\<open>isAiming\<close> set and the drag start recorded), the impulse computed from the drag
  vector \<open>d = dragStart - release\<close>, that is the direction of \<open>d\<close> with length
  \<open>min |d| 6\<close> scaled by \<open>5\<close>, is added to the velocity the ball has: the velocity
  after the release is the velocity before plus the impulse, whose length is
  \<open>5 * min |d| 6\<close>. Without a gesture in progress the handler changes nothing.
\<close>

theorem release_adds_impulse:
  "(isAiming s \<and> dragStart s = Some ds \<longrightarrow>
      (\<exists>s'. onPointerUp release s = Inr s'
          \<and> velocity s' = add_v (velocity s) (shotImpulse (subVectors ds release))
          \<and> \<not> isAiming s'))
   \<and> (\<not> isAiming s \<longrightarrow> onPointerUp release s = Inr s)
   \<and> length_v (shotImpulse (subVectors ds release)) = 5 * min (length_v (subVectors ds release)) 6"
proof -
  have a: "isAiming s \<and> dragStart s = Some ds \<longrightarrow>
      (\<exists>s'. onPointerUp release s = Inr s'
          \<and> velocity s' = add_v (velocity s) (shotImpulse (subVectors ds release))
          \<and> \<not> isAiming s')"
    by (simp add: onPointerUp_def Let_def shotImpulse_def setLength_times)
  have b: "\<not> isAiming s \<longrightarrow> onPointerUp release s = Inr s"
    by (simp add: onPointerUp_def)
  from a b length_v_shotImpulse show ?thesis by blast
qed

text \<open>
  A ball moving with velocity \<open>(1, 0, 2)\<close> and a drag of length \<open>8\<close> along \<open>x\<close>: the
  impulse is \<open>(30, 0, 0)\<close> and the velocity becomes \<open>(31, 0, 2)\<close>.
\<close>

theorem release_adds_impulse_witness:
  "isAiming ((initState 1 0)\<lparr>isAiming := True, dragStart := Some (Vector3 0 0 0), velocity := Vector3 1 0 2\<rparr>)
   \<and> (\<exists>s'. onPointerUp (Vector3 (- 8) 0 0)
              ((initState 1 0)\<lparr>isAiming := True, dragStart := Some (Vector3 0 0 0), velocity := Vector3 1 0 2\<rparr>) = Inr s'
          \<and> velocity s' = Vector3 31 0 2)
   \<and> onPointerUp (Vector3 (- 8) 0 0) (initState 1 0) = Inr (initState 1 0)"
proof -
  let ?s = "(initState 1 0)\<lparr>isAiming := True, dragStart := Some (Vector3 0 0 0), velocity := Vector3 1 0 2\<rparr>"
  have h: "isAiming ?s \<and> dragStart ?s = Some (Vector3 0 0 0)" by simp
  have v: "velocity ?s = Vector3 1 0 2" by simp
  have n: "\<not> isAiming (initState 1 0)" by simp
  have imp: "shotImpulse (subVectors (Vector3 0 0 0) (Vector3 (- 8) 0 0)) = Vector3 30 0 0"
    by (simp add: shotImpulse_def subVectors_def setLength_def normalize_v_def divideScalar_def multiplyScalar_def)
  from release_adds_impulse [of ?s "Vector3 0 0 0" "Vector3 (- 8) 0 0"] h
  obtain s' where "onPointerUp (Vector3 (- 8) 0 0) ?s = Inr s'"
    and "velocity s' = add_v (velocity ?s) (shotImpulse (subVectors (Vector3 0 0 0) (Vector3 (- 8) 0 0)))"
    by blast
  then have a: "\<exists>s'. onPointerUp (Vector3 (- 8) 0 0) ?s = Inr s' \<and> velocity s' = Vector3 31 0 2"
    unfolding v imp by (simp add: add_v_def)
  from release_adds_impulse [of "initState 1 0" "Vector3 0 0 0" "Vector3 (- 8) 0 0"] n
  have b: "onPointerUp (Vector3 (- 8) 0 0) (initState 1 0) = Inr (initState 1 0)"
    by blast
  from h a b show ?thesis by blast
qed

section \<open>Facts about the trajectory preview\<close>

lemma simLoop_Suc:
  "simLoop (Suc n) f dt p v =
     (if lengthSq v < EPS then []
      else addScaledVector p v dt # simLoop n f dt (addScaledVector p v dt) (frictionDecay f dt v))"
  by (simp add: Let_def frictionDecay_def)

lemma simLoop_length: "length (simLoop n f dt p v) \<le> n"
  by (induction n arbitrary: p v) (simp_all add: Let_def)

lemma simLoop_nth:
  "i < length (simLoop n f dt p v) \<Longrightarrow>
     EPS \<le> lengthSq ((frictionDecay f dt ^^ i) v)
     \<and> simLoop n f dt p v ! i =
         addScaledVector (if i = 0 then p else simLoop n f dt p v ! (i - 1)) ((frictionDecay f dt ^^ i) v) dt"
proof (induction n arbitrary: p v i)
  case 0
  then show ?case by simp
next
  case (Suc n)
  from Suc.prems have mv: "\<not> lengthSq v < EPS"
    by (auto simp: simLoop_Suc simp del: simLoop.simps(2) split: if_splits)
  let ?p' = "addScaledVector p v dt" and ?v' = "frictionDecay f dt v"
  have unf: "simLoop (Suc n) f dt p v = ?p' # simLoop n f dt ?p' ?v'"
    using mv by (simp add: simLoop_Suc del: simLoop.simps(2))
  show ?case
  proof (cases i)
    case 0
    then show ?thesis using mv unf by simp
  next
    case (Suc j)
    with Suc.prems unf have j: "j < length (simLoop n f dt ?p' ?v')" by simp
    note ih = Suc.IH [OF j]
    have fp: "(frictionDecay f dt ^^ Suc j) v = (frictionDecay f dt ^^ j) ?v'"
      by (simp add: funpow_swap1)
    have prev: "(?p' # simLoop n f dt ?p' ?v') ! j = (if j = 0 then ?p' else simLoop n f dt ?p' ?v' ! (j - 1))"
      by (cases j) simp_all
    show ?thesis
      unfolding Suc unf fp using ih prev by simp
  qed
qed

lemma simLoop_stop:
  "length (simLoop n f dt p v) < n \<Longrightarrow>
     lengthSq ((frictionDecay f dt ^^ length (simLoop n f dt p v)) v) < EPS"
proof (induction n arbitrary: p v)
  case 0
  then show ?case by simp
next
  case (Suc n)
  show ?case
  proof (cases "lengthSq v < EPS")
    case True
    then show ?thesis by (simp add: simLoop_Suc del: simLoop.simps(2))
  next
    case False
    let ?p' = "addScaledVector p v dt" and ?v' = "frictionDecay f dt v"
    have unf: "simLoop (Suc n) f dt p v = ?p' # simLoop n f dt ?p' ?v'"
      using False by (simp add: simLoop_Suc del: simLoop.simps(2))
    with Suc.prems have "length (simLoop n f dt ?p' ?v') < n" by simp
    then have "lengthSq ((frictionDecay f dt ^^ length (simLoop n f dt ?p' ?v')) ?v') < EPS"
      by (rule Suc.IH)
    then show ?thesis
      unfolding unf by (simp add: funpow_swap1)
  qed
qed

lemma simulateTrajectory_simLoop: "simulateTrajectory n lvl start vel = simLoop n 1.5 0.06 start vel"
  by (simp add: simulateTrajectory_def)

lemma onPointerMove_keeps:
  "onPointerMove cfg cur s = Inr s' \<Longrightarrow>
     ball s' = ball s \<and> velocity s' = velocity s \<and> sinking s' = sinking s
     \<and> holeTriggered s' = holeTriggered s \<and> obstacles s' = obstacles s
     \<and> holeCompleteCalls s' = holeCompleteCalls s \<and> isAiming s' = isAiming s
     \<and> dragStart s' = dragStart s
     \<and> length (trajDots s') = length (trajDots s)"
  by (auto simp: onPointerMove_def Let_def split: if_splits option.splits)

lemma preview_slow_example:
  "simulateTrajectory 40 1 (Vector3 0 0.6 0) (Vector3 0.05 0 0) = [Vector3 0.003 0.6 0]"
proof -
  have fd: "frictionDecay 1.5 0.06 (Vector3 0.05 0 0) = Vector3 0 0 0"
    by (simp add: frictionDecay_axis_x)
  have n40: "(40::nat) = Suc (Suc 38)" by simp
  have "simLoop (Suc (Suc 38)) 1.5 0.06 (Vector3 0 0.6 0) (Vector3 0.05 0 0) = [Vector3 0.003 0.6 0]"
    unfolding simLoop_Suc fd by (simp add: lengthSq_def EPS_def addScaledVector_def)
  then show ?thesis
    unfolding simulateTrajectory_simLoop n40 .
qed

section \<open>C8: the trajectory preview\<close>

text \<open>
  C8 (as amended). The preview is a function of the start position and the initial
  velocity (its friction is \<open>1.5\<close> on every level and its step \<open>0.06\<close>). It yields at
  most as many positions as there are preview dots, and there are 40. Sample \<open>i\<close> is
  the previous sample (the start for the first) advanced by the velocity after \<open>i\<close>
  applications of the live integrator's friction decay, so the position moves by the
  velocity of before the decay of that sample, where the live integrator decays first
  and moves by the new velocity; there are no walls and no obstacles in the preview.
  Every sample is taken at a squared speed of at least the stationary threshold, and
  a preview shorter than the number of dots ends because the squared speed fell
  below it. The pointer-move handler that draws the preview leaves the ball, the
  velocity and the sink state as they are.
\<close>

theorem trajectory_preview:
  "length (simulateTrajectory n lvl start vel) \<le> n
   \<and> length (trajDots (initState lvl t0)) = 40
   \<and> (\<forall>i < length (simulateTrajectory n lvl start vel).
         EPS \<le> lengthSq ((frictionDecay 1.5 0.06 ^^ i) vel)
         \<and> simulateTrajectory n lvl start vel ! i =
             addScaledVector (if i = 0 then start else simulateTrajectory n lvl start vel ! (i - 1))
               ((frictionDecay 1.5 0.06 ^^ i) vel) 0.06)
   \<and> (length (simulateTrajectory n lvl start vel) < n \<longrightarrow>
         lengthSq ((frictionDecay 1.5 0.06 ^^ length (simulateTrajectory n lvl start vel)) vel) < EPS)
   \<and> (onPointerMove cfg cur s = Inr s' \<longrightarrow>
         ball s' = ball s \<and> velocity s' = velocity s \<and> sinking s' = sinking s
         \<and> length (trajDots s') = length (trajDots s))"
proof -
  have a: "length (simulateTrajectory n lvl start vel) \<le> n"
    unfolding simulateTrajectory_simLoop by (rule simLoop_length)
  have b: "length (trajDots (initState lvl t0)) = 40"
    by simp
  have c: "\<forall>i < length (simulateTrajectory n lvl start vel).
         EPS \<le> lengthSq ((frictionDecay 1.5 0.06 ^^ i) vel)
         \<and> simulateTrajectory n lvl start vel ! i =
             addScaledVector (if i = 0 then start else simulateTrajectory n lvl start vel ! (i - 1))
               ((frictionDecay 1.5 0.06 ^^ i) vel) 0.06"
    unfolding simulateTrajectory_simLoop using simLoop_nth by blast
  have d: "length (simulateTrajectory n lvl start vel) < n \<longrightarrow>
         lengthSq ((frictionDecay 1.5 0.06 ^^ length (simulateTrajectory n lvl start vel)) vel) < EPS"
    unfolding simulateTrajectory_simLoop using simLoop_stop by blast
  have e: "onPointerMove cfg cur s = Inr s' \<longrightarrow>
         ball s' = ball s \<and> velocity s' = velocity s \<and> sinking s' = sinking s
         \<and> length (trajDots s') = length (trajDots s)"
    using onPointerMove_keeps by blast
  from a b c d e show ?thesis by blast
qed

text \<open>
  A drag that gives the preview velocity \<open>(0.05, 0, 0)\<close>: one sample, taken with the
  initial velocity, after which the decayed speed is below the threshold; and a
  pointer-move during a gesture on level 1.
\<close>

theorem trajectory_preview_witness:
  "length (simulateTrajectory 40 1 (Vector3 0 0.6 0) (Vector3 0.05 0 0)) = 1
   \<and> EPS \<le> lengthSq ((frictionDecay 1.5 0.06 ^^ 0) (Vector3 0.05 0 0))
   \<and> simulateTrajectory 40 1 (Vector3 0 0.6 0) (Vector3 0.05 0 0) ! 0
        = addScaledVector (Vector3 0 0.6 0) (Vector3 0.05 0 0) 0.06
   \<and> lengthSq ((frictionDecay 1.5 0.06 ^^ 1) (Vector3 0.05 0 0)) < EPS
   \<and> (\<exists>s'. onPointerMove (sceneOf 1) (Vector3 (- 1) 0 0)
               ((initState 1 0)\<lparr>isAiming := True, dragStart := Some (Vector3 0 0 0)\<rparr>) = Inr s'
            \<and> ball s' = ball (initState 1 0) \<and> velocity s' = velocity (initState 1 0))"
proof -
  let ?T = "simulateTrajectory 40 1 (Vector3 0 0.6 0) (Vector3 0.05 0 0)"
  let ?s = "(initState 1 0)\<lparr>isAiming := True, dragStart := Some (Vector3 0 0 0)\<rparr>"
  have len: "length ?T = 1"
    unfolding preview_slow_example by simp
  obtain s' where mv: "onPointerMove (sceneOf 1) (Vector3 (- 1) 0 0) ?s = Inr s'"
    by (simp add: onPointerMove_def Let_def)
  note t = trajectory_preview [of 40 1 "Vector3 0 0.6 0" "Vector3 0.05 0 0" 0 "sceneOf 1" "Vector3 (- 1) 0 0" ?s s']
  have i0: "0 < length ?T" and lt: "length ?T < 40"
    unfolding len by simp_all
  from t i0 have a: "EPS \<le> lengthSq ((frictionDecay 1.5 0.06 ^^ 0) (Vector3 0.05 0 0))
      \<and> ?T ! 0 = addScaledVector (if (0::nat) = 0 then Vector3 0 0.6 0 else ?T ! (0 - 1))
          ((frictionDecay 1.5 0.06 ^^ 0) (Vector3 0.05 0 0)) 0.06"
    by blast
  then have a': "EPS \<le> lengthSq ((frictionDecay 1.5 0.06 ^^ 0) (Vector3 0.05 0 0))
      \<and> ?T ! 0 = addScaledVector (Vector3 0 0.6 0) (Vector3 0.05 0 0) 0.06"
    by (simp only: if_True funpow_0 simp_thms)
  from t lt have "lengthSq ((frictionDecay 1.5 0.06 ^^ length ?T) (Vector3 0.05 0 0)) < EPS"
    by blast
  then have b: "lengthSq ((frictionDecay 1.5 0.06 ^^ 1) (Vector3 0.05 0 0)) < EPS"
    unfolding len .
  from t mv have "ball s' = ball ?s \<and> velocity s' = velocity ?s"
    by blast
  then have "ball s' = ball (initState 1 0) \<and> velocity s' = velocity (initState 1 0)"
    by simp
  with mv have c: "\<exists>s'. onPointerMove (sceneOf 1) (Vector3 (- 1) 0 0) ?s = Inr s'
            \<and> ball s' = ball (initState 1 0) \<and> velocity s' = velocity (initState 1 0)"
    by blast
  from len a' b c show ?thesis by blast
qed

text \<open>
  From \<open>(0, 0.6, 0)\<close> with velocity \<open>(5, 0, 0)\<close> the first predicted point is at
  \<open>x = 0.3\<close> (\<open>5 * 0.06\<close>); one step of the live integrator with the same friction and
  step gives \<open>x = 0.2946\<close> (\<open>4.91 * 0.06\<close>), and so does the preview worded as the
  claim words it.
\<close>

theorem trajectory_preview_counterexample:
  "hd (simulateTrajectory 40 1 (Vector3 0 0.6 0) (Vector3 5 0 0)) = Vector3 0.3 0.6 0
   \<and> hd (ruleTrajectory 40 (Vector3 0 0.6 0) (Vector3 5 0 0)) = Vector3 0.2946 0.6 0
   \<and> fst (integrate 1.5 0.06 (Vector3 0 0.6 0) (Vector3 5 0 0)) = Vector3 0.2946 0.6 0
   \<and> simulateTrajectory 40 1 (Vector3 0 0.6 0) (Vector3 5 0 0)
        \<noteq> ruleTrajectory 40 (Vector3 0 0.6 0) (Vector3 5 0 0)"
proof -
  have fd: "frictionDecay 1.5 0.06 (Vector3 5 0 0) = Vector3 4.91 0 0"
    by (simp add: frictionDecay_axis_x)
  have mv: "\<not> lengthSq (Vector3 5 0 0) < EPS" "lengthSq (Vector3 5 0 0) > EPS"
    by (simp_all add: lengthSq_def EPS_def)
  have n40: "(40::nat) = Suc 39" by simp
  have a: "hd (simulateTrajectory 40 1 (Vector3 0 0.6 0) (Vector3 5 0 0)) = Vector3 0.3 0.6 0"
    unfolding simulateTrajectory_simLoop n40 simLoop_Suc using mv
    by (simp add: addScaledVector_def)
  have b: "hd (ruleTrajectory 40 (Vector3 0 0.6 0) (Vector3 5 0 0)) = Vector3 0.2946 0.6 0"
    unfolding n40 ruleTrajectory.simps Let_def fd using mv
    by (simp add: addScaledVector_def)
  have c: "fst (integrate 1.5 0.06 (Vector3 0 0.6 0) (Vector3 5 0 0)) = Vector3 0.2946 0.6 0"
    unfolding integrate_def Let_def fd using mv
    by (simp add: addScaledVector_def wallCollisions_inside COURSE_LIMIT_value)
  have d: "simulateTrajectory 40 1 (Vector3 0 0.6 0) (Vector3 5 0 0)
        \<noteq> ruleTrajectory 40 (Vector3 0 0.6 0) (Vector3 5 0 0)"
  proof
    assume "simulateTrajectory 40 1 (Vector3 0 0.6 0) (Vector3 5 0 0)
        = ruleTrajectory 40 (Vector3 0 0.6 0) (Vector3 5 0 0)"
    then have "hd (simulateTrajectory 40 1 (Vector3 0 0.6 0) (Vector3 5 0 0))
        = hd (ruleTrajectory 40 (Vector3 0 0.6 0) (Vector3 5 0 0))"
      by simp
    then show False
      unfolding a b by simp
  qed
  from a b c d show ?thesis by blast
qed

section \<open>Facts about the sink state machine\<close>

lemma physics_fields:
  "sinking (physics cfg dt s) = sinking s"
  "holeTriggered (physics cfg dt s) = holeTriggered s"
  "holeCompleteCalls (physics cfg dt s) = holeCompleteCalls s"
  "isAiming (physics cfg dt s) = isAiming s"
  "dragStart (physics cfg dt s) = dragStart s"
  by (simp_all add: physics_def Let_def split: prod.splits)

lemma physics_active: "active (sinking s) \<Longrightarrow> physics cfg dt s = s"
  by (simp add: physics_def)

lemma holeDetection_active: "active (sinking s) \<Longrightarrow> holeDetection cfg s = s"
  by (simp add: holeDetection_def)

lemma holeDetection_latched: "holeTriggered s \<Longrightarrow> holeDetection cfg s = s"
  by (simp add: holeDetection_def Let_def)

lemma holeDetection_fields:
  "holeCompleteCalls (holeDetection cfg s) = holeCompleteCalls s"
  "isAiming (holeDetection cfg s) = isAiming s"
  "dragStart (holeDetection cfg s) = dragStart s"
  "ball (holeDetection cfg s) = ball s"
  by (simp_all add: holeDetection_def Let_def)

lemma holeDetection_wellFormed: "wellFormed s \<Longrightarrow> wellFormed (holeDetection cfg s)"
  by (simp add: wellFormed_def holeDetection_def Let_def)

lemma holeDetection_pending:
  "wellFormed s \<Longrightarrow> pendingCalls (holeDetection cfg s) \<le> pendingCalls s"
  by (simp add: wellFormed_def pendingCalls_def holeDetection_def Let_def)

lemma physics_wellFormed: "wellFormed s \<Longrightarrow> wellFormed (physics cfg dt s)"
  by (simp add: wellFormed_def physics_fields)

lemma physics_pending: "pendingCalls (physics cfg dt s) = pendingCalls s"
  by (simp add: pendingCalls_def physics_fields)

lemma sinkingAnimation_idle: "\<not> active (sinking s) \<Longrightarrow> sinkingAnimation cfg dt s = Inr s"
  by (simp add: sinkingAnimation_def)

lemma sinkingAnimation_done:
  assumes "active (sinking s)" and "sink_end (sinking s) = Some b" and "sink_t (sinking s) + dt \<ge> 1.2"
  shows "\<exists>s'. sinkingAnimation cfg dt s = Inr s'
           \<and> position (ball s') = b \<and> scale (ball s') = 0.3
           \<and> \<not> active (sinking s')
           \<and> holeTriggered s' = holeTriggered s
           \<and> velocity s' = velocity s
           \<and> isAiming s' = isAiming s \<and> dragStart s' = dragStart s
           \<and> holeCompleteCalls s' = holeCompleteCalls s + (if onHoleComplete_is_function cfg then 1 else 0)"
proof -
  have "1 \<le> (sink_t (sinking s) + dt) / 1.2"
    using assms(3) by simp
  then have t1: "min 1 ((sink_t (sinking s) + dt) / 1.2) \<ge> 1"
    by simp
  show ?thesis
    using assms(1,2) t1 unfolding sinkingAnimation_def Let_def
    by (simp del: min.absorb1 min.absorb2 min.absorb3 min.absorb4)
qed

lemma sinkingAnimation_running:
  assumes "active (sinking s)" and "sink_t (sinking s) + dt < 1.2"
  shows "\<exists>s'. sinkingAnimation cfg dt s = Inr s'
           \<and> active (sinking s')
           \<and> sink_t (sinking s') = sink_t (sinking s) + dt
           \<and> sink_start (sinking s') = sink_start (sinking s)
           \<and> sink_end (sinking s') = sink_end (sinking s)
           \<and> holeTriggered s' = holeTriggered s
           \<and> velocity s' = velocity s
           \<and> isAiming s' = isAiming s \<and> dragStart s' = dragStart s
           \<and> holeCompleteCalls s' = holeCompleteCalls s"
proof -
  have "(sink_t (sinking s) + dt) / 1.2 < 1"
    using assms(2) by simp
  then have t1: "\<not> min 1 ((sink_t (sinking s) + dt) / 1.2) \<ge> 1"
    by simp
  show ?thesis
    using assms(1) t1 unfolding sinkingAnimation_def Let_def
    by (simp del: min.absorb1 min.absorb2 min.absorb3 min.absorb4)
qed

lemma sinkingAnimation_step:
  assumes "wellFormed s"
  shows "\<exists>s'. sinkingAnimation cfg dt s = Inr s' \<and> wellFormed s'
           \<and> holeCompleteCalls s \<le> holeCompleteCalls s'
           \<and> holeCompleteCalls s' + pendingCalls s' \<le> holeCompleteCalls s + pendingCalls s"
proof (cases "active (sinking s)")
  case False
  then show ?thesis using assms by (simp add: sinkingAnimation_idle)
next
  case True
  with assms obtain b where b: "sink_end (sinking s) = Some b" and tr: "holeTriggered s"
    and st: "sink_start (sinking s) \<noteq> None"
    by (auto simp: wellFormed_def)
  show ?thesis
  proof (cases "sink_t (sinking s) + dt \<ge> 1.2")
    case True
    from sinkingAnimation_done [OF \<open>active (sinking s)\<close> b True, of cfg]
    obtain s' where s': "sinkingAnimation cfg dt s = Inr s'" "\<not> active (sinking s')"
      "holeTriggered s' = holeTriggered s" "isAiming s' = isAiming s" "dragStart s' = dragStart s"
      "holeCompleteCalls s' = holeCompleteCalls s + (if onHoleComplete_is_function cfg then 1 else 0)"
      by blast
    have wf: "wellFormed s'"
      using assms s' by (simp add: wellFormed_def)
    have "pendingCalls s' = 0" "pendingCalls s = 1"
      using s' tr \<open>active (sinking s)\<close> by (simp_all add: pendingCalls_def)
    with s' wf show ?thesis by auto
  next
    case False
    then have "sink_t (sinking s) + dt < 1.2" by simp
    from sinkingAnimation_running [OF \<open>active (sinking s)\<close> this, of cfg]
    obtain s' where s': "sinkingAnimation cfg dt s = Inr s'" "active (sinking s')"
      "sink_start (sinking s') = sink_start (sinking s)" "sink_end (sinking s') = sink_end (sinking s)"
      "holeTriggered s' = holeTriggered s" "isAiming s' = isAiming s" "dragStart s' = dragStart s"
      "holeCompleteCalls s' = holeCompleteCalls s"
      by blast
    have wf: "wellFormed s'"
      using assms s' \<open>active (sinking s)\<close> by (simp add: wellFormed_def)
    have "pendingCalls s' = pendingCalls s"
      using s' \<open>active (sinking s)\<close> by (simp add: pendingCalls_def)
    with s' wf show ?thesis by auto
  qed
qed

lemma animate_blocks:
  "animate cfg now s =
     sinkingAnimation cfg ((now - last_now s) / 1000)
       (holeDetection cfg
          (physics cfg ((now - last_now s) / 1000)
             (s\<lparr>last_now := now, obstacleTime := obstacleTime s + (now - last_now s) / 1000,
                obstacles := map (animateObstacle (obstacleTime s + (now - last_now s) / 1000)
                                   ((now - last_now s) / 1000)) (obstacles s)\<rparr>)))"
  by (simp add: animate_def Let_def)

lemma animate_step:
  assumes "wellFormed s"
  shows "\<exists>s'. animate cfg now s = Inr s' \<and> wellFormed s'
           \<and> holeCompleteCalls s \<le> holeCompleteCalls s'
           \<and> holeCompleteCalls s' + pendingCalls s' \<le> holeCompleteCalls s + pendingCalls s"
proof -
  let ?dt = "(now - last_now s) / 1000"
  let ?s2 = "s\<lparr>last_now := now, obstacleTime := obstacleTime s + ?dt,
                obstacles := map (animateObstacle (obstacleTime s + ?dt) ?dt) (obstacles s)\<rparr>"
  let ?s4 = "holeDetection cfg (physics cfg ?dt ?s2)"
  have wf2: "wellFormed ?s2" using assms by (simp add: wellFormed_def)
  have p2: "pendingCalls ?s2 = pendingCalls s" "holeCompleteCalls ?s2 = holeCompleteCalls s"
    by (simp_all add: pendingCalls_def)
  have wf3: "wellFormed (physics cfg ?dt ?s2)"
    by (rule physics_wellFormed [OF wf2])
  have wf4: "wellFormed ?s4"
    by (rule holeDetection_wellFormed [OF wf3])
  have p4: "pendingCalls ?s4 \<le> pendingCalls s"
    using holeDetection_pending [OF wf3, of cfg] p2 by (simp add: physics_pending)
  have c4: "holeCompleteCalls ?s4 = holeCompleteCalls s"
    by (simp add: holeDetection_fields physics_fields)
  from sinkingAnimation_step [OF wf4, of cfg ?dt]
  obtain s' where s': "sinkingAnimation cfg ?dt ?s4 = Inr s'" "wellFormed s'"
    "holeCompleteCalls ?s4 \<le> holeCompleteCalls s'"
    "holeCompleteCalls s' + pendingCalls s' \<le> holeCompleteCalls ?s4 + pendingCalls ?s4"
    by blast
  have "animate cfg now s = Inr s'"
    unfolding animate_blocks using s'(1) .
  moreover have "holeCompleteCalls s \<le> holeCompleteCalls s'"
    using s'(3) c4 by simp
  moreover have "holeCompleteCalls s' + pendingCalls s' \<le> holeCompleteCalls s + pendingCalls s"
    using s'(4) c4 p4 by linarith
  ultimately show ?thesis using s'(2) by blast
qed

lemma wellFormed_cong:
  "sinking s' = sinking s \<Longrightarrow> holeTriggered s' = holeTriggered s \<Longrightarrow> isAiming s' = isAiming s \<Longrightarrow>
     dragStart s' = dragStart s \<Longrightarrow> wellFormed s' = wellFormed s"
  by (simp add: wellFormed_def)

lemma pendingCalls_cong:
  "sinking s' = sinking s \<Longrightarrow> holeTriggered s' = holeTriggered s \<Longrightarrow> pendingCalls s' = pendingCalls s"
  by (simp add: pendingCalls_def)

lemma onPointerDown_fields:
  "sinking (onPointerDown p s) = sinking s"
  "holeTriggered (onPointerDown p s) = holeTriggered s"
  "holeCompleteCalls (onPointerDown p s) = holeCompleteCalls s"
  "velocity (onPointerDown p s) = velocity s"
  "ball (onPointerDown p s) = ball s"
  by (simp_all add: onPointerDown_def)

lemma onPointerDown_wellFormed: "wellFormed s \<Longrightarrow> wellFormed (onPointerDown p s)"
  by (simp add: wellFormed_def onPointerDown_def)

lemma onPointerMove_returns: "wellFormed s \<Longrightarrow> \<exists>s'. onPointerMove cfg p s = Inr s'"
  by (cases "dragStart s") (simp_all add: wellFormed_def onPointerMove_def Let_def)

lemma onPointerUp_returns: "wellFormed s \<Longrightarrow> \<exists>s'. onPointerUp p s = Inr s'"
  by (cases "dragStart s") (simp_all add: wellFormed_def onPointerUp_def Let_def)

lemma onPointerUp_keeps:
  "onPointerUp p s = Inr s' \<Longrightarrow>
     ball s' = ball s \<and> sinking s' = sinking s \<and> holeTriggered s' = holeTriggered s
     \<and> holeCompleteCalls s' = holeCompleteCalls s \<and> dragStart s' = dragStart s
     \<and> \<not> isAiming s'"
  by (cases "isAiming s"; cases "dragStart s") (auto simp: onPointerUp_def Let_def)

lemma onPointerUp_wellFormed:
  assumes "wellFormed s" and "onPointerUp p s = Inr s'"
  shows "wellFormed s'"
  using assms(1) onPointerUp_keeps [OF assms(2)] by (simp add: wellFormed_def)

lemma step_invariant:
  assumes "wellFormed s" and "e \<noteq> Retry"
  shows "\<exists>s'. step cfg e s = Inr s' \<and> wellFormed s'
           \<and> holeCompleteCalls s \<le> holeCompleteCalls s'
           \<and> holeCompleteCalls s' + pendingCalls s' \<le> holeCompleteCalls s + pendingCalls s"
proof (cases e)
  case (Frame now)
  then show ?thesis using animate_step [OF assms(1)] by simp
next
  case (PointerDown p)
  have "pendingCalls (onPointerDown p s) = pendingCalls s"
    by (rule pendingCalls_cong) (simp_all add: onPointerDown_fields)
  then show ?thesis
    using PointerDown onPointerDown_wellFormed [OF assms(1)] by (simp add: onPointerDown_fields)
next
  case (PointerMove p)
  from onPointerMove_returns [OF assms(1)] obtain s' where s': "onPointerMove cfg p s = Inr s'"
    by blast
  note k = onPointerMove_keeps [OF s']
  have "wellFormed s'"
    using assms(1) k wellFormed_cong [of s' s] by simp
  moreover have "pendingCalls s' = pendingCalls s"
    using k pendingCalls_cong [of s' s] by simp
  ultimately show ?thesis
    using PointerMove s' k by simp
next
  case (PointerUp p)
  from onPointerUp_returns [OF assms(1)] obtain s' where s': "onPointerUp p s = Inr s'"
    by blast
  note k = onPointerUp_keeps [OF s']
  have "wellFormed s'"
    by (rule onPointerUp_wellFormed [OF assms(1) s'])
  moreover have "pendingCalls s' = pendingCalls s"
    using k pendingCalls_cong [of s' s] by simp
  ultimately show ?thesis
    using PointerUp s' k by simp
next
  case Retry
  with assms(2) show ?thesis by simp
qed

lemma run_invariant:
  assumes "wellFormed s" and "Retry \<notin> set es"
  shows "\<exists>s'. run cfg es s = Inr s' \<and> wellFormed s'
           \<and> holeCompleteCalls s \<le> holeCompleteCalls s'
           \<and> holeCompleteCalls s' + pendingCalls s' \<le> holeCompleteCalls s + pendingCalls s"
  using assms
proof (induction es arbitrary: s)
  case Nil
  then show ?case by simp
next
  case (Cons e es)
  from Cons.prems have ne: "e \<noteq> Retry" and rest: "Retry \<notin> set es" by auto
  from step_invariant [OF Cons.prems(1) ne, of cfg]
  obtain s1 where s1: "step cfg e s = Inr s1" "wellFormed s1"
    "holeCompleteCalls s \<le> holeCompleteCalls s1"
    "holeCompleteCalls s1 + pendingCalls s1 \<le> holeCompleteCalls s + pendingCalls s"
    by blast
  from Cons.IH [OF s1(2) rest]
  obtain s' where s': "run cfg es s1 = Inr s'" "wellFormed s'"
    "holeCompleteCalls s1 \<le> holeCompleteCalls s'"
    "holeCompleteCalls s' + pendingCalls s' \<le> holeCompleteCalls s1 + pendingCalls s1"
    by blast
  have "run cfg (e # es) s = Inr s'"
    using s1(1) s'(1) by simp
  moreover have "holeCompleteCalls s \<le> holeCompleteCalls s'"
    using s1(3) s'(3) by linarith
  moreover have "holeCompleteCalls s' + pendingCalls s' \<le> holeCompleteCalls s + pendingCalls s"
    using s1(4) s'(4) by linarith
  ultimately show ?case using s'(2) by blast
qed

lemma wellFormed_initState: "wellFormed (initState lvl t0)"
  by (simp add: wellFormed_def)

lemma wellFormed_handleRetry: "wellFormed s \<Longrightarrow> wellFormed (handleRetry s)"
  by (simp add: wellFormed_def handleRetry_def)

lemma pendingCalls_le_1: "pendingCalls s \<le> 1"
  by (simp add: pendingCalls_def)

section \<open>Concrete runs on level 1\<close>

text \<open>
  The blocks of a frame and the pointer handlers on the states of level 1, then the
  events of two rounds, one step at a time.
\<close>

lemma initState_level1:
  "initState 1 0 =
     level1State (Vector3 0 0.6 0) 1 (Vector3 0 0 0)
       \<lparr>active = False, sink_t = 0, sink_start = None, sink_end = None\<rparr> False 0 False None 0"
  by (simp add: initState_def level1State_def BALL_RADIUS_def)

lemma onPointerDown_sq:
  "onPointerDown p s =
     (if distanceToSquared p (position (ball s)) < 1.44 then s\<lparr>isAiming := True, dragStart := Some p\<rparr> else s)"
proof -
  have "distanceTo p (position (ball s)) < 1.2 \<longleftrightarrow> distanceToSquared p (position (ball s)) < 1.2 * 1.2"
    by (rule distanceTo_less_iff) simp
  then show ?thesis
    by (simp add: onPointerDown_def)
qed

lemma hole_near_sq: "distanceTo p h < HOLE_RADIUS \<longleftrightarrow> distanceToSquared p h < 1.44"
proof -
  have "distanceTo p h < 1.2 \<longleftrightarrow> distanceToSquared p h < 1.2 * 1.2"
    by (rule distanceTo_less_iff) simp
  then show ?thesis
    by (simp add: HOLE_RADIUS_def BALL_RADIUS_def)
qed

lemma frictionDecay_axis_z:
  "a \<noteq> 0 \<Longrightarrow> frictionDecay f dt (Vector3 0 0 a) = Vector3 0 0 (a * (max 0 (\<bar>a\<bar> - f * dt) / \<bar>a\<bar>))"
  by (simp add: frictionDecay_scale lengthSq_def multiplyScalar_def)

lemma setLength_axis_x: "a > 0 \<Longrightarrow> setLength (Vector3 a 0 0) l = Vector3 l 0 0"
  by (simp add: setLength_scale lengthSq_def multiplyScalar_def)

lemma setLength_axis_z: "a \<noteq> 0 \<Longrightarrow> setLength (Vector3 0 0 a) l = Vector3 0 0 (a * (l / \<bar>a\<bar>))"
  by (simp add: setLength_scale lengthSq_def multiplyScalar_def)

lemma physics_level1:
  "\<not> active sk \<Longrightarrow>
     physics (sceneOf 1) dt (level1State p sc v sk trig now aim ds calls) =
       level1State (fst (integrate 1.5 dt p v)) sc (snd (integrate 1.5 dt p v)) sk trig now aim ds calls"
  by (simp add: physics_def level1State_def sceneOf_def Let_def split: prod.splits)

lemma physics_level1_sinking:
  "active sk \<Longrightarrow>
     physics (sceneOf 1) dt (level1State p sc v sk trig now aim ds calls) =
       level1State p sc v sk trig now aim ds calls"
  by (simp add: physics_def level1State_def)

lemma animate_level1:
  "animate (sceneOf 1) now' (level1State p sc v sk trig now aim ds calls) =
     sinkingAnimation (sceneOf 1) ((now' - now) / 1000)
       (holeDetection (sceneOf 1)
          (physics (sceneOf 1) ((now' - now) / 1000) (level1State p sc v sk trig now' aim ds calls)))"
  by (simp add: animate_def level1State_def Let_def diff_divide_distrib)

lemma holeDetection_level1:
  "holeDetection (sceneOf 1) (level1State p sc v sk trig now aim ds calls) =
     (if \<not> active sk \<and> \<not> trig \<and> distanceToSquared p (Vector3 5 0.05 (- 3)) < 1.44
      then level1State p sc (Vector3 0 0 0)
             \<lparr>active = True, sink_t = 0, sink_start = Some p, sink_end = Some (Vector3 5 (- 0.5) (- 3))\<rparr>
             True now aim ds calls
      else level1State p sc v sk trig now aim ds calls)"
  by (simp add: holeDetection_def hole_near_sq Let_def level1State_def sceneOf_def holePosition_def setY_def)

lemma sinkingAnimation_level1_idle:
  "\<not> active sk \<Longrightarrow>
     sinkingAnimation (sceneOf 1) dt (level1State p sc v sk trig now aim ds calls) =
       Inr (level1State p sc v sk trig now aim ds calls)"
  by (simp add: sinkingAnimation_def level1State_def)

lemma sinkingAnimation_level1_active:
  "sinkingAnimation (sceneOf 1) dt
      (level1State p sc v \<lparr>active = True, sink_t = t0, sink_start = Some a, sink_end = Some b\<rparr> trig now aim ds calls) =
     (let t = min 1 ((t0 + dt) / 1.2);
          eased = t * t * (3 - 2 * t)
      in if t \<ge> 1
         then Inr (level1State b 0.3 v \<lparr>active = False, sink_t = t0 + dt, sink_start = Some a, sink_end = Some b\<rparr>
                     trig now aim ds (calls + 1))
         else Inr (level1State (lerpVectors a b eased) (1 - 0.7 * eased) v
                     \<lparr>active = True, sink_t = t0 + dt, sink_start = Some a, sink_end = Some b\<rparr>
                     trig now aim ds calls))"
  by (simp add: sinkingAnimation_def level1State_def sceneOf_def Let_def)

lemma onPointerDown_level1:
  "onPointerDown q (level1State p sc v sk trig now aim ds calls) =
     (if distanceToSquared q p < 1.44 then level1State p sc v sk trig now True (Some q) calls
      else level1State p sc v sk trig now aim ds calls)"
  by (simp add: onPointerDown_sq level1State_def)

lemma onPointerUp_level1:
  "onPointerUp q (level1State p sc v sk trig now True (Some d0) calls) =
     Inr (level1State p sc (add_v v (setLength (subVectors d0 q) (min (length_v (subVectors d0 q)) 6 * 5)))
            sk trig now False (Some d0) calls)"
  by (simp add: onPointerUp_def level1State_def Let_def)

lemma play1:
  "step (sceneOf 1) (PointerDown (Vector3 0 0 0))
     (level1State (Vector3 0 0.6 0) 1 (Vector3 0 0 0)
       \<lparr>active = False, sink_t = 0, sink_start = None, sink_end = None\<rparr> False 0 False None 0) =
   Inr (level1State (Vector3 0 0.6 0) 1 (Vector3 0 0 0)
       \<lparr>active = False, sink_t = 0, sink_start = None, sink_end = None\<rparr> False 0 True (Some (Vector3 0 0 0)) 0)"
  by (simp add: onPointerDown_level1 distanceToSquared_def)

lemma play2:
  "step (sceneOf 1) (PointerUp (Vector3 (- 1.3) 0 0))
     (level1State (Vector3 0 0.6 0) 1 (Vector3 0 0 0)
       \<lparr>active = False, sink_t = 0, sink_start = None, sink_end = None\<rparr> False 0 True (Some (Vector3 0 0 0)) 0) =
   Inr (level1State (Vector3 0 0.6 0) 1 (Vector3 6.5 0 0)
       \<lparr>active = False, sink_t = 0, sink_start = None, sink_end = None\<rparr> False 0 False (Some (Vector3 0 0 0)) 0)"
  by (simp add: onPointerUp_level1 subVectors_def add_v_def setLength_axis_x setLength_axis_z)

lemma play3:
  "step (sceneOf 1) (Frame 1000)
     (level1State (Vector3 0 0.6 0) 1 (Vector3 6.5 0 0)
       \<lparr>active = False, sink_t = 0, sink_start = None, sink_end = None\<rparr> False 0 False (Some (Vector3 0 0 0)) 0) =
   Inr (level1State (Vector3 5 0.6 0) 1 (Vector3 5 0 0)
       \<lparr>active = False, sink_t = 0, sink_start = None, sink_end = None\<rparr> False 1000 False (Some (Vector3 0 0 0)) 0)"
  by (simp add: animate_level1 physics_level1 holeDetection_level1 sinkingAnimation_level1_idle
      sinkingAnimation_level1_active integrate_def Let_def EPS_def lengthSq_def frictionDecay_axis_x
      frictionDecay_axis_z addScaledVector_def wallCollisions_inside COURSE_LIMIT_value
      distanceToSquared_def lerpVectors_def)

lemma play4:
  "step (sceneOf 1) (Frame 5000)
     (level1State (Vector3 5 0.6 0) 1 (Vector3 5 0 0)
       \<lparr>active = False, sink_t = 0, sink_start = None, sink_end = None\<rparr> False 1000 False (Some (Vector3 0 0 0)) 0) =
   Inr (level1State (Vector3 5 0.6 0) 1 (Vector3 0 0 0)
       \<lparr>active = False, sink_t = 0, sink_start = None, sink_end = None\<rparr> False 5000 False (Some (Vector3 0 0 0)) 0)"
  by (simp add: animate_level1 physics_level1 holeDetection_level1 sinkingAnimation_level1_idle
      sinkingAnimation_level1_active integrate_def Let_def EPS_def lengthSq_def frictionDecay_axis_x
      frictionDecay_axis_z addScaledVector_def wallCollisions_inside COURSE_LIMIT_value
      distanceToSquared_def lerpVectors_def)

lemma play5:
  "step (sceneOf 1) (PointerDown (Vector3 5 0 0))
     (level1State (Vector3 5 0.6 0) 1 (Vector3 0 0 0)
       \<lparr>active = False, sink_t = 0, sink_start = None, sink_end = None\<rparr> False 5000 False (Some (Vector3 0 0 0)) 0) =
   Inr (level1State (Vector3 5 0.6 0) 1 (Vector3 0 0 0)
       \<lparr>active = False, sink_t = 0, sink_start = None, sink_end = None\<rparr> False 5000 True (Some (Vector3 5 0 0)) 0)"
  by (simp add: onPointerDown_level1 distanceToSquared_def)

lemma play6:
  "step (sceneOf 1) (PointerUp (Vector3 5 0 1.18))
     (level1State (Vector3 5 0.6 0) 1 (Vector3 0 0 0)
       \<lparr>active = False, sink_t = 0, sink_start = None, sink_end = None\<rparr> False 5000 True (Some (Vector3 5 0 0)) 0) =
   Inr (level1State (Vector3 5 0.6 0) 1 (Vector3 0 0 (- 5.9))
       \<lparr>active = False, sink_t = 0, sink_start = None, sink_end = None\<rparr> False 5000 False (Some (Vector3 5 0 0)) 0)"
  by (simp add: onPointerUp_level1 subVectors_def add_v_def setLength_axis_x setLength_axis_z)

lemma play7:
  "step (sceneOf 1) (Frame 5600)
     (level1State (Vector3 5 0.6 0) 1 (Vector3 0 0 (- 5.9))
       \<lparr>active = False, sink_t = 0, sink_start = None, sink_end = None\<rparr> False 5000 False (Some (Vector3 5 0 0)) 0) =
   Inr (level1State (Vector3 5 0.05 (- 3)) 0.65 (Vector3 0 0 0)
       \<lparr>active = True, sink_t = 0.6, sink_start = Some (Vector3 5 0.6 (- 3)), sink_end = Some (Vector3 5 (- 0.5) (- 3))\<rparr> True 5600 False (Some (Vector3 5 0 0)) 0)"
  by (simp add: animate_level1 physics_level1 holeDetection_level1 sinkingAnimation_level1_idle
      sinkingAnimation_level1_active integrate_def Let_def EPS_def lengthSq_def frictionDecay_axis_x
      frictionDecay_axis_z addScaledVector_def wallCollisions_inside COURSE_LIMIT_value
      distanceToSquared_def lerpVectors_def)

lemma play8:
  "step (sceneOf 1) (PointerDown (Vector3 5 0 (- 3)))
     (level1State (Vector3 5 0.05 (- 3)) 0.65 (Vector3 0 0 0)
       \<lparr>active = True, sink_t = 0.6, sink_start = Some (Vector3 5 0.6 (- 3)), sink_end = Some (Vector3 5 (- 0.5) (- 3))\<rparr> True 5600 False (Some (Vector3 5 0 0)) 0) =
   Inr (level1State (Vector3 5 0.05 (- 3)) 0.65 (Vector3 0 0 0)
       \<lparr>active = True, sink_t = 0.6, sink_start = Some (Vector3 5 0.6 (- 3)), sink_end = Some (Vector3 5 (- 0.5) (- 3))\<rparr> True 5600 True (Some (Vector3 5 0 (- 3))) 0)"
  by (simp add: onPointerDown_level1 distanceToSquared_def)

lemma play9:
  "step (sceneOf 1) (PointerUp (Vector3 4 0 (- 3)))
     (level1State (Vector3 5 0.05 (- 3)) 0.65 (Vector3 0 0 0)
       \<lparr>active = True, sink_t = 0.6, sink_start = Some (Vector3 5 0.6 (- 3)), sink_end = Some (Vector3 5 (- 0.5) (- 3))\<rparr> True 5600 True (Some (Vector3 5 0 (- 3))) 0) =
   Inr (level1State (Vector3 5 0.05 (- 3)) 0.65 (Vector3 5 0 0)
       \<lparr>active = True, sink_t = 0.6, sink_start = Some (Vector3 5 0.6 (- 3)), sink_end = Some (Vector3 5 (- 0.5) (- 3))\<rparr> True 5600 False (Some (Vector3 5 0 (- 3))) 0)"
  by (simp add: onPointerUp_level1 subVectors_def add_v_def setLength_axis_x setLength_axis_z)

lemma play10:
  "step (sceneOf 1) (Frame 6200)
     (level1State (Vector3 5 0.05 (- 3)) 0.65 (Vector3 5 0 0)
       \<lparr>active = True, sink_t = 0.6, sink_start = Some (Vector3 5 0.6 (- 3)), sink_end = Some (Vector3 5 (- 0.5) (- 3))\<rparr> True 5600 False (Some (Vector3 5 0 (- 3))) 0) =
   Inr (level1State (Vector3 5 (- 0.5) (- 3)) 0.3 (Vector3 5 0 0)
       \<lparr>active = False, sink_t = 1.2, sink_start = Some (Vector3 5 0.6 (- 3)), sink_end = Some (Vector3 5 (- 0.5) (- 3))\<rparr> True 6200 False (Some (Vector3 5 0 (- 3))) 1)"
  by (simp add: animate_level1 physics_level1_sinking holeDetection_level1
      sinkingAnimation_level1_active Let_def lerpVectors_def)

lemma play11:
  "step (sceneOf 1) (Frame 7200)
     (level1State (Vector3 5 (- 0.5) (- 3)) 0.3 (Vector3 5 0 0)
       \<lparr>active = False, sink_t = 1.2, sink_start = Some (Vector3 5 0.6 (- 3)), sink_end = Some (Vector3 5 (- 0.5) (- 3))\<rparr> True 6200 False (Some (Vector3 5 0 (- 3))) 1) =
   Inr (level1State (Vector3 8.5 (- 0.5) (- 3)) 0.3 (Vector3 3.5 0 0)
       \<lparr>active = False, sink_t = 1.2, sink_start = Some (Vector3 5 0.6 (- 3)), sink_end = Some (Vector3 5 (- 0.5) (- 3))\<rparr> True 7200 False (Some (Vector3 5 0 (- 3))) 1)"
  by (simp add: animate_level1 physics_level1 holeDetection_level1 sinkingAnimation_level1_idle
      sinkingAnimation_level1_active integrate_def Let_def EPS_def lengthSq_def frictionDecay_axis_x
      frictionDecay_axis_z addScaledVector_def wallCollisions_inside COURSE_LIMIT_value
      distanceToSquared_def lerpVectors_def)

lemma replay1:
  "step (sceneOf 1) (Retry)
     (level1State (Vector3 8.5 (- 0.5) (- 3)) 0.3 (Vector3 3.5 0 0)
       \<lparr>active = False, sink_t = 1.2, sink_start = Some (Vector3 5 0.6 (- 3)), sink_end = Some (Vector3 5 (- 0.5) (- 3))\<rparr> True 7200 False (Some (Vector3 5 0 (- 3))) 1) =
   Inr (level1State (Vector3 0 0.6 0) 1 (Vector3 0 0 0)
       \<lparr>active = False, sink_t = 1.2, sink_start = Some (Vector3 5 0.6 (- 3)), sink_end = Some (Vector3 5 (- 0.5) (- 3))\<rparr> False 7200 False (Some (Vector3 5 0 (- 3))) 1)"
  by (simp add: handleRetry_def level1State_def BALL_RADIUS_def)

lemma replay2:
  "step (sceneOf 1) (PointerDown (Vector3 0 0 0))
     (level1State (Vector3 0 0.6 0) 1 (Vector3 0 0 0)
       \<lparr>active = False, sink_t = 1.2, sink_start = Some (Vector3 5 0.6 (- 3)), sink_end = Some (Vector3 5 (- 0.5) (- 3))\<rparr> False 7200 False (Some (Vector3 5 0 (- 3))) 1) =
   Inr (level1State (Vector3 0 0.6 0) 1 (Vector3 0 0 0)
       \<lparr>active = False, sink_t = 1.2, sink_start = Some (Vector3 5 0.6 (- 3)), sink_end = Some (Vector3 5 (- 0.5) (- 3))\<rparr> False 7200 True (Some (Vector3 0 0 0)) 1)"
  by (simp add: onPointerDown_level1 distanceToSquared_def)

lemma replay3:
  "step (sceneOf 1) (PointerUp (Vector3 (- 1.3) 0 0))
     (level1State (Vector3 0 0.6 0) 1 (Vector3 0 0 0)
       \<lparr>active = False, sink_t = 1.2, sink_start = Some (Vector3 5 0.6 (- 3)), sink_end = Some (Vector3 5 (- 0.5) (- 3))\<rparr> False 7200 True (Some (Vector3 0 0 0)) 1) =
   Inr (level1State (Vector3 0 0.6 0) 1 (Vector3 6.5 0 0)
       \<lparr>active = False, sink_t = 1.2, sink_start = Some (Vector3 5 0.6 (- 3)), sink_end = Some (Vector3 5 (- 0.5) (- 3))\<rparr> False 7200 False (Some (Vector3 0 0 0)) 1)"
  by (simp add: onPointerUp_level1 subVectors_def add_v_def setLength_axis_x setLength_axis_z)

lemma replay4:
  "step (sceneOf 1) (Frame 8200)
     (level1State (Vector3 0 0.6 0) 1 (Vector3 6.5 0 0)
       \<lparr>active = False, sink_t = 1.2, sink_start = Some (Vector3 5 0.6 (- 3)), sink_end = Some (Vector3 5 (- 0.5) (- 3))\<rparr> False 7200 False (Some (Vector3 0 0 0)) 1) =
   Inr (level1State (Vector3 5 0.6 0) 1 (Vector3 5 0 0)
       \<lparr>active = False, sink_t = 1.2, sink_start = Some (Vector3 5 0.6 (- 3)), sink_end = Some (Vector3 5 (- 0.5) (- 3))\<rparr> False 8200 False (Some (Vector3 0 0 0)) 1)"
  by (simp add: animate_level1 physics_level1 holeDetection_level1 sinkingAnimation_level1_idle
      sinkingAnimation_level1_active integrate_def Let_def EPS_def lengthSq_def frictionDecay_axis_x
      frictionDecay_axis_z addScaledVector_def wallCollisions_inside COURSE_LIMIT_value
      distanceToSquared_def lerpVectors_def)

lemma replay5:
  "step (sceneOf 1) (Frame 12200)
     (level1State (Vector3 5 0.6 0) 1 (Vector3 5 0 0)
       \<lparr>active = False, sink_t = 1.2, sink_start = Some (Vector3 5 0.6 (- 3)), sink_end = Some (Vector3 5 (- 0.5) (- 3))\<rparr> False 8200 False (Some (Vector3 0 0 0)) 1) =
   Inr (level1State (Vector3 5 0.6 0) 1 (Vector3 0 0 0)
       \<lparr>active = False, sink_t = 1.2, sink_start = Some (Vector3 5 0.6 (- 3)), sink_end = Some (Vector3 5 (- 0.5) (- 3))\<rparr> False 12200 False (Some (Vector3 0 0 0)) 1)"
  by (simp add: animate_level1 physics_level1 holeDetection_level1 sinkingAnimation_level1_idle
      sinkingAnimation_level1_active integrate_def Let_def EPS_def lengthSq_def frictionDecay_axis_x
      frictionDecay_axis_z addScaledVector_def wallCollisions_inside COURSE_LIMIT_value
      distanceToSquared_def lerpVectors_def)

lemma replay6:
  "step (sceneOf 1) (PointerDown (Vector3 5 0 0))
     (level1State (Vector3 5 0.6 0) 1 (Vector3 0 0 0)
       \<lparr>active = False, sink_t = 1.2, sink_start = Some (Vector3 5 0.6 (- 3)), sink_end = Some (Vector3 5 (- 0.5) (- 3))\<rparr> False 12200 False (Some (Vector3 0 0 0)) 1) =
   Inr (level1State (Vector3 5 0.6 0) 1 (Vector3 0 0 0)
       \<lparr>active = False, sink_t = 1.2, sink_start = Some (Vector3 5 0.6 (- 3)), sink_end = Some (Vector3 5 (- 0.5) (- 3))\<rparr> False 12200 True (Some (Vector3 5 0 0)) 1)"
  by (simp add: onPointerDown_level1 distanceToSquared_def)

lemma replay7:
  "step (sceneOf 1) (PointerUp (Vector3 5 0 1.18))
     (level1State (Vector3 5 0.6 0) 1 (Vector3 0 0 0)
       \<lparr>active = False, sink_t = 1.2, sink_start = Some (Vector3 5 0.6 (- 3)), sink_end = Some (Vector3 5 (- 0.5) (- 3))\<rparr> False 12200 True (Some (Vector3 5 0 0)) 1) =
   Inr (level1State (Vector3 5 0.6 0) 1 (Vector3 0 0 (- 5.9))
       \<lparr>active = False, sink_t = 1.2, sink_start = Some (Vector3 5 0.6 (- 3)), sink_end = Some (Vector3 5 (- 0.5) (- 3))\<rparr> False 12200 False (Some (Vector3 5 0 0)) 1)"
  by (simp add: onPointerUp_level1 subVectors_def add_v_def setLength_axis_x setLength_axis_z)

lemma replay8:
  "step (sceneOf 1) (Frame 12800)
     (level1State (Vector3 5 0.6 0) 1 (Vector3 0 0 (- 5.9))
       \<lparr>active = False, sink_t = 1.2, sink_start = Some (Vector3 5 0.6 (- 3)), sink_end = Some (Vector3 5 (- 0.5) (- 3))\<rparr> False 12200 False (Some (Vector3 5 0 0)) 1) =
   Inr (level1State (Vector3 5 0.05 (- 3)) 0.65 (Vector3 0 0 0)
       \<lparr>active = True, sink_t = 0.6, sink_start = Some (Vector3 5 0.6 (- 3)), sink_end = Some (Vector3 5 (- 0.5) (- 3))\<rparr> True 12800 False (Some (Vector3 5 0 0)) 1)"
  by (simp add: animate_level1 physics_level1 holeDetection_level1 sinkingAnimation_level1_idle
      sinkingAnimation_level1_active integrate_def Let_def EPS_def lengthSq_def frictionDecay_axis_x
      frictionDecay_axis_z addScaledVector_def wallCollisions_inside COURSE_LIMIT_value
      distanceToSquared_def lerpVectors_def)

lemma replay9:
  "step (sceneOf 1) (Frame 13400)
     (level1State (Vector3 5 0.05 (- 3)) 0.65 (Vector3 0 0 0)
       \<lparr>active = True, sink_t = 0.6, sink_start = Some (Vector3 5 0.6 (- 3)), sink_end = Some (Vector3 5 (- 0.5) (- 3))\<rparr> True 12800 False (Some (Vector3 5 0 0)) 1) =
   Inr (level1State (Vector3 5 (- 0.5) (- 3)) 0.3 (Vector3 0 0 0)
       \<lparr>active = False, sink_t = 1.2, sink_start = Some (Vector3 5 0.6 (- 3)), sink_end = Some (Vector3 5 (- 0.5) (- 3))\<rparr> True 13400 False (Some (Vector3 5 0 0)) 2)"
  by (simp add: animate_level1 physics_level1_sinking holeDetection_level1
      sinkingAnimation_level1_active Let_def lerpVectors_def numeral_2_eq_2)

lemma replay10:
  "step (sceneOf 1) (Frame 14400)
     (level1State (Vector3 5 (- 0.5) (- 3)) 0.3 (Vector3 0 0 0)
       \<lparr>active = False, sink_t = 1.2, sink_start = Some (Vector3 5 0.6 (- 3)), sink_end = Some (Vector3 5 (- 0.5) (- 3))\<rparr> True 13400 False (Some (Vector3 5 0 0)) 2) =
   Inr (level1State (Vector3 5 (- 0.5) (- 3)) 0.3 (Vector3 0 0 0)
       \<lparr>active = False, sink_t = 1.2, sink_start = Some (Vector3 5 0.6 (- 3)), sink_end = Some (Vector3 5 (- 0.5) (- 3))\<rparr> True 14400 False (Some (Vector3 5 0 0)) 2)"
  by (simp add: animate_level1 physics_level1 holeDetection_level1 sinkingAnimation_level1_idle
      sinkingAnimation_level1_active integrate_def Let_def EPS_def lengthSq_def frictionDecay_axis_x
      frictionDecay_axis_z addScaledVector_def wallCollisions_inside COURSE_LIMIT_value
      distanceToSquared_def lerpVectors_def)

lemma run_append:
  "run cfg (es @ es') s = (case run cfg es s of Inl err \<Rightarrow> Inl err | Inr s' \<Rightarrow> run cfg es' s')"
  by (induction es arbitrary: s) (simp_all split: sum.splits)

lemma run_playToSink:
  "run (sceneOf 1) playToSink (initState 1 0) =
   Inr (level1State (Vector3 5 0.05 (- 3)) 0.65 (Vector3 0 0 0)
       \<lparr>active = True, sink_t = 0.6, sink_start = Some (Vector3 5 0.6 (- 3)), sink_end = Some (Vector3 5 (- 0.5) (- 3))\<rparr> True 5600 False (Some (Vector3 5 0 0)) 0)"
  unfolding playToSink_def initState_level1 run.simps
  by (simp only: play1 play2 play3 play4 play5 play6 play7 sum.case)

lemma run_lateShot:
  "run (sceneOf 1) lateShot
     (level1State (Vector3 5 0.05 (- 3)) 0.65 (Vector3 0 0 0)
       \<lparr>active = True, sink_t = 0.6, sink_start = Some (Vector3 5 0.6 (- 3)), sink_end = Some (Vector3 5 (- 0.5) (- 3))\<rparr> True 5600 False (Some (Vector3 5 0 0)) 0) =
   Inr (level1State (Vector3 5 0.05 (- 3)) 0.65 (Vector3 5 0 0)
       \<lparr>active = True, sink_t = 0.6, sink_start = Some (Vector3 5 0.6 (- 3)), sink_end = Some (Vector3 5 (- 0.5) (- 3))\<rparr> True 5600 False (Some (Vector3 5 0 (- 3))) 0)"
  unfolding lateShot_def run.simps
  by (simp only: play8 play9 sum.case)

lemma run_after_lateShot:
  "run (sceneOf 1) [Frame 6200, Frame 7200]
     (level1State (Vector3 5 0.05 (- 3)) 0.65 (Vector3 5 0 0)
       \<lparr>active = True, sink_t = 0.6, sink_start = Some (Vector3 5 0.6 (- 3)), sink_end = Some (Vector3 5 (- 0.5) (- 3))\<rparr> True 5600 False (Some (Vector3 5 0 (- 3))) 0) =
   Inr (level1State (Vector3 8.5 (- 0.5) (- 3)) 0.3 (Vector3 3.5 0 0)
       \<lparr>active = False, sink_t = 1.2, sink_start = Some (Vector3 5 0.6 (- 3)), sink_end = Some (Vector3 5 (- 0.5) (- 3))\<rparr> True 7200 False (Some (Vector3 5 0 (- 3))) 1)"
  unfolding run.simps
  by (simp only: play10 play11 sum.case)

lemma retry_after_round:
  "handleRetry
     (level1State (Vector3 8.5 (- 0.5) (- 3)) 0.3 (Vector3 3.5 0 0)
       \<lparr>active = False, sink_t = 1.2, sink_start = Some (Vector3 5 0.6 (- 3)), sink_end = Some (Vector3 5 (- 0.5) (- 3))\<rparr> True 7200 False (Some (Vector3 5 0 (- 3))) 1) =
   level1State (Vector3 0 0.6 0) 1 (Vector3 0 0 0)
       \<lparr>active = False, sink_t = 1.2, sink_start = Some (Vector3 5 0.6 (- 3)), sink_end = Some (Vector3 5 (- 0.5) (- 3))\<rparr> False 7200 False (Some (Vector3 5 0 (- 3))) 1"
  using replay1 by simp

lemma run_secondRound:
  "run (sceneOf 1) secondRound
     (level1State (Vector3 0 0.6 0) 1 (Vector3 0 0 0)
       \<lparr>active = False, sink_t = 1.2, sink_start = Some (Vector3 5 0.6 (- 3)), sink_end = Some (Vector3 5 (- 0.5) (- 3))\<rparr> False 7200 False (Some (Vector3 5 0 (- 3))) 1) =
   Inr (level1State (Vector3 5 (- 0.5) (- 3)) 0.3 (Vector3 0 0 0)
       \<lparr>active = False, sink_t = 1.2, sink_start = Some (Vector3 5 0.6 (- 3)), sink_end = Some (Vector3 5 (- 0.5) (- 3))\<rparr> True 14400 False (Some (Vector3 5 0 0)) 2)"
  unfolding secondRound_def run.simps
  by (simp only: replay2 replay3 replay4 replay5 replay6 replay7 replay8 replay9 replay10 sum.case)

lemma no_retry_in_rounds:
  "Retry \<notin> set (playToSink @ lateShot @ [Frame 6200, Frame 7200])" "Retry \<notin> set secondRound"
  by (simp_all add: playToSink_def lateShot_def secondRound_def)

lemma level1State_fields [simp]:
  "position (ball (level1State p sc v sk trig now aim ds calls)) = p"
  "scale (ball (level1State p sc v sk trig now aim ds calls)) = sc"
  "velocity (level1State p sc v sk trig now aim ds calls) = v"
  "sinking (level1State p sc v sk trig now aim ds calls) = sk"
  "holeTriggered (level1State p sc v sk trig now aim ds calls) = trig"
  "last_now (level1State p sc v sk trig now aim ds calls) = now"
  "isAiming (level1State p sc v sk trig now aim ds calls) = aim"
  "dragStart (level1State p sc v sk trig now aim ds calls) = ds"
  "holeCompleteCalls (level1State p sc v sk trig now aim ds calls) = calls"
  by (simp_all add: level1State_def)

lemma quiet10:
  "step (sceneOf 1) (Frame 6200)
     (level1State (Vector3 5 0.05 (- 3)) 0.65 (Vector3 0 0 0)
       \<lparr>active = True, sink_t = 0.6, sink_start = Some (Vector3 5 0.6 (- 3)), sink_end = Some (Vector3 5 (- 0.5) (- 3))\<rparr> True 5600 False (Some (Vector3 5 0 0)) 0) =
   Inr (level1State (Vector3 5 (- 0.5) (- 3)) 0.3 (Vector3 0 0 0)
       \<lparr>active = False, sink_t = 1.2, sink_start = Some (Vector3 5 0.6 (- 3)), sink_end = Some (Vector3 5 (- 0.5) (- 3))\<rparr> True 6200 False (Some (Vector3 5 0 0)) 1)"
  by (simp add: animate_level1 physics_level1_sinking holeDetection_level1
      sinkingAnimation_level1_active Let_def lerpVectors_def)

lemma quiet11:
  "step (sceneOf 1) (Frame 7200)
     (level1State (Vector3 5 (- 0.5) (- 3)) 0.3 (Vector3 0 0 0)
       \<lparr>active = False, sink_t = 1.2, sink_start = Some (Vector3 5 0.6 (- 3)), sink_end = Some (Vector3 5 (- 0.5) (- 3))\<rparr> True 6200 False (Some (Vector3 5 0 0)) 1) =
   Inr (level1State (Vector3 5 (- 0.5) (- 3)) 0.3 (Vector3 0 0 0)
       \<lparr>active = False, sink_t = 1.2, sink_start = Some (Vector3 5 0.6 (- 3)), sink_end = Some (Vector3 5 (- 0.5) (- 3))\<rparr> True 7200 False (Some (Vector3 5 0 0)) 1)"
  by (simp add: animate_level1 physics_level1 holeDetection_level1 sinkingAnimation_level1_idle
      integrate_def EPS_def lengthSq_def)

lemma run_quiet:
  "run (sceneOf 1) [Frame 6200, Frame 7200]
     (level1State (Vector3 5 0.05 (- 3)) 0.65 (Vector3 0 0 0)
       \<lparr>active = True, sink_t = 0.6, sink_start = Some (Vector3 5 0.6 (- 3)), sink_end = Some (Vector3 5 (- 0.5) (- 3))\<rparr> True 5600 False (Some (Vector3 5 0 0)) 0) =
   Inr (level1State (Vector3 5 (- 0.5) (- 3)) 0.3 (Vector3 0 0 0)
       \<lparr>active = False, sink_t = 1.2, sink_start = Some (Vector3 5 0.6 (- 3)), sink_end = Some (Vector3 5 (- 0.5) (- 3))\<rparr> True 7200 False (Some (Vector3 5 0 0)) 1)"
  unfolding run.simps
  by (simp only: quiet10 quiet11 sum.case)

lemma run_sink_completes:
  "run (sceneOf 1) [Frame 6200]
     (level1State (Vector3 5 0.05 (- 3)) 0.65 (Vector3 5 0 0)
       \<lparr>active = True, sink_t = 0.6, sink_start = Some (Vector3 5 0.6 (- 3)), sink_end = Some (Vector3 5 (- 0.5) (- 3))\<rparr> True 5600 False (Some (Vector3 5 0 (- 3))) 0) =
   Inr (level1State (Vector3 5 (- 0.5) (- 3)) 0.3 (Vector3 5 0 0)
       \<lparr>active = False, sink_t = 1.2, sink_start = Some (Vector3 5 0.6 (- 3)), sink_end = Some (Vector3 5 (- 0.5) (- 3))\<rparr> True 6200 False (Some (Vector3 5 0 (- 3))) 1)"
  unfolding run.simps
  by (simp only: play10 sum.case)

lemma run_full_round:
  "run (sceneOf 1) (playToSink @ lateShot @ [Frame 6200, Frame 7200]) (initState 1 0) =
   Inr (level1State (Vector3 8.5 (- 0.5) (- 3)) 0.3 (Vector3 3.5 0 0)
       \<lparr>active = False, sink_t = 1.2, sink_start = Some (Vector3 5 0.6 (- 3)), sink_end = Some (Vector3 5 (- 0.5) (- 3))\<rparr> True 7200 False (Some (Vector3 5 0 (- 3))) 1)"
  by (simp only: run_append run_playToSink run_lateShot run_after_lateShot sum.case)

section \<open>C1: the completion callback fires once\<close>

text \<open>
  C1. The state of a fresh level load is well formed, and so is every state a run
  reaches from it. From a well-formed state no run of frames and pointer events
  throws, and without a reset it adds at most one call of the completion callback,
  and none at all once the latch is set and no sink is active, wherever the ball is
  in those frames. In the frame in which an active sink's elapsed time reaches \<open>1.2\<close>
  seconds the ball position becomes the stored end position, its scale \<open>0.3\<close>, the
  sink inactive, and the callback (when one is given) is called once; in an earlier
  frame of the sink it is not called. A reset keeps the count, clears the latch and
  leaves no sink active, so the run after it can again add at most one call; and with
  the latch clear, no sink active and the ball within the hole radius, hole detection
  starts a new sink.
\<close>

theorem completion_callback_once:
  "wellFormed (initState lvl t0)
   \<and> (wellFormed s \<longrightarrow>
        wellFormed (handleRetry s) \<and> \<not> holeTriggered (handleRetry s) \<and> \<not> active (sinking (handleRetry s))
        \<and> holeCompleteCalls (handleRetry s) = holeCompleteCalls s)
   \<and> (wellFormed s \<and> Retry \<notin> set es \<longrightarrow>
        (\<exists>s'. run cfg es s = Inr s' \<and> wellFormed s'
           \<and> holeCompleteCalls s \<le> holeCompleteCalls s'
           \<and> holeCompleteCalls s' \<le> holeCompleteCalls s + 1
           \<and> (holeTriggered s \<and> \<not> active (sinking s) \<longrightarrow> holeCompleteCalls s' = holeCompleteCalls s)))
   \<and> (active (sinking s) \<and> sink_end (sinking s) = Some b
        \<and> sink_t (sinking s) + (now - last_now s) / 1000 \<ge> 1.2 \<longrightarrow>
        (\<exists>s'. animate cfg now s = Inr s'
           \<and> position (ball s') = b \<and> scale (ball s') = 0.3
           \<and> \<not> active (sinking s') \<and> holeTriggered s' = holeTriggered s
           \<and> holeCompleteCalls s' = holeCompleteCalls s + (if onHoleComplete_is_function cfg then 1 else 0)))
   \<and> (active (sinking s) \<and> sink_t (sinking s) + (now - last_now s) / 1000 < 1.2 \<longrightarrow>
        (\<exists>s'. animate cfg now s = Inr s' \<and> active (sinking s')
           \<and> holeCompleteCalls s' = holeCompleteCalls s))
   \<and> (\<not> holeDone cfg \<and> \<not> holeTriggered s \<and> \<not> active (sinking s)
        \<and> distanceTo (position (ball s)) (holePosition (level cfg)) < HOLE_RADIUS \<longrightarrow>
        holeDetection cfg s =
          s\<lparr>holeTriggered := True, velocity := Vector3 0 0 0,
            sinking := \<lparr>active = True, sink_t = 0, sink_start = Some (position (ball s)),
                        sink_end = Some (setY (holePosition (level cfg)) (- 0.5))\<rparr>\<rparr>)"
proof -
  have a: "wellFormed (initState lvl t0)"
    by (rule wellFormed_initState)
  have b: "wellFormed s \<longrightarrow>
        wellFormed (handleRetry s) \<and> \<not> holeTriggered (handleRetry s) \<and> \<not> active (sinking (handleRetry s))
        \<and> holeCompleteCalls (handleRetry s) = holeCompleteCalls s"
    by (simp add: wellFormed_handleRetry) (simp add: handleRetry_def)
  have c: "wellFormed s \<and> Retry \<notin> set es \<longrightarrow>
        (\<exists>s'. run cfg es s = Inr s' \<and> wellFormed s'
           \<and> holeCompleteCalls s \<le> holeCompleteCalls s'
           \<and> holeCompleteCalls s' \<le> holeCompleteCalls s + 1
           \<and> (holeTriggered s \<and> \<not> active (sinking s) \<longrightarrow> holeCompleteCalls s' = holeCompleteCalls s))"
  proof (rule impI)
    assume h: "wellFormed s \<and> Retry \<notin> set es"
    then obtain s' where s': "run cfg es s = Inr s'" "wellFormed s'"
      "holeCompleteCalls s \<le> holeCompleteCalls s'"
      "holeCompleteCalls s' + pendingCalls s' \<le> holeCompleteCalls s + pendingCalls s"
      using run_invariant [of s es cfg] by blast
    have le1: "holeCompleteCalls s' \<le> holeCompleteCalls s + 1"
      using s'(4) pendingCalls_le_1 [of s] by linarith
    have same: "holeTriggered s \<and> \<not> active (sinking s) \<longrightarrow> holeCompleteCalls s' = holeCompleteCalls s"
    proof (rule impI)
      assume "holeTriggered s \<and> \<not> active (sinking s)"
      then have "pendingCalls s = 0" by (simp add: pendingCalls_def)
      with s'(3,4) show "holeCompleteCalls s' = holeCompleteCalls s" by linarith
    qed
    from s'(1,2,3) le1 same
    show "\<exists>s'. run cfg es s = Inr s' \<and> wellFormed s'
           \<and> holeCompleteCalls s \<le> holeCompleteCalls s'
           \<and> holeCompleteCalls s' \<le> holeCompleteCalls s + 1
           \<and> (holeTriggered s \<and> \<not> active (sinking s) \<longrightarrow> holeCompleteCalls s' = holeCompleteCalls s)"
      by blast
  qed
  let ?dt = "(now - last_now s) / 1000"
  let ?s2 = "s\<lparr>last_now := now, obstacleTime := obstacleTime s + ?dt,
                obstacles := map (animateObstacle (obstacleTime s + ?dt) ?dt) (obstacles s)\<rparr>"
  have skip: "active (sinking s) \<Longrightarrow> animate cfg now s = sinkingAnimation cfg ?dt ?s2"
    unfolding animate_blocks by (simp add: physics_active holeDetection_active)
  have d: "active (sinking s) \<and> sink_end (sinking s) = Some b
        \<and> sink_t (sinking s) + ?dt \<ge> 1.2 \<longrightarrow>
        (\<exists>s'. animate cfg now s = Inr s'
           \<and> position (ball s') = b \<and> scale (ball s') = 0.3
           \<and> \<not> active (sinking s') \<and> holeTriggered s' = holeTriggered s
           \<and> holeCompleteCalls s' = holeCompleteCalls s + (if onHoleComplete_is_function cfg then 1 else 0))"
  proof (rule impI)
    assume h: "active (sinking s) \<and> sink_end (sinking s) = Some b \<and> sink_t (sinking s) + ?dt \<ge> 1.2"
    have "\<exists>s'. sinkingAnimation cfg ?dt ?s2 = Inr s'
           \<and> position (ball s') = b \<and> scale (ball s') = 0.3
           \<and> \<not> active (sinking s')
           \<and> holeTriggered s' = holeTriggered ?s2
           \<and> velocity s' = velocity ?s2
           \<and> isAiming s' = isAiming ?s2 \<and> dragStart s' = dragStart ?s2
           \<and> holeCompleteCalls s' = holeCompleteCalls ?s2 + (if onHoleComplete_is_function cfg then 1 else 0)"
      by (rule sinkingAnimation_done) (use h in simp_all)
    then show "\<exists>s'. animate cfg now s = Inr s'
           \<and> position (ball s') = b \<and> scale (ball s') = 0.3
           \<and> \<not> active (sinking s') \<and> holeTriggered s' = holeTriggered s
           \<and> holeCompleteCalls s' = holeCompleteCalls s + (if onHoleComplete_is_function cfg then 1 else 0)"
      using h skip by auto
  qed
  have e: "active (sinking s) \<and> sink_t (sinking s) + ?dt < 1.2 \<longrightarrow>
        (\<exists>s'. animate cfg now s = Inr s' \<and> active (sinking s')
           \<and> holeCompleteCalls s' = holeCompleteCalls s)"
  proof (rule impI)
    assume h: "active (sinking s) \<and> sink_t (sinking s) + ?dt < 1.2"
    have "\<exists>s'. sinkingAnimation cfg ?dt ?s2 = Inr s'
           \<and> active (sinking s')
           \<and> sink_t (sinking s') = sink_t (sinking ?s2) + ?dt
           \<and> sink_start (sinking s') = sink_start (sinking ?s2)
           \<and> sink_end (sinking s') = sink_end (sinking ?s2)
           \<and> holeTriggered s' = holeTriggered ?s2
           \<and> velocity s' = velocity ?s2
           \<and> isAiming s' = isAiming ?s2 \<and> dragStart s' = dragStart ?s2
           \<and> holeCompleteCalls s' = holeCompleteCalls ?s2"
      by (rule sinkingAnimation_running) (use h in simp_all)
    then show "\<exists>s'. animate cfg now s = Inr s' \<and> active (sinking s')
           \<and> holeCompleteCalls s' = holeCompleteCalls s"
      using h skip by auto
  qed
  have f: "\<not> holeDone cfg \<and> \<not> holeTriggered s \<and> \<not> active (sinking s)
        \<and> distanceTo (position (ball s)) (holePosition (level cfg)) < HOLE_RADIUS \<longrightarrow>
        holeDetection cfg s =
          s\<lparr>holeTriggered := True, velocity := Vector3 0 0 0,
            sinking := \<lparr>active = True, sink_t = 0, sink_start = Some (position (ball s)),
                        sink_end = Some (setY (holePosition (level cfg)) (- 0.5))\<rparr>\<rparr>"
    by (simp add: holeDetection_def Let_def)
  from a b c d e f show ?thesis by blast
qed

text \<open>
  Two rounds on level 1. The first, with a shot released during the sink, ends with
  one call; the frame at \<open>6200 ms\<close> completes the sink (\<open>0.6 + 0.6\<close> seconds) and snaps
  the ball, where a frame at \<open>5900 ms\<close> would leave it sinking with no call; a ball
  over the hole with the latch clear starts a sink; after the retry the second round
  ends with two calls, the last frame adding none.
\<close>

theorem completion_callback_once_witness:
  "wellFormed (initState 1 0)
   \<and> Retry \<notin> set (playToSink @ lateShot @ [Frame 6200, Frame 7200])
   \<and> run (sceneOf 1) (playToSink @ lateShot @ [Frame 6200, Frame 7200]) (initState 1 0) =
       Inr (level1State (Vector3 8.5 (- 0.5) (- 3)) 0.3 (Vector3 3.5 0 0)
       \<lparr>active = False, sink_t = 1.2, sink_start = Some (Vector3 5 0.6 (- 3)), sink_end = Some (Vector3 5 (- 0.5) (- 3))\<rparr> True 7200 False (Some (Vector3 5 0 (- 3))) 1)
   \<and> holeCompleteCalls
        (level1State (Vector3 8.5 (- 0.5) (- 3)) 0.3 (Vector3 3.5 0 0)
       \<lparr>active = False, sink_t = 1.2, sink_start = Some (Vector3 5 0.6 (- 3)), sink_end = Some (Vector3 5 (- 0.5) (- 3))\<rparr> True 7200 False (Some (Vector3 5 0 (- 3))) 1)
       \<le> holeCompleteCalls (initState 1 0) + 1
   \<and> (\<exists>s'. animate (sceneOf 1) 6200
              (level1State (Vector3 5 0.05 (- 3)) 0.65 (Vector3 5 0 0)
       \<lparr>active = True, sink_t = 0.6, sink_start = Some (Vector3 5 0.6 (- 3)), sink_end = Some (Vector3 5 (- 0.5) (- 3))\<rparr> True 5600 False (Some (Vector3 5 0 (- 3))) 0) = Inr s'
          \<and> position (ball s') = Vector3 5 (- 0.5) (- 3) \<and> scale (ball s') = 0.3
          \<and> \<not> active (sinking s') \<and> holeCompleteCalls s' = 1)
   \<and> (\<exists>s'. animate (sceneOf 1) 5900
              (level1State (Vector3 5 0.05 (- 3)) 0.65 (Vector3 0 0 0)
       \<lparr>active = True, sink_t = 0.6, sink_start = Some (Vector3 5 0.6 (- 3)), sink_end = Some (Vector3 5 (- 0.5) (- 3))\<rparr> True 5600 False (Some (Vector3 5 0 0)) 0) = Inr s'
          \<and> active (sinking s') \<and> holeCompleteCalls s' = 0)
   \<and> active (sinking (holeDetection (sceneOf 1)
        (level1State (Vector3 5 0.6 (- 3)) 1 (Vector3 0 0 (- 5))
       \<lparr>active = False, sink_t = 0, sink_start = None, sink_end = None\<rparr> False 5600 False (Some (Vector3 5 0 0)) 0)))
   \<and> \<not> holeTriggered (handleRetry
        (level1State (Vector3 8.5 (- 0.5) (- 3)) 0.3 (Vector3 3.5 0 0)
       \<lparr>active = False, sink_t = 1.2, sink_start = Some (Vector3 5 0.6 (- 3)), sink_end = Some (Vector3 5 (- 0.5) (- 3))\<rparr> True 7200 False (Some (Vector3 5 0 (- 3))) 1))
   \<and> run (sceneOf 1) secondRound (handleRetry
        (level1State (Vector3 8.5 (- 0.5) (- 3)) 0.3 (Vector3 3.5 0 0)
       \<lparr>active = False, sink_t = 1.2, sink_start = Some (Vector3 5 0.6 (- 3)), sink_end = Some (Vector3 5 (- 0.5) (- 3))\<rparr> True 7200 False (Some (Vector3 5 0 (- 3))) 1)) =
       Inr (level1State (Vector3 5 (- 0.5) (- 3)) 0.3 (Vector3 0 0 0)
       \<lparr>active = False, sink_t = 1.2, sink_start = Some (Vector3 5 0.6 (- 3)), sink_end = Some (Vector3 5 (- 0.5) (- 3))\<rparr> True 14400 False (Some (Vector3 5 0 0)) 2)"
proof -
  let ?cfg = "sceneOf 1"
  let ?es = "playToSink @ lateShot @ [Frame 6200, Frame 7200]"
  let ?S9 = "level1State (Vector3 5 0.05 (- 3)) 0.65 (Vector3 5 0 0)
       \<lparr>active = True, sink_t = 0.6, sink_start = Some (Vector3 5 0.6 (- 3)), sink_end = Some (Vector3 5 (- 0.5) (- 3))\<rparr> True 5600 False (Some (Vector3 5 0 (- 3))) 0"
  let ?S7 = "level1State (Vector3 5 0.05 (- 3)) 0.65 (Vector3 0 0 0)
       \<lparr>active = True, sink_t = 0.6, sink_start = Some (Vector3 5 0.6 (- 3)), sink_end = Some (Vector3 5 (- 0.5) (- 3))\<rparr> True 5600 False (Some (Vector3 5 0 0)) 0"
  let ?P7 = "level1State (Vector3 5 0.6 (- 3)) 1 (Vector3 0 0 (- 5))
       \<lparr>active = False, sink_t = 0, sink_start = None, sink_end = None\<rparr> False 5600 False (Some (Vector3 5 0 0)) 0"
  let ?S11 = "level1State (Vector3 8.5 (- 0.5) (- 3)) 0.3 (Vector3 3.5 0 0)
       \<lparr>active = False, sink_t = 1.2, sink_start = Some (Vector3 5 0.6 (- 3)), sink_end = Some (Vector3 5 (- 0.5) (- 3))\<rparr> True 7200 False (Some (Vector3 5 0 (- 3))) 1"
  have wf0: "wellFormed (initState 1 0)"
    using completion_callback_once [of 1 0] by blast
  have nr: "Retry \<notin> set ?es"
    by (rule no_retry_in_rounds(1))
  have r1: "run ?cfg ?es (initState 1 0) = Inr ?S11"
    by (rule run_full_round)
  from completion_callback_once [where s = "initState 1 0" and es = ?es and cfg = ?cfg] wf0 nr
  obtain s' where "run ?cfg ?es (initState 1 0) = Inr s'"
    and "holeCompleteCalls s' \<le> holeCompleteCalls (initState 1 0) + 1"
    by blast
  with r1 have le: "holeCompleteCalls ?S11 \<le> holeCompleteCalls (initState 1 0) + 1"
    by simp
  have h9: "active (sinking ?S9) \<and> sink_end (sinking ?S9) = Some (Vector3 5 (- 0.5) (- 3))
      \<and> sink_t (sinking ?S9) + (6200 - last_now ?S9) / 1000 \<ge> 1.2"
    by simp
  from completion_callback_once [where s = ?S9 and cfg = ?cfg and b = "Vector3 5 (- 0.5) (- 3)" and now = 6200] h9
  obtain s9 where s9: "animate ?cfg 6200 ?S9 = Inr s9" "position (ball s9) = Vector3 5 (- 0.5) (- 3)"
    "scale (ball s9) = 0.3" "\<not> active (sinking s9)"
    "holeCompleteCalls s9 = holeCompleteCalls ?S9 + (if onHoleComplete_is_function ?cfg then 1 else 0)"
    by blast
  from s9(5) have "holeCompleteCalls s9 = 1"
    by (simp add: sceneOf_def)
  with s9 have snap: "\<exists>s'. animate ?cfg 6200 ?S9 = Inr s'
          \<and> position (ball s') = Vector3 5 (- 0.5) (- 3) \<and> scale (ball s') = 0.3
          \<and> \<not> active (sinking s') \<and> holeCompleteCalls s' = 1"
    by blast
  have h7: "active (sinking ?S7) \<and> sink_t (sinking ?S7) + (5900 - last_now ?S7) / 1000 < 1.2"
    by simp
  from completion_callback_once [where s = ?S7 and cfg = ?cfg and now = 5900] h7
  obtain s7 where "animate ?cfg 5900 ?S7 = Inr s7" "active (sinking s7)"
    "holeCompleteCalls s7 = holeCompleteCalls ?S7"
    by blast
  then have running: "\<exists>s'. animate ?cfg 5900 ?S7 = Inr s' \<and> active (sinking s') \<and> holeCompleteCalls s' = 0"
    by auto
  have hp: "\<not> holeDone ?cfg \<and> \<not> holeTriggered ?P7 \<and> \<not> active (sinking ?P7)
      \<and> distanceTo (position (ball ?P7)) (holePosition (level ?cfg)) < HOLE_RADIUS"
    by (simp add: sceneOf_def holePosition_def hole_near_sq distanceToSquared_def)
  from completion_callback_once [where s = ?P7 and cfg = ?cfg] hp
  have "holeDetection ?cfg ?P7 =
          ?P7\<lparr>holeTriggered := True, velocity := Vector3 0 0 0,
            sinking := \<lparr>active = True, sink_t = 0, sink_start = Some (position (ball ?P7)),
                        sink_end = Some (setY (holePosition (level ?cfg)) (- 0.5))\<rparr>\<rparr>"
    by blast
  then have trig: "active (sinking (holeDetection ?cfg ?P7))"
    by simp
  have wf11: "wellFormed ?S11"
    by (simp add: wellFormed_def)
  from completion_callback_once [where s = ?S11] wf11
  have rearm: "\<not> holeTriggered (handleRetry ?S11)"
    by blast
  have r2: "run ?cfg secondRound (handleRetry ?S11) =
       Inr (level1State (Vector3 5 (- 0.5) (- 3)) 0.3 (Vector3 0 0 0)
       \<lparr>active = False, sink_t = 1.2, sink_start = Some (Vector3 5 0.6 (- 3)), sink_end = Some (Vector3 5 (- 0.5) (- 3))\<rparr> True 14400 False (Some (Vector3 5 0 0)) 2)"
    by (simp only: retry_after_round run_secondRound)
  from wf0 nr r1 le snap running trig rearm r2 show ?thesis
    by blast
qed

section \<open>C9: a shot released while the ball sinks\<close>

text \<open>
  C9 fails on the code. On level 1 the two shots of \<open>playToSink\<close> start the sink with
  the velocity frozen at zero. A gesture begun and released \<open>0.6\<close> seconds into the
  sink adds its impulse \<open>(5, 0, 0)\<close> to the velocity: \<^verbatim>\<open>onPointerUp\<close> does not look at
  \<^verbatim>\<open>sinkingRef.current.active\<close>. The sink still ends with the ball at the end position
  \<open>(5, -0.5, -3)\<close>, but in the next frame the physics runs again and carries the ball
  to \<open>(8.5, -0.5, -3)\<close>. Without the late shot the same two frames leave the ball at
  the end position with velocity zero.
\<close>

theorem late_shot_moves_sunk_ball:
  "run (sceneOf 1) playToSink (initState 1 0) =
     Inr (level1State (Vector3 5 0.05 (- 3)) 0.65 (Vector3 0 0 0)
       \<lparr>active = True, sink_t = 0.6, sink_start = Some (Vector3 5 0.6 (- 3)), sink_end = Some (Vector3 5 (- 0.5) (- 3))\<rparr> True 5600 False (Some (Vector3 5 0 0)) 0)
   \<and> run (sceneOf 1) (playToSink @ lateShot) (initState 1 0) =
     Inr (level1State (Vector3 5 0.05 (- 3)) 0.65 (Vector3 5 0 0)
       \<lparr>active = True, sink_t = 0.6, sink_start = Some (Vector3 5 0.6 (- 3)), sink_end = Some (Vector3 5 (- 0.5) (- 3))\<rparr> True 5600 False (Some (Vector3 5 0 (- 3))) 0)
   \<and> run (sceneOf 1) (playToSink @ lateShot @ [Frame 6200]) (initState 1 0) =
     Inr (level1State (Vector3 5 (- 0.5) (- 3)) 0.3 (Vector3 5 0 0)
       \<lparr>active = False, sink_t = 1.2, sink_start = Some (Vector3 5 0.6 (- 3)), sink_end = Some (Vector3 5 (- 0.5) (- 3))\<rparr> True 6200 False (Some (Vector3 5 0 (- 3))) 1)
   \<and> run (sceneOf 1) (playToSink @ lateShot @ [Frame 6200, Frame 7200]) (initState 1 0) =
     Inr (level1State (Vector3 8.5 (- 0.5) (- 3)) 0.3 (Vector3 3.5 0 0)
       \<lparr>active = False, sink_t = 1.2, sink_start = Some (Vector3 5 0.6 (- 3)), sink_end = Some (Vector3 5 (- 0.5) (- 3))\<rparr> True 7200 False (Some (Vector3 5 0 (- 3))) 1)
   \<and> run (sceneOf 1) (playToSink @ [Frame 6200, Frame 7200]) (initState 1 0) =
     Inr (level1State (Vector3 5 (- 0.5) (- 3)) 0.3 (Vector3 0 0 0)
       \<lparr>active = False, sink_t = 1.2, sink_start = Some (Vector3 5 0.6 (- 3)), sink_end = Some (Vector3 5 (- 0.5) (- 3))\<rparr> True 7200 False (Some (Vector3 5 0 0)) 1)"
proof -
  have a: "run (sceneOf 1) playToSink (initState 1 0) =
     Inr (level1State (Vector3 5 0.05 (- 3)) 0.65 (Vector3 0 0 0)
       \<lparr>active = True, sink_t = 0.6, sink_start = Some (Vector3 5 0.6 (- 3)), sink_end = Some (Vector3 5 (- 0.5) (- 3))\<rparr> True 5600 False (Some (Vector3 5 0 0)) 0)"
    by (rule run_playToSink)
  have b: "run (sceneOf 1) (playToSink @ lateShot) (initState 1 0) =
     Inr (level1State (Vector3 5 0.05 (- 3)) 0.65 (Vector3 5 0 0)
       \<lparr>active = True, sink_t = 0.6, sink_start = Some (Vector3 5 0.6 (- 3)), sink_end = Some (Vector3 5 (- 0.5) (- 3))\<rparr> True 5600 False (Some (Vector3 5 0 (- 3))) 0)"
    by (simp only: run_append run_playToSink run_lateShot sum.case)
  have c: "run (sceneOf 1) (playToSink @ lateShot @ [Frame 6200]) (initState 1 0) =
     Inr (level1State (Vector3 5 (- 0.5) (- 3)) 0.3 (Vector3 5 0 0)
       \<lparr>active = False, sink_t = 1.2, sink_start = Some (Vector3 5 0.6 (- 3)), sink_end = Some (Vector3 5 (- 0.5) (- 3))\<rparr> True 6200 False (Some (Vector3 5 0 (- 3))) 1)"
    by (simp only: run_append run_playToSink run_lateShot run_sink_completes sum.case)
  have d: "run (sceneOf 1) (playToSink @ lateShot @ [Frame 6200, Frame 7200]) (initState 1 0) =
     Inr (level1State (Vector3 8.5 (- 0.5) (- 3)) 0.3 (Vector3 3.5 0 0)
       \<lparr>active = False, sink_t = 1.2, sink_start = Some (Vector3 5 0.6 (- 3)), sink_end = Some (Vector3 5 (- 0.5) (- 3))\<rparr> True 7200 False (Some (Vector3 5 0 (- 3))) 1)"
    by (rule run_full_round)
  have e: "run (sceneOf 1) (playToSink @ [Frame 6200, Frame 7200]) (initState 1 0) =
     Inr (level1State (Vector3 5 (- 0.5) (- 3)) 0.3 (Vector3 0 0 0)
       \<lparr>active = False, sink_t = 1.2, sink_start = Some (Vector3 5 0.6 (- 3)), sink_end = Some (Vector3 5 (- 0.5) (- 3))\<rparr> True 7200 False (Some (Vector3 5 0 0)) 1)"
    by (simp only: run_append run_playToSink run_quiet sum.case)
  from a b c d e show ?thesis by blast
qed

section \<open>Facts about obstacle contacts and the course bounds\<close>

text \<open>A component of a vector is at most its length; a unit direction has components within one.\<close>

lemma abs_comp_le_length: "\<bar>vx u\<bar> \<le> length_v u \<and> \<bar>vz u\<bar> \<le> length_v u"
proof -
  have x: "vx u * vx u \<le> lengthSq u" and z: "vz u * vz u \<le> lengthSq u"
    by (simp_all add: lengthSq_def)
  have "sqrt (vx u * vx u) \<le> sqrt (lengthSq u)" "sqrt (vz u * vz u) \<le> sqrt (lengthSq u)"
    using x z by (simp_all only: real_sqrt_le_iff)
  then show ?thesis
    by (simp add: length_v_def)
qed

lemma abs_diff_le_distanceTo:
  "\<bar>vx a - vx b\<bar> \<le> distanceTo a b \<and> \<bar>vz a - vz b\<bar> \<le> distanceTo a b"
  using abs_comp_le_length [of "subVectors b a"]
  by (simp add: distanceTo_length subVectors_def abs_minus_commute)

lemma normalize_v_comp: "\<bar>vx (normalize_v w)\<bar> \<le> 1 \<and> \<bar>vz (normalize_v w)\<bar> \<le> 1"
proof (cases "length_v w = 0")
  case True
  then show ?thesis by (simp add: normalize_v_zero)
next
  case False
  then have "length_v (normalize_v w) = 1" by (rule length_v_normalize)
  with abs_comp_le_length [of "normalize_v w"] show ?thesis by simp
qed

lemma distanceTo_le_iff: "0 \<le> r \<Longrightarrow> distanceTo a b \<le> r \<longleftrightarrow> distanceToSquared a b \<le> r * r"
proof -
  assume r: "0 \<le> r"
  have "distanceTo a b \<le> r \<longleftrightarrow> sqrt (distanceToSquared a b) \<le> sqrt (r * r)"
    using r by (simp add: distanceTo_def)
  also have "\<dots> \<longleftrightarrow> distanceToSquared a b \<le> r * r"
    by (rule real_sqrt_le_iff)
  finally show ?thesis .
qed

text \<open>
  A ball in contact with a bounding box that stays \<open>0.65\<close> inside the limit is itself
  within \<open>0.65 - r\<close> of the limit, \<open>r\<close> the contact distance, and a nudge of that
  much along a unit direction keeps it inside.
\<close>

lemma clampPoint_abs:
  "\<bar>vx (clampPoint b p)\<bar> \<le> max \<bar>vx (box_min b)\<bar> \<bar>vx (box_max b)\<bar>
   \<and> \<bar>vz (clampPoint b p)\<bar> \<le> max \<bar>vz (box_min b)\<bar> \<bar>vz (box_max b)\<bar>"
  by (simp add: clampPoint_def max_def min_def abs_if)

lemma contact_inside:
  assumes "insideCourse b" and "distanceTo (clampPoint b p) p \<le> r"
  shows "\<bar>vx p\<bar> \<le> COURSE_LIMIT - 0.65 + r \<and> \<bar>vz p\<bar> \<le> COURSE_LIMIT - 0.65 + r"
proof -
  let ?c = "clampPoint b p"
  have c: "\<bar>vx ?c\<bar> \<le> COURSE_LIMIT - 0.65" "\<bar>vz ?c\<bar> \<le> COURSE_LIMIT - 0.65"
    using assms(1) clampPoint_abs [of b p] by (simp_all add: insideCourse_def max_def split: if_splits)
  have d: "\<bar>vx ?c - vx p\<bar> \<le> r" "\<bar>vz ?c - vz p\<bar> \<le> r"
    using abs_diff_le_distanceTo [of ?c p] assms(2) by linarith+
  from c d show ?thesis by linarith
qed

lemma nudge_inside:
  assumes "\<bar>a\<bar> \<le> l - k" and "\<bar>n\<bar> \<le> 1" and "0 \<le> k"
  shows "\<bar>a + n * k\<bar> \<le> (l::real)"
proof -
  have "\<bar>n * k\<bar> \<le> k"
    using assms(2,3) by (simp add: abs_mult mult_left_le_one_le)
  with assms(1) show ?thesis by linarith
qed

lemma collideObstacle_bounds:
  assumes ins: "displacesBall ob \<longrightarrow> insideCourse (sfo (obstacleMesh ob))"
    and x: "\<bar>vx p\<bar> \<le> COURSE_LIMIT" and z: "\<bar>vz p\<bar> \<le> COURSE_LIMIT"
  shows "\<bar>vx (fst (collideObstacle sfo ob p v))\<bar> \<le> COURSE_LIMIT
       \<and> \<bar>vz (fst (collideObstacle sfo ob p v))\<bar> \<le> COURSE_LIMIT"
proof (cases ob)
  case (Box m)
  show ?thesis
  proof (cases "sphereIntersectsBox sfo p BALL_RADIUS m")
    case False
    then show ?thesis using Box x z by simp
  next
    case True
    then have "distanceTo (clampPoint (sfo m) p) p \<le> 0.6"
      by (simp add: sphereIntersectsBox_def Let_def BALL_RADIUS_def)
    with ins Box have pb: "\<bar>vx p\<bar> \<le> COURSE_LIMIT - 0.65 + 0.6 \<and> \<bar>vz p\<bar> \<le> COURSE_LIMIT - 0.65 + 0.6"
      by (intro contact_inside) simp_all
    define dir0 where "dir0 = normalize_v (setY (subVectors p (position m)) 0)"
    define dir where "dir = (if lengthSq dir0 < EPS then Vector3 1 0 0 else dir0)"
    have dc: "\<bar>vx dir\<bar> \<le> 1 \<and> \<bar>vz dir\<bar> \<le> 1"
      using normalize_v_comp [of "setY (subVectors p (position m)) 0"]
      by (simp add: dir_def dir0_def)
    have r: "fst (collideObstacle sfo ob p v) = add_v p (multiplyScalar dir 0.04)"
      using Box True by (simp add: Let_def dir_def dir0_def)
    have "\<bar>vx p + vx dir * 0.04\<bar> \<le> COURSE_LIMIT"
      by (rule nudge_inside) (use pb dc in simp_all)
    moreover have "\<bar>vz p + vz dir * 0.04\<bar> \<le> COURSE_LIMIT"
      by (rule nudge_inside) (use pb dc in simp_all)
    ultimately show ?thesis
      unfolding r by (simp add: add_v_def multiplyScalar_def)
  qed
next
  case (Rotating m spd)
  show ?thesis
  proof (cases "distanceTo (clampPoint (sfo m) p) p \<le> BALL_RADIUS + 0.02")
    case False
    then show ?thesis using Rotating x z by (simp add: Let_def)
  next
    case True
    then have "distanceTo (clampPoint (sfo m) p) p \<le> 0.62"
      by (simp add: BALL_RADIUS_def)
    with ins Rotating have pb: "\<bar>vx p\<bar> \<le> COURSE_LIMIT - 0.65 + 0.62 \<and> \<bar>vz p\<bar> \<le> COURSE_LIMIT - 0.65 + 0.62"
      by (intro contact_inside) simp_all
    define dir where "dir = normalize_v (setY (subVectors p (position m)) 0)"
    have dc: "\<bar>vx dir\<bar> \<le> 1 \<and> \<bar>vz dir\<bar> \<le> 1"
      unfolding dir_def by (rule normalize_v_comp)
    have r: "fst (collideObstacle sfo ob p v) = add_v p (multiplyScalar dir 0.03)"
      using Rotating True by (simp add: Let_def dir_def)
    have "\<bar>vx p + vx dir * 0.03\<bar> \<le> COURSE_LIMIT"
      by (rule nudge_inside) (use pb dc in simp_all)
    moreover have "\<bar>vz p + vz dir * 0.03\<bar> \<le> COURSE_LIMIT"
      by (rule nudge_inside) (use pb dc in simp_all)
    ultimately show ?thesis
      unfolding r by (simp add: add_v_def multiplyScalar_def)
  qed
next
  case (Moving m ax amplitude spd basePos)
  then show ?thesis using x z collideObstacle_xz [of ob sfo p v] by simp
next
  case (Ramp m width depth0 height0)
  then show ?thesis using x z collideObstacle_xz [of ob sfo p v] by simp
next
  case (Water m c r)
  then show ?thesis using x z collideObstacle_xz [of ob sfo p v] by simp
qed

lemma handleObstacleCollisions_bounds:
  assumes "\<forall>ob \<in> set obs. displacesBall ob \<longrightarrow> insideCourse (sfo (obstacleMesh ob))"
    and "\<bar>vx p\<bar> \<le> COURSE_LIMIT" and "\<bar>vz p\<bar> \<le> COURSE_LIMIT"
  shows "\<bar>vx (fst (handleObstacleCollisions sfo obs p v))\<bar> \<le> COURSE_LIMIT
       \<and> \<bar>vz (fst (handleObstacleCollisions sfo obs p v))\<bar> \<le> COURSE_LIMIT"
  using assms
proof (induction obs arbitrary: p v)
  case Nil
  then show ?case by simp
next
  case (Cons ob obs)
  obtain p1 v1 ob1 where c: "collideObstacle sfo ob p v = (p1, v1, ob1)"
    by (cases "collideObstacle sfo ob p v") auto
  have "displacesBall ob \<longrightarrow> insideCourse (sfo (obstacleMesh ob))"
    using Cons.prems(1) by simp
  with collideObstacle_bounds [of ob sfo p v] Cons.prems(2,3) c
  have p1: "\<bar>vx p1\<bar> \<le> COURSE_LIMIT" "\<bar>vz p1\<bar> \<le> COURSE_LIMIT" by simp_all
  have rest: "\<forall>ob \<in> set obs. displacesBall ob \<longrightarrow> insideCourse (sfo (obstacleMesh ob))"
    using Cons.prems(1) by simp
  have ih: "\<bar>vx (fst (handleObstacleCollisions sfo obs p1 v1))\<bar> \<le> COURSE_LIMIT
       \<and> \<bar>vz (fst (handleObstacleCollisions sfo obs p1 v1))\<bar> \<le> COURSE_LIMIT"
    by (rule Cons.IH [OF rest p1])
  show ?case
    using c ih by (auto split: prod.splits)
qed

lemma physics_bounds:
  assumes na: "\<not> active (sinking s)"
    and ins: "\<forall>ob \<in> set (obstacles s). displacesBall ob \<longrightarrow> insideCourse (setFromObject cfg (obstacleMesh ob))"
    and st: "lengthSq (velocity s) > EPS
             \<or> (\<bar>vx (position (ball s))\<bar> \<le> COURSE_LIMIT \<and> \<bar>vz (position (ball s))\<bar> \<le> COURSE_LIMIT)"
  shows "\<bar>vx (position (ball (physics cfg dt s)))\<bar> \<le> COURSE_LIMIT
       \<and> \<bar>vz (position (ball (physics cfg dt s)))\<bar> \<le> COURSE_LIMIT"
proof -
  let ?f = "localFriction (level cfg) (position (ball s)) (obstacles s)"
  let ?r = "integrate ?f dt (position (ball s)) (velocity s)"
  have b: "\<bar>vx (fst ?r)\<bar> \<le> COURSE_LIMIT \<and> \<bar>vz (fst ?r)\<bar> \<le> COURSE_LIMIT"
    by (rule integrate_keeps_bounds [OF st])
  have "\<bar>vx (fst (handleObstacleCollisions (setFromObject cfg) (obstacles s) (fst ?r) (snd ?r)))\<bar> \<le> COURSE_LIMIT
      \<and> \<bar>vz (fst (handleObstacleCollisions (setFromObject cfg) (obstacles s) (fst ?r) (snd ?r)))\<bar> \<le> COURSE_LIMIT"
    by (rule handleObstacleCollisions_bounds [OF ins]) (use b in simp_all)
  then show ?thesis
    by (simp add: physics_position [OF na])
qed

text \<open>The hull of a turned box reaches at most \<open>(|w| + |d|) / 2\<close> from the mesh position.\<close>

lemma footprint_sum:
  assumes "\<bar>a\<bar> \<le> 1" and "\<bar>b\<bar> \<le> 1"
  shows "\<bar>\<bar>a\<bar> * (\<bar>w\<bar> / 2) + \<bar>b\<bar> * (\<bar>d\<bar> / 2)\<bar> \<le> (\<bar>w\<bar> + \<bar>d\<bar>) / (2::real)"
proof -
  have "\<bar>\<bar>a\<bar> * (\<bar>w\<bar> / 2)\<bar> \<le> \<bar>w\<bar> / 2" and "\<bar>\<bar>b\<bar> * (\<bar>d\<bar> / 2)\<bar> \<le> \<bar>d\<bar> / 2"
    using assms by (simp_all add: abs_mult mult_left_le_one_le)
  then have "\<bar>\<bar>a\<bar> * (\<bar>w\<bar> / 2)\<bar> + \<bar>\<bar>b\<bar> * (\<bar>d\<bar> / 2)\<bar> \<le> \<bar>w\<bar> / 2 + \<bar>d\<bar> / 2"
    by (rule add_mono)
  moreover have "\<bar>\<bar>a\<bar> * (\<bar>w\<bar> / 2) + \<bar>b\<bar> * (\<bar>d\<bar> / 2)\<bar> \<le> \<bar>\<bar>a\<bar> * (\<bar>w\<bar> / 2)\<bar> + \<bar>\<bar>b\<bar> * (\<bar>d\<bar> / 2)\<bar>"
    by (rule abs_triangle_ineq)
  ultimately show ?thesis
    by (simp add: add_divide_distrib)
qed

lemma abs_plus_minus:
  "\<bar>h\<bar> \<le> r \<Longrightarrow> \<bar>c - h\<bar> \<le> \<bar>c\<bar> + r \<and> \<bar>c + h\<bar> \<le> \<bar>c\<bar> + (r::real)"
  by linarith

lemma yawBox_half:
  "\<exists>hx hy hz. yawBox m = \<lparr>box_min = subVectors (position m) (Vector3 hx hy hz),
                              box_max = add_v (position m) (Vector3 hx hy hz)\<rparr>
     \<and> \<bar>hx\<bar> \<le> footprintReach m \<and> \<bar>hz\<bar> \<le> footprintReach m"
proof (cases "geometry m")
  case (BoxGeometry w h d)
  let ?a = "vy (rotation m)"
  have hx: "\<bar>\<bar>cos ?a\<bar> * (\<bar>w\<bar> / 2) + \<bar>sin ?a\<bar> * (\<bar>d\<bar> / 2)\<bar> \<le> (\<bar>w\<bar> + \<bar>d\<bar>) / 2"
    by (rule footprint_sum) simp_all
  have hz: "\<bar>\<bar>sin ?a\<bar> * (\<bar>w\<bar> / 2) + \<bar>cos ?a\<bar> * (\<bar>d\<bar> / 2)\<bar> \<le> (\<bar>w\<bar> + \<bar>d\<bar>) / 2"
    by (rule footprint_sum) simp_all
  have y: "yawBox m = \<lparr>box_min = subVectors (position m)
               (Vector3 (\<bar>cos ?a\<bar> * (\<bar>w\<bar> / 2) + \<bar>sin ?a\<bar> * (\<bar>d\<bar> / 2)) (\<bar>h\<bar> / 2)
                        (\<bar>sin ?a\<bar> * (\<bar>w\<bar> / 2) + \<bar>cos ?a\<bar> * (\<bar>d\<bar> / 2))),
             box_max = add_v (position m)
               (Vector3 (\<bar>cos ?a\<bar> * (\<bar>w\<bar> / 2) + \<bar>sin ?a\<bar> * (\<bar>d\<bar> / 2)) (\<bar>h\<bar> / 2)
                        (\<bar>sin ?a\<bar> * (\<bar>w\<bar> / 2) + \<bar>cos ?a\<bar> * (\<bar>d\<bar> / 2)))\<rparr>"
    by (simp add: yawBox_def Let_def BoxGeometry)
  have f: "footprintReach m = (\<bar>w\<bar> + \<bar>d\<bar>) / 2"
    by (simp add: footprintReach_def BoxGeometry)
  show ?thesis
    using y hx hz unfolding f by blast
next
  case (SphereGeometry r)
  have y: "yawBox m = \<lparr>box_min = subVectors (position m) (Vector3 r r r),
                       box_max = add_v (position m) (Vector3 r r r)\<rparr>"
    by (simp add: yawBox_def unrotatedBox_def Let_def SphereGeometry)
  have f: "footprintReach m = \<bar>r\<bar>"
    by (simp add: footprintReach_def SphereGeometry)
  have "\<bar>r\<bar> \<le> \<bar>r\<bar>" by simp
  then show ?thesis
    using y unfolding f by blast
next
  case (CircleGeometry r)
  have y: "yawBox m = \<lparr>box_min = subVectors (position m) (Vector3 r r 0),
                       box_max = add_v (position m) (Vector3 r r 0)\<rparr>"
    by (simp add: yawBox_def unrotatedBox_def Let_def CircleGeometry)
  have f: "footprintReach m = \<bar>r\<bar>"
    by (simp add: footprintReach_def CircleGeometry)
  have "\<bar>r\<bar> \<le> \<bar>r\<bar>" and "\<bar>0::real\<bar> \<le> \<bar>r\<bar>" by simp_all
  then show ?thesis
    using y unfolding f by blast
qed

lemma yawBox_reach:
  "\<bar>vx (box_min (yawBox m))\<bar> \<le> \<bar>vx (position m)\<bar> + footprintReach m
   \<and> \<bar>vx (box_max (yawBox m))\<bar> \<le> \<bar>vx (position m)\<bar> + footprintReach m
   \<and> \<bar>vz (box_min (yawBox m))\<bar> \<le> \<bar>vz (position m)\<bar> + footprintReach m
   \<and> \<bar>vz (box_max (yawBox m))\<bar> \<le> \<bar>vz (position m)\<bar> + footprintReach m"
proof -
  obtain hx hy hz where y: "yawBox m = \<lparr>box_min = subVectors (position m) (Vector3 hx hy hz),
                              box_max = add_v (position m) (Vector3 hx hy hz)\<rparr>"
    and hx: "\<bar>hx\<bar> \<le> footprintReach m" and hz: "\<bar>hz\<bar> \<le> footprintReach m"
    using yawBox_half [of m] by blast
  show ?thesis
    unfolding y using abs_plus_minus [OF hx, of "vx (position m)"] abs_plus_minus [OF hz, of "vz (position m)"]
    by (simp add: subVectors_def add_v_def)
qed

lemma keepsClear_inside:
  assumes "keepsClear ob" and "displacesBall ob"
    and "\<forall>m. upright m \<longrightarrow> sfo m = yawBox m"
  shows "insideCourse (sfo (obstacleMesh ob))"
proof -
  let ?m = "obstacleMesh ob"
  from assms(1,2) have k: "upright ?m"
    "\<bar>vx (position ?m)\<bar> + footprintReach ?m \<le> COURSE_LIMIT - 0.65"
    "\<bar>vz (position ?m)\<bar> + footprintReach ?m \<le> COURSE_LIMIT - 0.65"
    by (simp_all add: keepsClear_def)
  with assms(3) have e: "sfo ?m = yawBox ?m" by blast
  show ?thesis
    unfolding e insideCourse_def using yawBox_reach [of ?m] k(2,3) by linarith
qed

lemma keepsClear_all_inside:
  assumes "list_all keepsClear obs" and "\<forall>m. upright m \<longrightarrow> sfo m = yawBox m"
  shows "\<forall>ob \<in> set obs. displacesBall ob \<longrightarrow> insideCourse (sfo (obstacleMesh ob))"
  using assms keepsClear_inside [of _ sfo] by (auto simp: list_all_iff)

text \<open>
  Every obstacle of the five levels keeps clear, and the frame's obstacle animation
  (which writes \<^verbatim>\<open>rotation.y\<close> of a plank and one coordinate of a moving block) and the
  collision loop keep it so.
\<close>

lemma keepsClear_levels: "list_all keepsClear (levelObstacles lvl)"
  by (simp add: levelObstacles_def keepsClear_def upright_def footprintReach_def boxMesh_def plank_def
      COURSE_LIMIT_value)

lemma keepsClear_animateObstacle: "keepsClear ob \<Longrightarrow> keepsClear (animateObstacle time dt ob)"
  by (cases ob) (simp_all add: keepsClear_def upright_def footprintReach_def Let_def)

lemma keepsClear_animate_all:
  "list_all keepsClear obs \<Longrightarrow> list_all keepsClear (map (animateObstacle time dt) obs)"
  by (induction obs) (simp_all add: keepsClear_animateObstacle)

lemma keepsClear_collideObstacle:
  "keepsClear ob \<Longrightarrow> keepsClear (snd (snd (collideObstacle sfo ob p v)))"
  by (cases ob) (simp_all add: keepsClear_def Let_def)

lemma keepsClear_handleObstacleCollisions:
  "list_all keepsClear obs \<Longrightarrow> list_all keepsClear (snd (snd (handleObstacleCollisions sfo obs p v)))"
proof (induction obs arbitrary: p v)
  case Nil
  then show ?case by simp
next
  case (Cons ob obs)
  obtain p1 v1 ob1 where c: "collideObstacle sfo ob p v = (p1, v1, ob1)"
    by (cases "collideObstacle sfo ob p v") auto
  have k1: "keepsClear ob1"
    using keepsClear_collideObstacle [of ob sfo p v] Cons.prems c by simp
  have "list_all keepsClear (snd (snd (handleObstacleCollisions sfo obs p1 v1)))"
    using Cons.IH Cons.prems by simp
  with c k1 show ?case
    by (auto split: prod.splits)
qed

lemma physics_obstacles:
  "obstacles (physics cfg dt s) =
     (if active (sinking s) then obstacles s
      else snd (snd (handleObstacleCollisions (setFromObject cfg) (obstacles s)
             (fst (integrate (localFriction (level cfg) (position (ball s)) (obstacles s)) dt
                     (position (ball s)) (velocity s)))
             (snd (integrate (localFriction (level cfg) (position (ball s)) (obstacles s)) dt
                     (position (ball s)) (velocity s))))))"
  by (simp add: physics_def Let_def split: prod.splits)

lemma keepsClear_physics:
  "list_all keepsClear (obstacles s) \<Longrightarrow> list_all keepsClear (obstacles (physics cfg dt s))"
  by (simp add: physics_obstacles keepsClear_handleObstacleCollisions)

lemma holeDetection_obstacles: "obstacles (holeDetection cfg s) = obstacles s"
  by (simp add: holeDetection_def Let_def)

lemma sinkingAnimation_obstacles:
  "sinkingAnimation cfg dt s = Inr s' \<Longrightarrow> obstacles s' = obstacles s"
  by (auto simp: sinkingAnimation_def Let_def split: if_splits option.splits)

lemma onPointerUp_obstacles: "onPointerUp p s = Inr s' \<Longrightarrow> obstacles s' = obstacles s"
  by (cases "isAiming s"; cases "dragStart s") (auto simp: onPointerUp_def Let_def)

text \<open>
  The hole of level 2 lies at \<open>z = -14\<close>, outside the limit, so a ball within the limit is
  never within the hole radius of it; every other hole lies within the limit. Hence the
  end point of a sink animation is within the limit.
\<close>

lemma ballKept_init: "ballKept (initState lvl now0)"
  by (simp add: ballKept_def keepsClear_levels COURSE_LIMIT_value)

lemma ballKept_physics:
  assumes "\<forall>m. upright m \<longrightarrow> setFromObject cfg m = yawBox m" and "ballKept s"
  shows "ballKept (physics cfg dt s)"
proof (cases "active (sinking s)")
  case True
  then show ?thesis using assms(2) by (simp add: physics_active)
next
  case False
  from assms(2) have k: "list_all keepsClear (obstacles s)" by (simp add: ballKept_def)
  from assms(2) False have b: "lengthSq (velocity s) > EPS
      \<or> (\<bar>vx (position (ball s))\<bar> \<le> COURSE_LIMIT \<and> \<bar>vz (position (ball s))\<bar> \<le> COURSE_LIMIT)"
    by (simp add: ballKept_def)
  have i: "\<forall>ob \<in> set (obstacles s). displacesBall ob \<longrightarrow> insideCourse (setFromObject cfg (obstacleMesh ob))"
    by (rule keepsClear_all_inside [OF k assms(1)])
  have "\<bar>vx (position (ball (physics cfg dt s)))\<bar> \<le> COURSE_LIMIT
       \<and> \<bar>vz (position (ball (physics cfg dt s)))\<bar> \<le> COURSE_LIMIT"
    by (rule physics_bounds [OF False i b])
  then show ?thesis
    using False keepsClear_physics [OF k, of cfg dt] by (simp add: ballKept_def physics_fields)
qed

lemma hole_inside:
  assumes "\<bar>vx p\<bar> \<le> COURSE_LIMIT \<and> \<bar>vz p\<bar> \<le> COURSE_LIMIT"
    and "distanceTo p (holePosition lvl) < HOLE_RADIUS"
  shows "\<bar>vx (holePosition lvl)\<bar> \<le> COURSE_LIMIT \<and> \<bar>vz (holePosition lvl)\<bar> \<le> COURSE_LIMIT"
proof (cases "lvl = 2")
  case False
  then show ?thesis by (simp add: holePosition_def COURSE_LIMIT_value)
next
  case True
  have "\<bar>vz p - vz (holePosition lvl)\<bar> \<le> distanceTo p (holePosition lvl)"
    using abs_diff_le_distanceTo [of p "holePosition lvl"] by blast
  with assms(2) have "\<bar>vz p - vz (holePosition lvl)\<bar> < 1.2"
    by (simp add: HOLE_RADIUS_def BALL_RADIUS_def)
  moreover have "vz (holePosition lvl) = - 14"
    using True by (simp add: holePosition_def)
  moreover have "\<bar>vz p\<bar> \<le> 10.4"
    using assms(1) by (simp add: COURSE_LIMIT_value)
  ultimately have False by linarith
  then show ?thesis ..
qed

lemma ballKept_holeDetection:
  assumes "ballKept s"
  shows "ballKept (holeDetection cfg s)"
proof (cases "\<not> holeDone cfg \<and> \<not> active (sinking s) \<and> \<not> holeTriggered s
              \<and> distanceTo (position (ball s)) (holePosition (level cfg)) < HOLE_RADIUS")
  case False
  then have "holeDetection cfg s = s"
    by (auto simp: holeDetection_def Let_def)
  with assms show ?thesis by simp
next
  case True
  with assms have "\<bar>vx (position (ball s))\<bar> \<le> COURSE_LIMIT \<and> \<bar>vz (position (ball s))\<bar> \<le> COURSE_LIMIT"
    by (simp add: ballKept_def)
  then have h: "\<bar>vx (holePosition (level cfg))\<bar> \<le> COURSE_LIMIT \<and> \<bar>vz (holePosition (level cfg))\<bar> \<le> COURSE_LIMIT"
    by (rule hole_inside) (use True in blast)
  from assms have k: "list_all keepsClear (obstacles s)" by (simp add: ballKept_def)
  have a: "active (sinking (holeDetection cfg s))"
    and e: "sink_end (sinking (holeDetection cfg s)) = Some (setY (holePosition (level cfg)) (- 0.5))"
    using True by (simp_all add: holeDetection_def Let_def)
  show ?thesis
    unfolding ballKept_def holeDetection_obstacles using k a e h by (simp add: setY_def)
qed

lemma ballKept_sinkingAnimation:
  assumes "ballKept s" and "sinkingAnimation cfg dt s = Inr s'"
  shows "ballKept s'"
proof (cases "active (sinking s)")
  case False
  with assms show ?thesis by (simp add: sinkingAnimation_idle)
next
  case True
  with assms(1) obtain b where b: "sink_end (sinking s) = Some b"
    and bb: "\<bar>vx b\<bar> \<le> COURSE_LIMIT \<and> \<bar>vz b\<bar> \<le> COURSE_LIMIT"
    by (auto simp: ballKept_def split: option.splits)
  from assms(1) have k: "list_all keepsClear (obstacles s)" by (simp add: ballKept_def)
  have o: "obstacles s' = obstacles s"
    using assms(2) by (rule sinkingAnimation_obstacles)
  show ?thesis
  proof (cases "min 1 ((sink_t (sinking s) + dt) / 1.2) \<ge> 1")
    case t: True
    then have "active (sinking s') = False \<and> position (ball s') = b"
      using assms(2) True b by (auto simp: sinkingAnimation_def Let_def)
    then show ?thesis
      unfolding ballKept_def o using k bb by simp
  next
    case t: False
    then have "active (sinking s') \<and> sink_end (sinking s') = Some b"
      using assms(2) True b by (auto simp: sinkingAnimation_def Let_def)
    then show ?thesis
      unfolding ballKept_def o using k bb by simp
  qed
qed

lemma ballKept_animate:
  assumes "\<forall>m. upright m \<longrightarrow> setFromObject cfg m = yawBox m"
    and "ballKept s" and "animate cfg now s = Inr s'"
  shows "ballKept s'"
proof -
  let ?dt = "(now - last_now s) / 1000"
  let ?s2 = "s\<lparr>last_now := now, obstacleTime := obstacleTime s + ?dt,
                obstacles := map (animateObstacle (obstacleTime s + ?dt) ?dt) (obstacles s)\<rparr>"
  have k2: "ballKept ?s2"
    using assms(2) by (simp add: ballKept_def keepsClear_animate_all)
  have k4: "ballKept (holeDetection cfg (physics cfg ?dt ?s2))"
    by (rule ballKept_holeDetection, rule ballKept_physics [OF assms(1) k2])
  from assms(3) have "sinkingAnimation cfg ?dt (holeDetection cfg (physics cfg ?dt ?s2)) = Inr s'"
    unfolding animate_blocks .
  with k4 show ?thesis by (rule ballKept_sinkingAnimation)
qed

lemma ballKept_cong:
  "obstacles s' = obstacles s \<Longrightarrow> sinking s' = sinking s \<Longrightarrow> ball s' = ball s \<Longrightarrow>
     ballKept s' = ballKept s"
  by (simp add: ballKept_def)

lemma ballKept_step:
  assumes "\<forall>m. upright m \<longrightarrow> setFromObject cfg m = yawBox m"
    and "ballKept s" and "step cfg e s = Inr s'"
  shows "ballKept s'"
proof (cases e)
  case (Frame now)
  with assms show ?thesis using ballKept_animate [of cfg s now s'] by simp
next
  case (PointerDown p)
  then have "s' = onPointerDown p s" using assms(3) by simp
  moreover have "ballKept (onPointerDown p s) = ballKept s"
    by (rule ballKept_cong) (simp_all add: onPointerDown_def)
  ultimately show ?thesis using assms(2) by simp
next
  case (PointerMove p)
  then have "onPointerMove cfg p s = Inr s'" using assms(3) by simp
  then have "ballKept s' = ballKept s"
    using onPointerMove_keeps [of cfg p s s'] by (intro ballKept_cong) simp_all
  with assms(2) show ?thesis by simp
next
  case (PointerUp p)
  then have u: "onPointerUp p s = Inr s'" using assms(3) by simp
  then have "ballKept s' = ballKept s"
    using onPointerUp_keeps [of p s s'] onPointerUp_obstacles [of p s s'] by (intro ballKept_cong) simp_all
  with assms(2) show ?thesis by simp
next
  case Retry
  then have "s' = handleRetry s" using assms(3) by simp
  then show ?thesis
    using assms(2) by (simp add: ballKept_def handleRetry_def COURSE_LIMIT_value)
qed

lemma ballKept_run:
  assumes "\<forall>m. upright m \<longrightarrow> setFromObject cfg m = yawBox m"
  shows "ballKept s \<Longrightarrow> run cfg es s = Inr s' \<Longrightarrow> ballKept s'"
proof (induction es arbitrary: s)
  case Nil
  then show ?case by simp
next
  case (Cons e es)
  from Cons.prems(2) obtain s1 where s1: "step cfg e s = Inr s1" and r: "run cfg es s1 = Inr s'"
    by (auto split: sum.splits)
  have "ballKept s1"
    by (rule ballKept_step [OF assms Cons.prems(1) s1])
  then show ?case
    using r by (rule Cons.IH)
qed

lemma reachable_ballKept:
  assumes "run cfg es (initState lvl now0) = Inr s"
    and "\<forall>m. upright m \<longrightarrow> setFromObject cfg m = yawBox m"
  shows "ballKept s"
  by (rule ballKept_run [OF assms(2) ballKept_init assms(1)])

lemma reachable_bounds:
  assumes "run cfg es (initState lvl now0) = Inr s"
    and "\<forall>m. upright m \<longrightarrow> setFromObject cfg m = yawBox m"
    and "\<not> active (sinking s)"
  shows "\<bar>vx (position (ball s))\<bar> \<le> COURSE_LIMIT \<and> \<bar>vz (position (ball s))\<bar> \<le> COURSE_LIMIT
       \<and> \<bar>vx (position (ball (physics cfg dt s)))\<bar> \<le> COURSE_LIMIT
       \<and> \<bar>vz (position (ball (physics cfg dt s)))\<bar> \<le> COURSE_LIMIT"
proof -
  have k: "ballKept s" by (rule reachable_ballKept [OF assms(1,2)])
  have k': "ballKept (physics cfg dt s)" by (rule ballKept_physics [OF assms(2) k])
  from k assms(3) have a: "\<bar>vx (position (ball s))\<bar> \<le> COURSE_LIMIT \<and> \<bar>vz (position (ball s))\<bar> \<le> COURSE_LIMIT"
    by (simp add: ballKept_def)
  from k' assms(3) have "\<bar>vx (position (ball (physics cfg dt s)))\<bar> \<le> COURSE_LIMIT
       \<and> \<bar>vz (position (ball (physics cfg dt s)))\<bar> \<le> COURSE_LIMIT"
    by (simp add: ballKept_def physics_fields)
  with a show ?thesis by blast
qed

text \<open>The first shot on any level, and the ball at rest against the island of level 4.\<close>

lemma run_firstShot: "run cfg firstShot (initState lvl 0) = Inr (afterFirstShot lvl)"
proof -
  have d: "distanceTo (Vector3 0 0 0) (Vector3 0 BALL_RADIUS 0) < 1.2"
    by (subst distanceTo_less_iff) (simp_all add: distanceToSquared_def BALL_RADIUS_def)
  have s: "setLength (Vector3 (13 / 10) 0 0) (min (13 / 10) 6 * 5) = Vector3 (13 / 2) 0 0"
    by (simp add: setLength_axis_x)
  show ?thesis
    using d s
    by (simp add: firstShot_def afterFirstShot_def initState_def onPointerDown_def onPointerUp_def
        Let_def subVectors_def add_v_def)
qed

lemma island_box:
  "yawBox (boxMesh 1.6 0.4 1.6 (Vector3 (- 4) 0.2 (- 2.8)) (Vector3 0 0 0)) =
     \<lparr>box_min = Vector3 (- 4.8) 0 (- 3.6), box_max = Vector3 (- 3.2) 0.4 (- 2)\<rparr>"
  by (simp add: yawBox_def boxMesh_def Let_def subVectors_def add_v_def)

lemma island_contact:
  "collideObstacle yawBox (Box (boxMesh 1.6 0.4 1.6 (Vector3 (- 4) 0.2 (- 2.8)) (Vector3 0 0 0)))
     (Vector3 (- 4) 0.6 (- 1.7)) (Vector3 0 0 0) =
   (Vector3 (- 4) 0.6 (- 1.66), Vector3 0 0 0,
    Box (boxMesh 1.6 0.4 1.6 (Vector3 (- 4) 0.2 (- 2.8)) (Vector3 0 0 0)))"
proof -
  let ?m = "boxMesh 1.6 0.4 1.6 (Vector3 (- 4) 0.2 (- 2.8)) (Vector3 0 0 0)"
  have c: "clampPoint (yawBox ?m) (Vector3 (- 4) 0.6 (- 1.7)) = Vector3 (- 4) 0.4 (- 2)"
    unfolding island_box by (simp add: clampPoint_def)
  have t: "sphereIntersectsBox yawBox (Vector3 (- 4) 0.6 (- 1.7)) BALL_RADIUS ?m"
    unfolding sphereIntersectsBox_def Let_def c
    by (subst distanceTo_le_iff) (simp_all add: BALL_RADIUS_def distanceToSquared_def)
  have n: "normalize_v (setY (subVectors (Vector3 (- 4) 0.6 (- 1.7)) (position ?m)) 0) = Vector3 0 0 1"
    using setLength_axis_z [of "11 / 10" 1]
    by (simp add: boxMesh_def subVectors_def setY_def setLength_def multiplyScalar_def)
  show ?thesis
    using t unfolding collideObstacle.simps Let_def n
    by (simp add: lengthSq_def EPS_def add_v_def multiplyScalar_def reflect_def dot_def subVectors_def)
qed

lemma physics_atIsland:
  "position (ball (physics (yawScene 4) 1 atIsland)) = Vector3 (- 4) 0.6 (- 1.66)"
proof -
  have na: "\<not> active (sinking atIsland)" by (simp add: atIsland_def)
  have i: "integrate f 1 (Vector3 (- 4) 0.6 (- 1.7)) (Vector3 0 0 0) = (Vector3 (- 4) 0.6 (- 1.7), Vector3 0 0 0)" for f
    by (rule integrate_rest) (simp add: lengthSq_def EPS_def)
  have p: "position (ball atIsland) = Vector3 (- 4) 0.6 (- 1.7)" "velocity atIsland = Vector3 0 0 0"
    "obstacles atIsland = levelObstacles 4" "setFromObject (yawScene 4) = yawBox"
    by (simp_all add: atIsland_def yawScene_def)
  show ?thesis
    by (simp only: physics_position [OF na] p i levelObstacles_4 fst_conv snd_conv
        handleObstacleCollisions.simps collideObstacle.simps(5) island_contact prod.case)
qed

text \<open>
  The margin asked of the bounding boxes is needed for obstacle lists other than the
  shipped ones: a box close to the wall pushes a ball that rests on the limit past it,
  from \<open>x = 10.4\<close> to \<open>x = 10.44\<close>.
\<close>

lemma wall_box:
  "yawBox (boxMesh 1 1 1 (Vector3 9.5 0.6 0) (Vector3 0 0 0)) =
     \<lparr>box_min = Vector3 9 0.1 (- 0.5), box_max = Vector3 10 1.1 0.5\<rparr>"
  by (simp add: yawBox_def boxMesh_def Let_def subVectors_def add_v_def)

lemma wall_box_contact:
  "collideObstacle yawBox (Box (boxMesh 1 1 1 (Vector3 9.5 0.6 0) (Vector3 0 0 0)))
     (Vector3 10.4 0.6 0) (Vector3 0 0 0) =
   (Vector3 10.44 0.6 0, Vector3 0 0 0, Box (boxMesh 1 1 1 (Vector3 9.5 0.6 0) (Vector3 0 0 0)))"
proof -
  let ?m = "boxMesh 1 1 1 (Vector3 9.5 0.6 0) (Vector3 0 0 0)"
  have c: "clampPoint (yawBox ?m) (Vector3 10.4 0.6 0) = Vector3 10 0.6 0"
    unfolding wall_box by (simp add: clampPoint_def)
  have t: "sphereIntersectsBox yawBox (Vector3 10.4 0.6 0) BALL_RADIUS ?m"
    unfolding sphereIntersectsBox_def Let_def c
    by (subst distanceTo_le_iff) (simp_all add: BALL_RADIUS_def distanceToSquared_def)
  have n: "normalize_v (setY (subVectors (Vector3 10.4 0.6 0) (position ?m)) 0) = Vector3 1 0 0"
    using setLength_axis_x [of "9 / 10" 1]
    by (simp add: boxMesh_def subVectors_def setY_def setLength_def multiplyScalar_def)
  show ?thesis
    using t unfolding collideObstacle.simps Let_def n
    by (simp add: lengthSq_def EPS_def add_v_def multiplyScalar_def reflect_def dot_def subVectors_def)
qed

lemma box_at_wall:
  "\<bar>vx (position (ball besideWall))\<bar> \<le> COURSE_LIMIT
   \<and> \<bar>vz (position (ball besideWall))\<bar> \<le> COURSE_LIMIT
   \<and> \<not> active (sinking besideWall)
   \<and> \<not> insideCourse (setFromObject (yawScene 1) (boxMesh 1 1 1 (Vector3 9.5 0.6 0) (Vector3 0 0 0)))
   \<and> position (ball (physics (yawScene 1) 1 besideWall)) = Vector3 10.44 0.6 0
   \<and> \<not> \<bar>vx (position (ball (physics (yawScene 1) 1 besideWall)))\<bar> \<le> COURSE_LIMIT"
proof -
  have na: "\<not> active (sinking besideWall)" by (simp add: besideWall_def)
  have i: "integrate f 1 (Vector3 10.4 0.6 0) (Vector3 0 0 0) = (Vector3 10.4 0.6 0, Vector3 0 0 0)" for f
    by (rule integrate_rest) (simp add: lengthSq_def EPS_def)
  have p: "position (ball besideWall) = Vector3 10.4 0.6 0" "velocity besideWall = Vector3 0 0 0"
    "obstacles besideWall = [Box (boxMesh 1 1 1 (Vector3 9.5 0.6 0) (Vector3 0 0 0))]"
    "setFromObject (yawScene 1) = yawBox"
    by (simp_all add: besideWall_def yawScene_def)
  have r: "position (ball (physics (yawScene 1) 1 besideWall)) = Vector3 10.44 0.6 0"
    by (simp only: physics_position [OF na] p i fst_conv snd_conv
        handleObstacleCollisions.simps wall_box_contact prod.case)
  have b: "\<not> insideCourse (setFromObject (yawScene 1) (boxMesh 1 1 1 (Vector3 9.5 0.6 0) (Vector3 0 0 0)))"
    unfolding p wall_box by (simp add: insideCourse_def COURSE_LIMIT_value)
  show ?thesis
    unfolding r using na b by (simp add: p COURSE_LIMIT_value)
qed

section \<open>C2: the course bounds\<close>

text \<open>
  C2 (as amended). For every pre-step ball position and velocity, after the
  integrator's translation and wall tests the x and z components of the ball position
  lie within \<open>[-limit, limit]\<close>, with \<open>limit = COURSE_SIZE / 2 - 0.6\<close>, whenever the ball
  was moving (squared speed above \<open>1e-6\<close>) or was inside those bounds already. The
  same holds after the whole per-frame physics update (integrator and obstacle
  collisions), outside the sink animation, whenever the bounding box of every box and
  every rotating plank among the obstacles stays \<open>0.65\<close> inside the limit along x and z.
  On every level, in every state that a run of frames, pointer events and retries
  reaches from the level's initial state, outside the sink animation, the x and z
  components lie within the limit, both before and after a further physics update,
  the library's bounding box of an upright box mesh being the hull \<open>yawBox\<close>.
  Nothing bounds the y component.
\<close>

theorem course_bounds:
  "((lengthSq v > EPS \<or> (\<bar>vx p\<bar> \<le> COURSE_LIMIT \<and> \<bar>vz p\<bar> \<le> COURSE_LIMIT)) \<longrightarrow>
       \<bar>vx (fst (integrate f dt p v))\<bar> \<le> COURSE_LIMIT \<and> \<bar>vz (fst (integrate f dt p v))\<bar> \<le> COURSE_LIMIT)
   \<and> (\<not> active (sinking s)
        \<and> (\<forall>ob \<in> set (obstacles s). displacesBall ob \<longrightarrow> insideCourse (setFromObject cfg (obstacleMesh ob)))
        \<and> (lengthSq (velocity s) > EPS
             \<or> (\<bar>vx (position (ball s))\<bar> \<le> COURSE_LIMIT \<and> \<bar>vz (position (ball s))\<bar> \<le> COURSE_LIMIT)) \<longrightarrow>
       \<bar>vx (position (ball (physics cfg dt s)))\<bar> \<le> COURSE_LIMIT
       \<and> \<bar>vz (position (ball (physics cfg dt s)))\<bar> \<le> COURSE_LIMIT)
   \<and> (run cfg' es (initState lvl now0) = Inr s'
        \<and> (\<forall>m. upright m \<longrightarrow> setFromObject cfg' m = yawBox m)
        \<and> \<not> active (sinking s') \<longrightarrow>
       \<bar>vx (position (ball s'))\<bar> \<le> COURSE_LIMIT \<and> \<bar>vz (position (ball s'))\<bar> \<le> COURSE_LIMIT
       \<and> \<bar>vx (position (ball (physics cfg' dt' s')))\<bar> \<le> COURSE_LIMIT
       \<and> \<bar>vz (position (ball (physics cfg' dt' s')))\<bar> \<le> COURSE_LIMIT)"
proof -
  have a: "(lengthSq v > EPS \<or> (\<bar>vx p\<bar> \<le> COURSE_LIMIT \<and> \<bar>vz p\<bar> \<le> COURSE_LIMIT)) \<longrightarrow>
       \<bar>vx (fst (integrate f dt p v))\<bar> \<le> COURSE_LIMIT \<and> \<bar>vz (fst (integrate f dt p v))\<bar> \<le> COURSE_LIMIT"
    using integrate_keeps_bounds [of v p f dt] by blast
  have b: "\<not> active (sinking s)
        \<and> (\<forall>ob \<in> set (obstacles s). displacesBall ob \<longrightarrow> insideCourse (setFromObject cfg (obstacleMesh ob)))
        \<and> (lengthSq (velocity s) > EPS
             \<or> (\<bar>vx (position (ball s))\<bar> \<le> COURSE_LIMIT \<and> \<bar>vz (position (ball s))\<bar> \<le> COURSE_LIMIT)) \<longrightarrow>
       \<bar>vx (position (ball (physics cfg dt s)))\<bar> \<le> COURSE_LIMIT
       \<and> \<bar>vz (position (ball (physics cfg dt s)))\<bar> \<le> COURSE_LIMIT"
    using physics_bounds [of s cfg dt] by blast
  have c: "run cfg' es (initState lvl now0) = Inr s'
        \<and> (\<forall>m. upright m \<longrightarrow> setFromObject cfg' m = yawBox m)
        \<and> \<not> active (sinking s') \<longrightarrow>
       \<bar>vx (position (ball s'))\<bar> \<le> COURSE_LIMIT \<and> \<bar>vz (position (ball s'))\<bar> \<le> COURSE_LIMIT
       \<and> \<bar>vx (position (ball (physics cfg' dt' s')))\<bar> \<le> COURSE_LIMIT
       \<and> \<bar>vz (position (ball (physics cfg' dt' s')))\<bar> \<le> COURSE_LIMIT"
    using reachable_bounds [of cfg' es lvl now0 s' dt'] by blast
  from a b c show ?thesis by (intro conjI)
qed

text \<open>
  The integrator on level 1 with the largest impulse and a frame of one second; the
  physics update on level 4 with the ball at rest against the island, whose contact
  moves the ball from \<open>z = -1.7\<close> to \<open>z = -1.66\<close>; and level 3, with its four planks,
  after a first shot.
\<close>

theorem course_bounds_witness:
  "lengthSq (Vector3 30 0 0) > EPS
   \<and> \<bar>vx (fst (integrate 1.5 1 (Vector3 0 0.6 0) (Vector3 30 0 0)))\<bar> \<le> COURSE_LIMIT
   \<and> \<not> active (sinking atIsland)
   \<and> displacesBall (obstacles atIsland ! 1)
   \<and> insideCourse (setFromObject (yawScene 4) (obstacleMesh (obstacles atIsland ! 1)))
   \<and> \<bar>vx (position (ball atIsland))\<bar> \<le> COURSE_LIMIT \<and> \<bar>vz (position (ball atIsland))\<bar> \<le> COURSE_LIMIT
   \<and> position (ball (physics (yawScene 4) 1 atIsland)) = Vector3 (- 4) 0.6 (- 1.66)
   \<and> \<bar>vx (position (ball (physics (yawScene 4) 1 atIsland)))\<bar> \<le> COURSE_LIMIT
   \<and> \<bar>vz (position (ball (physics (yawScene 4) 1 atIsland)))\<bar> \<le> COURSE_LIMIT
   \<and> run (yawScene 3) firstShot (initState 3 0) = Inr (afterFirstShot 3)
   \<and> \<not> active (sinking (afterFirstShot 3))
   \<and> lengthSq (velocity (afterFirstShot 3)) > EPS
   \<and> \<bar>vx (position (ball (afterFirstShot 3)))\<bar> \<le> COURSE_LIMIT
   \<and> \<bar>vz (position (ball (afterFirstShot 3)))\<bar> \<le> COURSE_LIMIT
   \<and> \<bar>vx (position (ball (physics (yawScene 3) 1 (afterFirstShot 3))))\<bar> \<le> COURSE_LIMIT
   \<and> \<bar>vz (position (ball (physics (yawScene 3) 1 (afterFirstShot 3))))\<bar> \<le> COURSE_LIMIT"
proof -
  note t = course_bounds [of "Vector3 30 0 0" "Vector3 0 0.6 0" "1.5" 1 atIsland "yawScene 4"
      "yawScene 3" firstShot 3 0 "afterFirstShot 3" 1]
  have a: "lengthSq (Vector3 30 0 0) > EPS" by (simp add: lengthSq_def EPS_def)
  from t a have b: "\<bar>vx (fst (integrate 1.5 1 (Vector3 0 0.6 0) (Vector3 30 0 0)))\<bar> \<le> COURSE_LIMIT"
    by blast
  have o: "obstacles atIsland = levelObstacles 4" by (simp add: atIsland_def)
  have c: "\<not> active (sinking atIsland)" by (simp add: atIsland_def)
  have d: "displacesBall (obstacles atIsland ! 1)"
    unfolding o levelObstacles_4 by simp
  have m: "obstacleMesh (obstacles atIsland ! 1) = boxMesh 1.6 0.4 1.6 (Vector3 (- 4) 0.2 (- 2.8)) (Vector3 0 0 0)"
    unfolding o levelObstacles_4 by simp
  have sf: "setFromObject (yawScene 4) = yawBox" by (simp add: yawScene_def)
  have e: "insideCourse (setFromObject (yawScene 4) (obstacleMesh (obstacles atIsland ! 1)))"
    unfolding m sf island_box by (simp add: insideCourse_def COURSE_LIMIT_value)
  have e': "\<forall>ob \<in> set (obstacles atIsland). displacesBall ob \<longrightarrow>
       insideCourse (setFromObject (yawScene 4) (obstacleMesh ob))"
    using e unfolding m o levelObstacles_4 by simp
  have f: "\<bar>vx (position (ball atIsland))\<bar> \<le> COURSE_LIMIT \<and> \<bar>vz (position (ball atIsland))\<bar> \<le> COURSE_LIMIT"
    by (simp add: atIsland_def COURSE_LIMIT_value)
  from t c e' f have g: "\<bar>vx (position (ball (physics (yawScene 4) 1 atIsland)))\<bar> \<le> COURSE_LIMIT
       \<and> \<bar>vz (position (ball (physics (yawScene 4) 1 atIsland)))\<bar> \<le> COURSE_LIMIT"
    by blast
  have h: "run (yawScene 3) firstShot (initState 3 0) = Inr (afterFirstShot 3)"
    by (rule run_firstShot)
  have i: "\<forall>m. upright m \<longrightarrow> setFromObject (yawScene 3) m = yawBox m"
    by (simp add: yawScene_def)
  have j: "\<not> active (sinking (afterFirstShot 3))" by (simp add: afterFirstShot_def)
  have k: "lengthSq (velocity (afterFirstShot 3)) > EPS"
    by (simp add: afterFirstShot_def lengthSq_def EPS_def)
  from t h i j have l: "\<bar>vx (position (ball (afterFirstShot 3)))\<bar> \<le> COURSE_LIMIT
       \<and> \<bar>vz (position (ball (afterFirstShot 3)))\<bar> \<le> COURSE_LIMIT
       \<and> \<bar>vx (position (ball (physics (yawScene 3) 1 (afterFirstShot 3))))\<bar> \<le> COURSE_LIMIT
       \<and> \<bar>vz (position (ball (physics (yawScene 3) 1 (afterFirstShot 3))))\<bar> \<le> COURSE_LIMIT"
    by blast
  from a b c d e f physics_atIsland g h j k l show ?thesis
    by blast
qed

text \<open>
  The claim as stated fails on level 1, with a frame of one second: a ball with
  velocity \<open>(0, 20, 0)\<close> ends at height \<open>19.1\<close>, above the limit \<open>10.4\<close>, since the
  y coordinate is never clamped; and a ball at rest at \<open>x = 20\<close> stays there, since the
  wall tests are inside the branch a resting ball skips.
\<close>

theorem course_bounds_counterexample:
  "vy (position (ball (physics (sceneOf 1) 1 ((initState 1 0)\<lparr>velocity := Vector3 0 20 0\<rparr>)))) = 19.1
   \<and> \<not> vy (position (ball (physics (sceneOf 1) 1 ((initState 1 0)\<lparr>velocity := Vector3 0 20 0\<rparr>)))) \<le> COURSE_LIMIT
   \<and> vx (position (ball (physics (sceneOf 1) 1
        ((initState 1 0)\<lparr>ball := (ball (initState 1 0))\<lparr>position := Vector3 20 0.6 0\<rparr>\<rparr>)))) = 20
   \<and> \<not> vx (position (ball (physics (sceneOf 1) 1
        ((initState 1 0)\<lparr>ball := (ball (initState 1 0))\<lparr>position := Vector3 20 0.6 0\<rparr>\<rparr>)))) \<le> COURSE_LIMIT"
proof -
  have fd: "frictionDecay 1.5 1 (Vector3 0 20 0) = Vector3 0 18.5 0"
    by (simp add: frictionDecay_scale lengthSq_def length_v_def multiplyScalar_def)
  have mv: "lengthSq (Vector3 0 20 0) > EPS"
    by (simp add: lengthSq_def EPS_def)
  have i1: "integrate (3 / 2) 1 (Vector3 0 BALL_RADIUS 0) (Vector3 0 20 0) = (Vector3 0 19.1 0, Vector3 0 18.5 0)"
    using mv fd unfolding integrate_def Let_def
    by (simp add: addScaledVector_def wallCollisions_inside COURSE_LIMIT_value BALL_RADIUS_def)
  have a: "position (ball (physics (sceneOf 1) 1 ((initState 1 0)\<lparr>velocity := Vector3 0 20 0\<rparr>))) = Vector3 0 19.1 0"
    by (simp add: physics_def Let_def i1)
  have i2: "integrate (3 / 2) 1 (Vector3 20 (3 / 5)  0) (Vector3 0 0 0) = (Vector3 20 (3 / 5) 0, Vector3 0 0 0)"
    by (simp add: integrate_rest lengthSq_def EPS_def)
  have b: "position (ball (physics (sceneOf 1) 1
        ((initState 1 0)\<lparr>ball := (ball (initState 1 0))\<lparr>position := Vector3 20 0.6 0\<rparr>\<rparr>))) = Vector3 20 0.6 0"
    by (simp add: physics_def Let_def i2)
  show ?thesis
    unfolding a b by (simp add: COURSE_LIMIT_value)
qed

end
